theory Spec2Isabelle
  imports Main
begin

section \<open>Python values, JSON text and errors\<close>

text \<open>
  The values that travel in the dictionaries handed to the repository
  (\<open>Dict[str, Any]\<close>) and that come back in the dictionaries it returns.
  \<open>PJson v\<close> is the \<open>str\<close> that \<open>json.dumps(v)\<close> produced, \<open>PTime t\<close> the
  \<open>str\<close> that \<open>format_datetime()\<close> produced at clock reading \<open>t\<close>, and
  \<open>PObject\<close> any object the \<open>json\<close> module cannot encode (a \<open>set\<close>,
  \<open>bytes\<close>, an instance of a class).
\<close>

datatype pyval =
    PNone
  | PBool bool
  | PInt int
  | PStr string
  | PJson pyval
  | PTime nat
  | PList "pyval list"
  | PDict "(string \<times> pyval) list"
  | PObject

text \<open>Every exception the modelled code can meet.\<close>

datatype error =
    OperationalError
  | IntegrityError
  | OverflowError
  | TypeError
  | JSONDecodeError

text \<open>
  A TEXT cell that is meant to hold a JSON document: either the text written by
  \<open>json.dumps\<close> for a value, or some other text, which \<open>json.loads\<close> rejects.
\<close>

datatype json_text = JsonText pyval | PlainText string

fun json_serialisable :: "pyval \<Rightarrow> bool" where
  "json_serialisable PObject = False"
| "json_serialisable (PList vs) = list_all json_serialisable vs"
| "json_serialisable (PDict kvs) = list_all json_serialisable (map snd kvs)"
| "json_serialisable _ = True"

definition json_dumps :: "pyval \<Rightarrow> error + json_text" where
  "json_dumps v = (if json_serialisable v then Inr (JsonText v) else Inl TypeError)"

fun json_loads :: "json_text \<Rightarrow> error + pyval" where
  "json_loads (JsonText v) = Inr v"
| "json_loads (PlainText s) = Inl JSONDecodeError"

text \<open>Truth value of a \<open>str\<close>: the empty string is false.\<close>

fun text_truthy :: "json_text \<Rightarrow> bool" where
  "text_truthy (JsonText v) = True"
| "text_truthy (PlainText s) = (s \<noteq> [])"

fun text_value :: "json_text \<Rightarrow> pyval" where
  "text_value (JsonText v) = PJson v"
| "text_value (PlainText s) = PStr s"

section \<open>The tables\<close>

text \<open>
  Modelled from the spec: \<open>schema.sql\<close> is not among the sources. The columns
  are those the statements of \<open>repository.py\<close> and \<open>crud/\<close> name; the spec adds
  that identifiers are auto-incrementing, that \<open>file_path\<close> is unique in
  \<open>source_files\<close> and in \<open>pytest_files\<close>, and that deleting a coverage issue
  deletes its branches.
\<close>

record source_file =
  sf_id :: nat
  sf_file_path :: string
  sf_file_hash :: string
  sf_created_at :: nat
  sf_updated_at :: nat

record pytest_file =
  pf_id :: nat
  pf_file_path :: string
  pf_source_file_id :: "nat option"
  pf_pytest_summary :: json_text
  pf_created_at :: nat
  pf_updated_at :: nat

record pytest_error =
  pe_id :: nat
  pe_node_id :: string
  pe_test_file_id :: nat
  pe_outcome :: string
  pe_error_type :: string
  pe_result :: json_text
  pe_longrepr :: string
  pe_created_at :: nat

record coverage_issue =
  ci_id :: nat
  ci_file_path :: string
  ci_source_file_id :: "nat option"
  ci_line_number :: int
  ci_is_excluded :: bool
  ci_created_at :: nat

record coverage_branch =
  cb_id :: nat
  cb_coverage_issue_id :: nat
  cb_source_line :: int
  cb_end_line :: int
  cb_condition :: string
  cb_branch_type :: string
  cb_created_at :: nat

text \<open>
  A table is its rows, in insertion order, and the largest identifier it has
  handed out.
\<close>

record 'r table =
  rows :: "'r list"
  seq :: nat

definition empty_table :: "'r table" where
  "empty_table = \<lparr>rows = [], seq = 0\<rparr>"

record database =
  schema_loaded :: bool
  source_files :: "source_file table"
  pytest_files :: "pytest_file table"
  pytest_errors :: "pytest_error table"
  coverage_issues :: "coverage_issue table"
  coverage_branches :: "coverage_branch table"

definition max_id :: "('r \<Rightarrow> nat) \<Rightarrow> 'r list \<Rightarrow> nat" where
  "max_id ident rs = fold (\<lambda>r m. max (ident r) m) rs 0"

text \<open>
  Modelled from the spec: the identifier of a new row is one more than the
  largest identifier the table holds or has handed out.
\<close>

definition next_rowid :: "('r \<Rightarrow> nat) \<Rightarrow> 'r table \<Rightarrow> nat" where
  "next_rowid ident t = Suc (max (seq t) (max_id ident (rows t)))"

definition insert_row :: "('r \<Rightarrow> nat) \<Rightarrow> (nat \<Rightarrow> 'r) \<Rightarrow> 'r table \<Rightarrow> nat \<times> 'r table" where
  "insert_row ident mk t =
     (let i = next_rowid ident t in (i, \<lparr>rows = rows t @ [mk i], seq = i\<rparr>))"

definition delete_rows :: "('r \<Rightarrow> bool) \<Rightarrow> 'r table \<Rightarrow> 'r table" where
  "delete_rows p t = t\<lparr>rows := filter (\<lambda>r. \<not> p r) (rows t)\<rparr>"

definition update_rows :: "('r \<Rightarrow> bool) \<Rightarrow> ('r \<Rightarrow> 'r) \<Rightarrow> 'r table \<Rightarrow> 'r table" where
  "update_rows p f t = t\<lparr>rows := map (\<lambda>r. if p r then f r else r) (rows t)\<rparr>"

definition rowcount :: "('r \<Rightarrow> bool) \<Rightarrow> 'r table \<Rightarrow> nat" where
  "rowcount p t = length (filter p (rows t))"

text \<open>\<open>fetchone()\<close> after a \<open>SELECT ... WHERE\<close>: the first matching row, if any.\<close>

definition fetchone :: "('r \<Rightarrow> bool) \<Rightarrow> 'r table \<Rightarrow> 'r option" where
  "fetchone p t = find p (rows t)"

text \<open>\<open>fetchone()\<close> after \<open>SELECT ... WHERE ... ORDER BY id LIMIT 1\<close>.\<close>

fun lowest :: "('r \<Rightarrow> nat) \<Rightarrow> 'r list \<Rightarrow> 'r option" where
  "lowest ident [] = None"
| "lowest ident (r # rs) =
     (case lowest ident rs of
        None \<Rightarrow> Some r
      | Some m \<Rightarrow> if ident r \<le> ident m then Some r else Some m)"

definition fetchone_order_by_id :: "('r \<Rightarrow> nat) \<Rightarrow> ('r \<Rightarrow> bool) \<Rightarrow> 'r table \<Rightarrow> 'r option" where
  "fetchone_order_by_id ident p t = lowest ident (filter p (rows t))"

definition execute_schema :: "database \<Rightarrow> database" where
  "execute_schema d = d\<lparr>schema_loaded := True\<rparr>"

definition empty_database :: database where
  "empty_database =
     \<lparr>schema_loaded = False, source_files = empty_table, pytest_files = empty_table,
      pytest_errors = empty_table, coverage_issues = empty_table,
      coverage_branches = empty_table\<rparr>"

section \<open>The connection and the scoped cursor (db\_manager.py)\<close>

text \<open>
  A \<open>sqlite3\<close> connection: its \<open>isolation_level\<close>, the database as a reader
  sees it now, and, while a transaction is open, the database as it was when
  the transaction began. With \<open>isolation_level = None\<close> the driver never opens
  a transaction by itself and every statement is committed as it runs;
  otherwise the first writing statement opens one. \<open>rollback()\<close> and
  \<open>commit()\<close> do nothing when no transaction is open.

  Underneath, the storage layer can fail at any statement (a locked database,
  a full disk, a missing table). \<open>faults\<close> says, for the statements to come
  and in their order, whether the statement raises and what; \<open>None\<close> is a
  statement that runs, and past the end of the list every statement runs.
  \<open>raised\<close> counts the statements at which the storage layer has failed so.
  A connection is opened with no failure to come.
\<close>

record connection =
  isolation_level :: "string option"
  db :: database
  txn_start :: "database option"
  faults :: "error option list"
  raised :: nat

definition get_connection :: "database \<Rightarrow> string option \<Rightarrow> connection" where
  "get_connection file level =
     \<lparr>isolation_level = level, db = file, txn_start = None, faults = [], raised = 0\<rparr>"

text \<open>\<open>qa_connection = get_connection("mcp_qa")\<close>: the level defaults to \<open>None\<close>.\<close>

definition qa_connection :: "database \<Rightarrow> connection" where
  "qa_connection file = get_connection file None"

definition begin_implicit :: "connection \<Rightarrow> connection" where
  "begin_implicit c =
     (if isolation_level c \<noteq> None \<and> txn_start c = None
      then c\<lparr>txn_start := Some (db c)\<rparr> else c)"

definition commit :: "connection \<Rightarrow> connection" where
  "commit c = c\<lparr>txn_start := None\<rparr>"

definition rollback :: "connection \<Rightarrow> connection" where
  "rollback c =
     (case txn_start c of
        None \<Rightarrow> c
      | Some d \<Rightarrow> c\<lparr>db := d, txn_start := None\<rparr>)"

text \<open>
  The process: the module-level connection and the clock that
  \<open>format_datetime()\<close> reads. A computation takes the process state and
  returns a value or the exception it raised, with the state it left.
\<close>

record world =
  conn :: connection
  clock :: nat

type_synonym 'a py = "world \<Rightarrow> (error + 'a) \<times> world"

definition py_return :: "'a \<Rightarrow> 'a py" where
  "py_return v w = (Inr v, w)"

definition py_raise :: "error \<Rightarrow> 'a py" where
  "py_raise e w = (Inl e, w)"

definition py_bind :: "'a py \<Rightarrow> ('a \<Rightarrow> 'b py) \<Rightarrow> 'b py" where
  "py_bind m f w = (case m w of (Inl e, w') \<Rightarrow> (Inl e, w') | (Inr v, w') \<Rightarrow> f v w')"

text \<open>\<open>try: m  except Exception as e: h e\<close>\<close>

definition py_try :: "'a py \<Rightarrow> (error \<Rightarrow> 'a py) \<Rightarrow> 'a py" where
  "py_try m h w = (case m w of (Inl e, w') \<Rightarrow> h e w' | (Inr v, w') \<Rightarrow> (Inr v, w'))"

definition py_lift :: "error + 'a \<Rightarrow> 'a py" where
  "py_lift r w = (r, w)"

definition format_datetime :: "nat py" where
  "format_datetime w = (Inr (clock w), w\<lparr>clock := Suc (clock w)\<rparr>)"

text \<open>
  Whether the storage layer fails at the statement that is about to run: a
  statement on a database whose tables were never created fails when it is
  prepared (\<open>no such table\<close>); otherwise the next entry of \<open>faults\<close> decides.
\<close>

definition storage_fails :: "world \<Rightarrow> error option \<times> world" where
  "storage_fails w =
     (if \<not> schema_loaded (db (conn w))
      then (Some OperationalError, w\<lparr>conn := (conn w)\<lparr>raised := Suc (raised (conn w))\<rparr>\<rparr>)
      else case faults (conn w) of
             [] \<Rightarrow> (None, w)
           | None # fs \<Rightarrow> (None, w\<lparr>conn := (conn w)\<lparr>faults := fs\<rparr>\<rparr>)
           | Some e # fs \<Rightarrow>
               (Some e, w\<lparr>conn := (conn w)\<lparr>faults := fs, raised := Suc (raised (conn w))\<rparr>\<rparr>))"

text \<open>
  \<open>cursor.execute\<close> of a reading statement and of a writing statement. A
  failure of the storage layer comes before any transaction is opened. The
  statement itself may refuse its parameters or break a constraint; a writing
  statement either fails as a whole or takes effect as a whole.
\<close>

definition execute_read :: "(database \<Rightarrow> error + 'a) \<Rightarrow> 'a py" where
  "execute_read q w =
     (case storage_fails w of
        (Some e, w') \<Rightarrow> (Inl e, w')
      | (None, w') \<Rightarrow> (q (db (conn w')), w'))"

text \<open>A \<open>SELECT\<close> whose parameters always bind.\<close>

definition execute_select :: "(database \<Rightarrow> 'a) \<Rightarrow> 'a py" where
  "execute_select q = execute_read (\<lambda>d. Inr (q d))"

definition execute_write :: "(database \<Rightarrow> error + 'a \<times> database) \<Rightarrow> 'a py" where
  "execute_write stmt w =
     (case storage_fails w of
        (Some e, w') \<Rightarrow> (Inl e, w')
      | (None, w') \<Rightarrow>
          let c = begin_implicit (conn w') in
          (case stmt (db c) of
             Inl e \<Rightarrow> (Inl e, w'\<lparr>conn := c\<rparr>)
           | Inr (v, d) \<Rightarrow> (Inr v, w'\<lparr>conn := c\<lparr>db := d\<rparr>\<rparr>)))"

text \<open>
  \<open>with get_cursor() as cursor: body\<close>: commit when the body ends normally
  (also by \<open>return\<close>), roll back and raise again when it raises.
\<close>

definition get_cursor :: "'a py \<Rightarrow> 'a py" where
  "get_cursor body w =
     (case body w of
        (Inr v, w') \<Rightarrow> (Inr v, w'\<lparr>conn := commit (conn w')\<rparr>)
      | (Inl e, w') \<Rightarrow> (Inl e, w'\<lparr>conn := rollback (conn w')\<rparr>))"

section \<open>The statements\<close>

text \<open>
  Each SQL statement of \<open>repository.py\<close> and \<open>crud/\<close> as a function of the
  database. A writing statement returns \<open>lastrowid\<close> (an \<open>INSERT\<close>) or
  \<open>rowcount\<close> (an \<open>UPDATE\<close> or \<open>DELETE\<close>) with the new database.
  \<open>get_connection\<close> runs \<open>PRAGMA foreign_keys = ON\<close>, so the foreign key of
  \<open>coverage_branches\<close> is enforced: a branch needs its issue, and deleting
  issues deletes their branches.

  \<open>sqlite3\<close> binds a Python \<open>int\<close> as a 64-bit integer and raises
  \<open>OverflowError\<close> for one outside that range, before the statement runs. The
  statements of the coverage tables check the numbers the caller chooses: the
  line numbers of an entry and the identifier handed to
  \<open>delete_coverage_issue\<close>.
\<close>

definition sqlite_int :: "int \<Rightarrow> bool" where
  "sqlite_int n \<longleftrightarrow> - (2 ^ 63) \<le> n \<and> n < 2 ^ 63"

definition sql_select_source_file_by_path :: "string \<Rightarrow> database \<Rightarrow> source_file option" where
  "sql_select_source_file_by_path p d = fetchone (\<lambda>r. sf_file_path r = p) (source_files d)"

text \<open>
  Modelled from the spec: \<open>file_path\<close> is unique in \<open>source_files\<close> and in
  \<open>pytest_files\<close> (the declaration is in \<open>schema.sql\<close>), so the \<open>INSERT\<close> of a
  path the table holds is refused.
\<close>

definition sql_insert_source_file ::
  "string \<Rightarrow> string \<Rightarrow> nat \<Rightarrow> nat \<Rightarrow> database \<Rightarrow> error + nat \<times> database" where
  "sql_insert_source_file p h created updated d =
     (if p \<in> set (map sf_file_path (rows (source_files d))) then Inl IntegrityError
      else let (i, t) = insert_row sf_id
             (\<lambda>i. \<lparr>sf_id = i, sf_file_path = p, sf_file_hash = h,
                   sf_created_at = created, sf_updated_at = updated\<rparr>) (source_files d)
           in Inr (i, d\<lparr>source_files := t\<rparr>))"

definition sql_update_source_file ::
  "string option \<Rightarrow> nat \<Rightarrow> nat \<Rightarrow> database \<Rightarrow> error + nat \<times> database" where
  "sql_update_source_file file_hash updated i d =
     Inr (rowcount (\<lambda>r. sf_id r = i) (source_files d),
          d\<lparr>source_files := update_rows (\<lambda>r. sf_id r = i)
             (\<lambda>r. (case file_hash of None \<Rightarrow> r | Some h \<Rightarrow> r\<lparr>sf_file_hash := h\<rparr>)
                    \<lparr>sf_updated_at := updated\<rparr>) (source_files d)\<rparr>)"

definition sql_select_pytest_file_by_path :: "string \<Rightarrow> database \<Rightarrow> pytest_file option" where
  "sql_select_pytest_file_by_path p d = fetchone (\<lambda>r. pf_file_path r = p) (pytest_files d)"

definition sql_insert_pytest_file ::
  "string \<Rightarrow> nat option \<Rightarrow> json_text \<Rightarrow> nat \<Rightarrow> nat \<Rightarrow> database \<Rightarrow> error + nat \<times> database" where
  "sql_insert_pytest_file p source summary created updated d =
     (if p \<in> set (map pf_file_path (rows (pytest_files d))) then Inl IntegrityError
      else let (i, t) = insert_row pf_id
             (\<lambda>i. \<lparr>pf_id = i, pf_file_path = p, pf_source_file_id = source,
                   pf_pytest_summary = summary, pf_created_at = created,
                   pf_updated_at = updated\<rparr>) (pytest_files d)
           in Inr (i, d\<lparr>pytest_files := t\<rparr>))"

definition sql_update_pytest_file ::
  "nat option \<Rightarrow> json_text option \<Rightarrow> nat \<Rightarrow> nat \<Rightarrow> database \<Rightarrow> error + nat \<times> database" where
  "sql_update_pytest_file source summary updated i d =
     Inr (rowcount (\<lambda>r. pf_id r = i) (pytest_files d),
          d\<lparr>pytest_files := update_rows (\<lambda>r. pf_id r = i)
             (\<lambda>r. let r1 = (case source of None \<Rightarrow> r | Some s \<Rightarrow> r\<lparr>pf_source_file_id := Some s\<rparr>);
                        r2 = (case summary of None \<Rightarrow> r1 | Some s \<Rightarrow> r1\<lparr>pf_pytest_summary := s\<rparr>)
                    in r2\<lparr>pf_updated_at := updated\<rparr>) (pytest_files d)\<rparr>)"

definition sql_delete_pytest_errors :: "(pytest_error \<Rightarrow> bool) \<Rightarrow> database \<Rightarrow> error + nat \<times> database" where
  "sql_delete_pytest_errors p d =
     Inr (rowcount p (pytest_errors d), d\<lparr>pytest_errors := delete_rows p (pytest_errors d)\<rparr>)"

definition sql_insert_pytest_error ::
  "string \<Rightarrow> nat \<Rightarrow> string \<Rightarrow> string \<Rightarrow> json_text \<Rightarrow> string \<Rightarrow> nat \<Rightarrow> database
     \<Rightarrow> error + nat \<times> database" where
  "sql_insert_pytest_error node file outcome etype res longrepr created d =
     (let (i, t) = insert_row pe_id
        (\<lambda>i. \<lparr>pe_id = i, pe_node_id = node, pe_test_file_id = file, pe_outcome = outcome,
              pe_error_type = etype, pe_result = res, pe_longrepr = longrepr,
              pe_created_at = created\<rparr>) (pytest_errors d)
      in Inr (i, d\<lparr>pytest_errors := t\<rparr>))"

definition sql_select_next_pytest_error :: "nat option \<Rightarrow> database \<Rightarrow> pytest_error option" where
  "sql_select_next_pytest_error file d =
     fetchone_order_by_id pe_id
       (\<lambda>r. case file of None \<Rightarrow> True | Some i \<Rightarrow> pe_test_file_id r = i) (pytest_errors d)"

definition sql_insert_coverage_issue ::
  "string \<Rightarrow> nat option \<Rightarrow> int \<Rightarrow> bool \<Rightarrow> nat \<Rightarrow> database \<Rightarrow> error + nat \<times> database" where
  "sql_insert_coverage_issue p source line excluded created d =
     (if \<not> sqlite_int line then Inl OverflowError
      else let (i, t) = insert_row ci_id
             (\<lambda>i. \<lparr>ci_id = i, ci_file_path = p, ci_source_file_id = source,
                   ci_line_number = line, ci_is_excluded = excluded,
                   ci_created_at = created\<rparr>) (coverage_issues d)
           in Inr (i, d\<lparr>coverage_issues := t\<rparr>))"

definition sql_update_coverage_issue ::
  "bool option \<Rightarrow> nat option \<Rightarrow> nat \<Rightarrow> database \<Rightarrow> error + nat \<times> database" where
  "sql_update_coverage_issue is_excluded source i d =
     Inr (rowcount (\<lambda>r. ci_id r = i) (coverage_issues d),
          d\<lparr>coverage_issues := update_rows (\<lambda>r. ci_id r = i)
             (\<lambda>r. let r1 = (case is_excluded of None \<Rightarrow> r | Some b \<Rightarrow> r\<lparr>ci_is_excluded := b\<rparr>)
                    in (case source of None \<Rightarrow> r1 | Some s \<Rightarrow> r1\<lparr>ci_source_file_id := Some s\<rparr>))
             (coverage_issues d)\<rparr>)"

text \<open>
  Modelled from the spec: the foreign key from \<open>coverage_branches\<close> to
  \<open>coverage_issues\<close> is declared in \<open>schema.sql\<close>, which is not among the
  sources. Deleting coverage issues deletes the branches that refer to them.
\<close>

definition sql_delete_coverage_issues :: "(coverage_issue \<Rightarrow> bool) \<Rightarrow> database \<Rightarrow> error + nat \<times> database" where
  "sql_delete_coverage_issues p d =
     (let gone = map ci_id (filter p (rows (coverage_issues d)))
      in Inr (rowcount p (coverage_issues d),
              d\<lparr>coverage_issues := delete_rows p (coverage_issues d),
                coverage_branches :=
                  delete_rows (\<lambda>b. cb_coverage_issue_id b \<in> set gone) (coverage_branches d)\<rparr>))"

text \<open>\<open>DELETE FROM coverage_issues WHERE id = ?\<close> with the identifier bound.\<close>

definition sql_delete_coverage_issue_by_id :: "nat \<Rightarrow> database \<Rightarrow> error + nat \<times> database" where
  "sql_delete_coverage_issue_by_id i d =
     (if \<not> sqlite_int (int i) then Inl OverflowError
      else sql_delete_coverage_issues (\<lambda>r. ci_id r = i) d)"

text \<open>
  Modelled from the spec: by the same foreign key, a branch is refused when no
  coverage issue has the identifier it refers to.
\<close>

definition sql_insert_coverage_branch ::
  "nat \<Rightarrow> int \<Rightarrow> int \<Rightarrow> string \<Rightarrow> string \<Rightarrow> nat \<Rightarrow> database \<Rightarrow> error + nat \<times> database" where
  "sql_insert_coverage_branch issue sline eline cond btype created d =
     (if \<not> (sqlite_int sline \<and> sqlite_int eline) then Inl OverflowError
      else if issue \<notin> set (map ci_id (rows (coverage_issues d))) then Inl IntegrityError
      else let (i, t) = insert_row cb_id
             (\<lambda>i. \<lparr>cb_id = i, cb_coverage_issue_id = issue, cb_source_line = sline,
                   cb_end_line = eline, cb_condition = cond, cb_branch_type = btype,
                   cb_created_at = created\<rparr>) (coverage_branches d)
           in Inr (i, d\<lparr>coverage_branches := t\<rparr>))"

definition sql_select_next_coverage_issue :: "string option \<Rightarrow> database \<Rightarrow> coverage_issue option" where
  "sql_select_next_coverage_issue path d =
     fetchone_order_by_id ci_id
       (\<lambda>r. case path of None \<Rightarrow> True | Some p \<Rightarrow> ci_file_path r = p) (coverage_issues d)"

definition sql_select_coverage_branches :: "nat \<Rightarrow> database \<Rightarrow> coverage_branch list" where
  "sql_select_coverage_branches issue d =
     filter (\<lambda>b. cb_coverage_issue_id b = issue) (rows (coverage_branches d))"

section \<open>The aggregate repository (repository.py)\<close>

text \<open>
  The dictionaries the tool runners hand in, one field for each key the code
  reads; \<open>None\<close> is a key that is absent.
\<close>

record py_test_error =
  te_node_id :: "string option"
  te_outcome :: "string option"
  te_result :: "pyval option"
  te_longrepr :: "string option"

record branch_dict =
  bd_source_line :: "int option"
  bd_end_line :: "int option"
  bd_condition :: "string option"
  bd_branch_type :: "string option"
  bd_parent_issue_id :: "int option"

record coverage_dict = branch_dict +
  cd_type :: "string option"
  cd_line_number :: "int option"
  cd_is_excluded :: "bool option"
  cd_branches :: "branch_dict list option"

text \<open>\<open>d.get(key, default)\<close>\<close>

definition dict_get :: "'a option \<Rightarrow> 'a \<Rightarrow> 'a" where
  "dict_get v dflt = (case v of None \<Rightarrow> dflt | Some x \<Rightarrow> x)"

definition ERROR_TYPE_TEST :: string where
  "ERROR_TYPE_TEST = ''PyTestError''"

text \<open>The loop \<open>for error in test_errors\<close> of \<open>save_test_results_to_db\<close>.\<close>

fun insert_test_errors :: "nat \<Rightarrow> py_test_error list \<Rightarrow> unit py" where
  "insert_test_errors test_file_id [] = py_return ()"
| "insert_test_errors test_file_id (e # es) =
     py_bind (py_lift (json_dumps (dict_get (te_result e) (PList [])))) (\<lambda>res.
     py_bind format_datetime (\<lambda>now.
     py_bind (execute_write
        (sql_insert_pytest_error (dict_get (te_node_id e) '''') test_file_id
           (dict_get (te_outcome e) ''failed'') ERROR_TYPE_TEST res
           (dict_get (te_longrepr e) '''') now)) (\<lambda>_.
     insert_test_errors test_file_id es)))"

definition save_test_results_to_db :: "string \<Rightarrow> pyval \<Rightarrow> py_test_error list \<Rightarrow> unit py" where
  "save_test_results_to_db test_file_path summary_data test_errors =
     get_cursor (
       py_bind (execute_select (sql_select_pytest_file_by_path test_file_path)) (\<lambda>result.
       py_bind (case result of
                  Some row \<Rightarrow> py_return (pf_id row)
                | None \<Rightarrow>
                    py_bind format_datetime (\<lambda>current_time.
                    py_bind (py_lift (json_dumps summary_data)) (\<lambda>summary.
                    execute_write (sql_insert_pytest_file test_file_path None summary
                                     current_time current_time)))) (\<lambda>test_file_id.
       py_bind (py_lift (json_dumps summary_data)) (\<lambda>summary.
       py_bind format_datetime (\<lambda>now.
       py_bind (execute_write (sql_update_pytest_file None (Some summary) now test_file_id)) (\<lambda>_.
       py_bind (execute_write
                  (sql_delete_pytest_errors (\<lambda>r. pe_test_file_id r = test_file_id))) (\<lambda>_.
       insert_test_errors test_file_id test_errors)))))))"

text \<open>The loop \<open>for branch in issue["branches"]\<close>.\<close>

fun insert_branches :: "nat \<Rightarrow> branch_dict list \<Rightarrow> unit py" where
  "insert_branches coverage_issue_id [] = py_return ()"
| "insert_branches coverage_issue_id (b # bs) =
     py_bind format_datetime (\<lambda>now.
     py_bind (execute_write
        (sql_insert_coverage_branch coverage_issue_id (dict_get (bd_source_line b) 0)
           (dict_get (bd_end_line b) 0) (dict_get (bd_condition b) '''')
           (dict_get (bd_branch_type b) '''') now)) (\<lambda>_.
     insert_branches coverage_issue_id bs))"

text \<open>The loop \<open>for issue in line_issues\<close>.\<close>

fun insert_line_issues :: "string \<Rightarrow> nat \<Rightarrow> coverage_dict list \<Rightarrow> unit py" where
  "insert_line_issues source_file_path source_file_id [] = py_return ()"
| "insert_line_issues source_file_path source_file_id (issue # issues) =
     py_bind format_datetime (\<lambda>now.
     py_bind (execute_write
        (sql_insert_coverage_issue source_file_path (Some source_file_id)
           (dict_get (cd_line_number issue) 0) (dict_get (cd_is_excluded issue) False) now))
       (\<lambda>coverage_issue_id.
     py_bind (case cd_branches issue of
                None \<Rightarrow> py_return ()
              | Some bs \<Rightarrow> if bs \<noteq> [] then insert_branches coverage_issue_id bs
                          else py_return ()) (\<lambda>_.
     insert_line_issues source_file_path source_file_id issues)))"

text \<open>The loop \<open>for branch in branch_issues\<close>.\<close>

fun insert_branch_issues :: "string \<Rightarrow> nat \<Rightarrow> coverage_dict list \<Rightarrow> unit py" where
  "insert_branch_issues source_file_path source_file_id [] = py_return ()"
| "insert_branch_issues source_file_path source_file_id (branch # branches) =
     py_bind (if bd_parent_issue_id branch = None then
                py_bind format_datetime (\<lambda>now.
                py_bind (execute_write
                   (sql_insert_coverage_issue source_file_path (Some source_file_id)
                      (dict_get (bd_source_line branch) 0) False now)) (\<lambda>coverage_issue_id.
                py_bind format_datetime (\<lambda>now'.
                py_bind (execute_write
                   (sql_insert_coverage_branch coverage_issue_id
                      (dict_get (bd_source_line branch) 0) (dict_get (bd_end_line branch) 0)
                      (dict_get (bd_condition branch) '''')
                      (dict_get (bd_branch_type branch) '''') now')) (\<lambda>_.
                py_return ()))))
              else py_return ()) (\<lambda>_.
     insert_branch_issues source_file_path source_file_id branches)"

definition save_coverage_issues_to_db :: "string \<Rightarrow> coverage_dict list \<Rightarrow> unit py" where
  "save_coverage_issues_to_db source_file_path coverage_issues_arg =
     get_cursor (
       py_bind (execute_select (sql_select_source_file_by_path source_file_path)) (\<lambda>result.
       py_bind (case result of
                  Some row \<Rightarrow> py_return (sf_id row)
                | None \<Rightarrow>
                    py_bind format_datetime (\<lambda>current_time.
                    execute_write (sql_insert_source_file source_file_path ''''
                                     current_time current_time))) (\<lambda>source_file_id.
       let line_issues =
             filter (\<lambda>issue. dict_get (cd_type issue) '''' = ''CoverageIssue'') coverage_issues_arg;
           branch_issues =
             filter (\<lambda>issue. dict_get (cd_type issue) '''' = ''CoverageBranch'') coverage_issues_arg
       in
       py_bind (execute_write
                  (sql_delete_coverage_issues (\<lambda>r. ci_file_path r = source_file_path))) (\<lambda>_.
       py_bind (insert_line_issues source_file_path source_file_id line_issues) (\<lambda>_.
       insert_branch_issues source_file_path source_file_id branch_issues)))))"

text \<open>
  The dictionaries the repository returns: \<open>dict(row)\<close> for a row of each
  table, and item assignment \<open>d[key] = value\<close>.
\<close>

type_synonym pydict = "(string \<times> pyval) list"

fun dict_set :: "string \<Rightarrow> pyval \<Rightarrow> pydict \<Rightarrow> pydict" where
  "dict_set k v [] = [(k, v)]"
| "dict_set k v ((k', v') # kvs) =
     (if k' = k then (k, v) # kvs else (k', v') # dict_set k v kvs)"

definition dict_keys :: "pydict \<Rightarrow> string list" where
  "dict_keys d = map fst d"

definition pytest_error_dict :: "pytest_error \<Rightarrow> pydict" where
  "pytest_error_dict r =
     [(''id'', PInt (int (pe_id r))), (''node_id'', PStr (pe_node_id r)),
      (''test_file_id'', PInt (int (pe_test_file_id r))), (''outcome'', PStr (pe_outcome r)),
      (''error_type'', PStr (pe_error_type r)), (''result'', text_value (pe_result r)),
      (''longrepr'', PStr (pe_longrepr r)), (''created_at'', PTime (pe_created_at r))]"

definition coverage_branch_dict :: "coverage_branch \<Rightarrow> pydict" where
  "coverage_branch_dict r =
     [(''id'', PInt (int (cb_id r))),
      (''coverage_issue_id'', PInt (int (cb_coverage_issue_id r))),
      (''source_line'', PInt (cb_source_line r)), (''end_line'', PInt (cb_end_line r)),
      (''condition'', PStr (cb_condition r)), (''branch_type'', PStr (cb_branch_type r)),
      (''created_at'', PTime (cb_created_at r))]"

definition coverage_issue_dict :: "coverage_issue \<Rightarrow> pydict" where
  "coverage_issue_dict r =
     [(''id'', PInt (int (ci_id r))), (''file_path'', PStr (ci_file_path r)),
      (''source_file_id'',
         (case ci_source_file_id r of None \<Rightarrow> PNone | Some i \<Rightarrow> PInt (int i))),
      (''line_number'', PInt (ci_line_number r)),
      (''is_excluded'', PInt (if ci_is_excluded r then 1 else 0)),
      (''created_at'', PTime (ci_created_at r))]"

text \<open>The two rows \<open>get_pytest_file\<close> and \<open>get_source_file\<close> select, as dictionaries.\<close>

definition pytest_file_dict :: "pytest_file \<Rightarrow> pydict" where
  "pytest_file_dict r =
     [(''id'', PInt (int (pf_id r))), (''file_path'', PStr (pf_file_path r)),
      (''source_file_id'',
         (case pf_source_file_id r of None \<Rightarrow> PNone | Some i \<Rightarrow> PInt (int i))),
      (''pytest_summary'', text_value (pf_pytest_summary r)),
      (''created_at'', PTime (pf_created_at r)), (''updated_at'', PTime (pf_updated_at r))]"

definition source_file_dict :: "source_file \<Rightarrow> pydict" where
  "source_file_dict r =
     [(''id'', PInt (int (sf_id r))), (''file_path'', PStr (sf_file_path r)),
      (''file_hash'', PStr (sf_file_hash r)),
      (''created_at'', PTime (sf_created_at r)), (''updated_at'', PTime (sf_updated_at r))]"

definition sql_select_pytest_errors_by_test_file :: "nat \<Rightarrow> database \<Rightarrow> pytest_error list" where
  "sql_select_pytest_errors_by_test_file i d =
     filter (\<lambda>r. pe_test_file_id r = i) (rows (pytest_errors d))"

definition sql_select_coverage_issues_by_source_file ::
  "nat \<Rightarrow> database \<Rightarrow> coverage_issue list" where
  "sql_select_coverage_issues_by_source_file i d =
     filter (\<lambda>r. ci_source_file_id r = Some i) (rows (coverage_issues d))"

definition get_pytest_file :: "string \<Rightarrow> pydict option py" where
  "get_pytest_file file_path =
     get_cursor (
       py_bind (execute_select (sql_select_pytest_file_by_path file_path)) (\<lambda>result.
       case result of
         None \<Rightarrow> py_return None
       | Some row \<Rightarrow>
           py_bind (execute_select (sql_select_pytest_errors_by_test_file (pf_id row)))
             (\<lambda>test_errors.
           let test_file = dict_set ''test_errors''
                 (PList (map (PDict \<circ> pytest_error_dict) test_errors)) (pytest_file_dict row)
           in if text_truthy (pf_pytest_summary row) then
                py_bind (py_lift (json_loads (pf_pytest_summary row))) (\<lambda>v.
                py_return (Some (dict_set ''pytest_summary'' v test_file)))
              else py_return (Some test_file))))"

text \<open>The loop \<open>for issue_row in cursor.fetchall()\<close> of \<open>get_source_file\<close>.\<close>

fun collect_coverage_issues :: "coverage_issue list \<Rightarrow> pyval list \<Rightarrow> pyval list py" where
  "collect_coverage_issues [] coverage_issues_acc = py_return coverage_issues_acc"
| "collect_coverage_issues (issue_row # issue_rows) coverage_issues_acc =
     py_bind (execute_select (sql_select_coverage_branches (ci_id issue_row))) (\<lambda>branches.
     collect_coverage_issues issue_rows
       (coverage_issues_acc @
        [PDict (dict_set ''branches'' (PList (map (PDict \<circ> coverage_branch_dict) branches))
                  (coverage_issue_dict issue_row))]))"

definition get_source_file :: "string \<Rightarrow> pydict option py" where
  "get_source_file file_path =
     get_cursor (
       py_bind (execute_select (sql_select_source_file_by_path file_path)) (\<lambda>result.
       case result of
         None \<Rightarrow> py_return None
       | Some row \<Rightarrow>
           py_bind (execute_select (sql_select_coverage_issues_by_source_file (sf_id row)))
             (\<lambda>issue_rows.
           py_bind (collect_coverage_issues issue_rows []) (\<lambda>coverage_issues_list.
           py_return (Some (dict_set ''coverage_issues'' (PList coverage_issues_list)
                             (source_file_dict row)))))))"

definition get_next_pytest_error :: "pytest_file \<Rightarrow> pydict option py" where
  "get_next_pytest_error test_file =
     get_cursor (
       py_bind (execute_select (sql_select_next_pytest_error (Some (pf_id test_file)))) (\<lambda>result.
       case result of
         Some row \<Rightarrow>
           if text_truthy (pe_result row) then
             py_bind (py_lift (json_loads (pe_result row))) (\<lambda>v.
             py_return (Some (dict_set ''result'' v (pytest_error_dict row))))
           else py_return (Some (pytest_error_dict row))
       | None \<Rightarrow> py_return None))"

definition connection_commit :: "unit py" where
  "connection_commit w = (Inr (), w\<lparr>conn := commit (conn w)\<rparr>)"

definition delete_pytest_error :: "string \<Rightarrow> nat py" where
  "delete_pytest_error node_id =
     get_cursor (
       py_bind (execute_write (sql_delete_pytest_errors (\<lambda>r. pe_node_id r = node_id))) (\<lambda>n.
       let count = 0 + n in
       if count = 0 then py_return 0
       else py_bind connection_commit (\<lambda>_. py_return count)))"

definition get_next_coverage_issue :: "string option \<Rightarrow> pydict option py" where
  "get_next_coverage_issue file_path =
     get_cursor (
       py_try (
         py_bind (execute_select
                    (sql_select_next_coverage_issue
                       (case file_path of
                          None \<Rightarrow> None
                        | Some p \<Rightarrow> if p \<noteq> [] then Some p else None))) (\<lambda>result.
         case result of
           Some row \<Rightarrow>
             py_bind (execute_select (sql_select_coverage_branches (ci_id row))) (\<lambda>branches.
             py_return (Some (dict_set ''branches'' (PList (map (PDict \<circ> coverage_branch_dict) branches))
                               (coverage_issue_dict row))))
         | None \<Rightarrow> py_return None))
         (\<lambda>e. py_return None))"

definition get_next_pytest_error_dict :: "pytest_file option \<Rightarrow> pydict py" where
  "get_next_pytest_error_dict test_file =
     get_cursor (
       py_bind (execute_select (sql_select_next_pytest_error (map_option pf_id test_file))) (\<lambda>result.
       case result of
         Some row \<Rightarrow>
           py_bind (if text_truthy (pe_result row) then
                      py_bind (py_try (py_lift (json_loads (pe_result row)))
                                 (\<lambda>e. if e = JSONDecodeError then py_return (PList [])
                                      else py_raise e)) (\<lambda>v.
                      py_return (dict_set ''result'' v (pytest_error_dict row)))
                    else py_return (pytest_error_dict row)) (\<lambda>error.
           py_return (dict_set ''error_type'' (PStr ERROR_TYPE_TEST) error))
       | None \<Rightarrow> py_return [(''Success'', PStr ''No pytest errors were found'')]))"

definition save_source_file_to_db :: "string \<Rightarrow> nat option py" where
  "save_source_file_to_db source_path =
     py_try (
       get_cursor (
         py_bind (execute_select (sql_select_source_file_by_path source_path)) (\<lambda>result.
         case result of
           None \<Rightarrow>
             py_bind format_datetime (\<lambda>current_time.
             py_bind (execute_write (sql_insert_source_file source_path ''''
                                       current_time current_time)) (\<lambda>source_file_id.
             py_return (Some source_file_id)))
         | Some row \<Rightarrow> py_return (Some (sf_id row)))))
       (\<lambda>e. py_return None)"

definition save_test_file_to_db :: "string \<Rightarrow> string \<Rightarrow> nat option py" where
  "save_test_file_to_db test_path source_path =
     py_try (
       py_bind (save_source_file_to_db source_path) (\<lambda>source_file_id.
       get_cursor (
         py_bind (execute_select (sql_select_pytest_file_by_path test_path)) (\<lambda>result.
         case result of
           None \<Rightarrow>
             py_bind format_datetime (\<lambda>current_time.
             py_bind (execute_write (sql_insert_pytest_file test_path source_file_id
                                       (JsonText (PDict [])) current_time current_time))
               (\<lambda>test_file_id.
             py_return (Some test_file_id)))
         | Some row \<Rightarrow> py_return (Some (pf_id row))))))
       (\<lambda>e. py_return None)"

section \<open>The entity repositories (crud/)\<close>

definition update_source_file :: "nat \<Rightarrow> string option \<Rightarrow> bool py" where
  "update_source_file file_id file_hash =
     py_bind format_datetime (\<lambda>current_time.
     get_cursor (
       py_bind (execute_write (sql_update_source_file file_hash current_time file_id)) (\<lambda>n.
       py_return (n > 0))))"

definition update_pytest_file :: "nat \<Rightarrow> nat option \<Rightarrow> json_text option \<Rightarrow> bool py" where
  "update_pytest_file file_id source_file_id pytest_summary =
     py_bind format_datetime (\<lambda>current_time.
     get_cursor (
       py_bind (execute_write
                  (sql_update_pytest_file source_file_id pytest_summary current_time file_id)) (\<lambda>n.
       py_return (n > 0))))"

definition update_coverage_issue :: "nat \<Rightarrow> bool option \<Rightarrow> nat option \<Rightarrow> bool py" where
  "update_coverage_issue issue_id is_excluded source_file_id =
     (if is_excluded = None \<and> source_file_id = None then py_return False
      else get_cursor (
        py_bind (execute_write (sql_update_coverage_issue is_excluded source_file_id issue_id)) (\<lambda>n.
        py_return (n > 0))))"

definition delete_coverage_issue :: "nat \<Rightarrow> bool py" where
  "delete_coverage_issue issue_id =
     get_cursor (
       py_bind (execute_write (sql_delete_coverage_issue_by_id issue_id)) (\<lambda>n.
       py_return (n > 0)))"

text \<open>
  The other operations of \<open>crud/\<close>. Each runs one statement in a scoped cursor
  and returns what the cursor reports: \<open>lastrowid\<close>, \<open>rowcount\<close>, a row as a
  dictionary, or the rows. What the statement does to the tables is decided by
  \<open>schema.sql\<close>, which is not among the sources, so the statement is the first
  parameter of each operation; it takes the values the operation binds, in the
  order of the source, and may refuse them.
\<close>

type_synonym 'a reading = "database \<Rightarrow> error + 'a"

type_synonym 'a writing = "database \<Rightarrow> error + 'a \<times> database"

subsection \<open>source\_files.py\<close>

definition create_source_file ::
  "(string \<Rightarrow> string \<Rightarrow> nat \<Rightarrow> nat \<Rightarrow> nat writing) \<Rightarrow> string \<Rightarrow> string \<Rightarrow> nat py" where
  "create_source_file statement file_path file_hash =
     py_bind format_datetime (\<lambda>current_time.
     get_cursor (
       py_bind (execute_write (statement file_path file_hash current_time current_time)) (\<lambda>lastrowid.
       py_return lastrowid)))"

definition get_source_file_by_id :: "(int \<Rightarrow> pydict option reading) \<Rightarrow> int \<Rightarrow> pydict option py" where
  "get_source_file_by_id statement file_id =
     get_cursor (
       py_bind (execute_read (statement file_id)) (\<lambda>row.
       case row of Some r \<Rightarrow> py_return (Some r) | None \<Rightarrow> py_return None))"

definition get_source_file_by_path :: "(string \<Rightarrow> pydict option reading) \<Rightarrow> string \<Rightarrow> pydict option py" where
  "get_source_file_by_path statement file_path =
     get_cursor (
       py_bind (execute_read (statement file_path)) (\<lambda>row.
       case row of Some r \<Rightarrow> py_return (Some r) | None \<Rightarrow> py_return None))"

definition delete_source_file :: "(int \<Rightarrow> nat writing) \<Rightarrow> int \<Rightarrow> bool py" where
  "delete_source_file statement file_id =
     get_cursor (
       py_bind (execute_write (statement file_id)) (\<lambda>n.
       py_return (n > 0)))"

definition list_source_files :: "(int \<Rightarrow> int \<Rightarrow> pydict list reading) \<Rightarrow> int \<Rightarrow> int \<Rightarrow> pydict list py" where
  "list_source_files statement limit offset =
     get_cursor (
       py_bind (execute_read (statement limit offset)) (\<lambda>rows_fetched.
       py_return rows_fetched))"

subsection \<open>pytest\_files.py\<close>

definition create_pytest_file ::
  "(string \<Rightarrow> int option \<Rightarrow> string \<Rightarrow> nat \<Rightarrow> nat \<Rightarrow> nat writing) \<Rightarrow> string \<Rightarrow> int option \<Rightarrow> string \<Rightarrow> nat py" where
  "create_pytest_file statement file_path source_file_id pytest_summary =
     py_bind format_datetime (\<lambda>current_time.
     get_cursor (
       py_bind (execute_write (statement file_path source_file_id pytest_summary current_time current_time)) (\<lambda>lastrowid.
       py_return lastrowid)))"

definition get_pytest_file_by_id :: "(int \<Rightarrow> pydict option reading) \<Rightarrow> int \<Rightarrow> pydict option py" where
  "get_pytest_file_by_id statement file_id =
     get_cursor (
       py_bind (execute_read (statement file_id)) (\<lambda>row.
       case row of Some r \<Rightarrow> py_return (Some r) | None \<Rightarrow> py_return None))"

definition get_pytest_file_by_path :: "(string \<Rightarrow> pydict option reading) \<Rightarrow> string \<Rightarrow> pydict option py" where
  "get_pytest_file_by_path statement file_path =
     get_cursor (
       py_bind (execute_read (statement file_path)) (\<lambda>row.
       case row of Some r \<Rightarrow> py_return (Some r) | None \<Rightarrow> py_return None))"

definition get_pytest_files_by_source_id :: "(int \<Rightarrow> pydict list reading) \<Rightarrow> int \<Rightarrow> pydict list py" where
  "get_pytest_files_by_source_id statement source_file_id =
     get_cursor (
       py_bind (execute_read (statement source_file_id)) (\<lambda>rows_fetched.
       py_return rows_fetched))"

definition delete_pytest_file :: "(int \<Rightarrow> nat writing) \<Rightarrow> int \<Rightarrow> bool py" where
  "delete_pytest_file statement file_id =
     get_cursor (
       py_bind (execute_write (statement file_id)) (\<lambda>n.
       py_return (n > 0)))"

definition list_pytest_files :: "(int \<Rightarrow> int \<Rightarrow> pydict list reading) \<Rightarrow> int \<Rightarrow> int \<Rightarrow> pydict list py" where
  "list_pytest_files statement limit offset =
     get_cursor (
       py_bind (execute_read (statement limit offset)) (\<lambda>rows_fetched.
       py_return rows_fetched))"

subsection \<open>pytest\_errors.py\<close>

text \<open>
  \<open>delete_pytest_error\<close> of this module takes an identifier; the operation of
  the same name in \<open>repository.py\<close> takes a node id.
\<close>

definition create_pytest_error ::
  "(string \<Rightarrow> int \<Rightarrow> string \<Rightarrow> string \<Rightarrow> string \<Rightarrow> string \<Rightarrow> nat \<Rightarrow> nat writing) \<Rightarrow> string \<Rightarrow> int \<Rightarrow> string \<Rightarrow> string \<Rightarrow> string \<Rightarrow> string \<Rightarrow> nat py" where
  "create_pytest_error statement node_id test_file_id outcome error_type result longrepr =
     py_bind format_datetime (\<lambda>current_time.
     get_cursor (
       py_bind (execute_write (statement node_id test_file_id outcome error_type result longrepr current_time)) (\<lambda>lastrowid.
       py_return lastrowid)))"

definition get_pytest_error_by_id :: "(int \<Rightarrow> pydict option reading) \<Rightarrow> int \<Rightarrow> pydict option py" where
  "get_pytest_error_by_id statement error_id =
     get_cursor (
       py_bind (execute_read (statement error_id)) (\<lambda>row.
       case row of Some r \<Rightarrow> py_return (Some r) | None \<Rightarrow> py_return None))"

definition get_pytest_error_by_node_id :: "(string \<Rightarrow> pydict option reading) \<Rightarrow> string \<Rightarrow> pydict option py" where
  "get_pytest_error_by_node_id statement node_id =
     get_cursor (
       py_bind (execute_read (statement node_id)) (\<lambda>row.
       case row of Some r \<Rightarrow> py_return (Some r) | None \<Rightarrow> py_return None))"

definition get_pytest_errors_by_test_file_id :: "(int \<Rightarrow> pydict list reading) \<Rightarrow> int \<Rightarrow> pydict list py" where
  "get_pytest_errors_by_test_file_id statement test_file_id =
     get_cursor (
       py_bind (execute_read (statement test_file_id)) (\<lambda>rows_fetched.
       py_return rows_fetched))"

definition delete_pytest_error_crud :: "(int \<Rightarrow> nat writing) \<Rightarrow> int \<Rightarrow> bool py" where
  "delete_pytest_error_crud statement error_id =
     get_cursor (
       py_bind (execute_write (statement error_id)) (\<lambda>n.
       py_return (n > 0)))"

definition delete_pytest_errors_by_test_file_id :: "(int \<Rightarrow> nat writing) \<Rightarrow> int \<Rightarrow> nat py" where
  "delete_pytest_errors_by_test_file_id statement test_file_id =
     get_cursor (
       py_bind (execute_write (statement test_file_id)) (\<lambda>n.
       py_return n))"

definition list_pytest_errors :: "(int \<Rightarrow> int \<Rightarrow> pydict list reading) \<Rightarrow> int \<Rightarrow> int \<Rightarrow> pydict list py" where
  "list_pytest_errors statement limit offset =
     get_cursor (
       py_bind (execute_read (statement limit offset)) (\<lambda>rows_fetched.
       py_return rows_fetched))"

subsection \<open>pytest\_collection\_errors.py\<close>

definition create_collection_error ::
  "(string \<Rightarrow> int \<Rightarrow> string \<Rightarrow> string \<Rightarrow> string \<Rightarrow> string \<Rightarrow> nat \<Rightarrow> nat writing) \<Rightarrow> string \<Rightarrow> int \<Rightarrow> string \<Rightarrow> string \<Rightarrow> string \<Rightarrow> string \<Rightarrow> nat py" where
  "create_collection_error statement node_id test_file_id outcome error_type result longrepr =
     py_bind format_datetime (\<lambda>current_time.
     get_cursor (
       py_bind (execute_write (statement node_id test_file_id outcome error_type result longrepr current_time)) (\<lambda>lastrowid.
       py_return lastrowid)))"

definition get_collection_error_by_id :: "(int \<Rightarrow> pydict option reading) \<Rightarrow> int \<Rightarrow> pydict option py" where
  "get_collection_error_by_id statement error_id =
     get_cursor (
       py_bind (execute_read (statement error_id)) (\<lambda>row.
       case row of Some r \<Rightarrow> py_return (Some r) | None \<Rightarrow> py_return None))"

definition get_collection_error_by_node_id :: "(string \<Rightarrow> pydict option reading) \<Rightarrow> string \<Rightarrow> pydict option py" where
  "get_collection_error_by_node_id statement node_id =
     get_cursor (
       py_bind (execute_read (statement node_id)) (\<lambda>row.
       case row of Some r \<Rightarrow> py_return (Some r) | None \<Rightarrow> py_return None))"

definition get_collection_errors_by_test_file_id :: "(int \<Rightarrow> pydict list reading) \<Rightarrow> int \<Rightarrow> pydict list py" where
  "get_collection_errors_by_test_file_id statement test_file_id =
     get_cursor (
       py_bind (execute_read (statement test_file_id)) (\<lambda>rows_fetched.
       py_return rows_fetched))"

definition delete_collection_error :: "(int \<Rightarrow> nat writing) \<Rightarrow> int \<Rightarrow> bool py" where
  "delete_collection_error statement error_id =
     get_cursor (
       py_bind (execute_write (statement error_id)) (\<lambda>n.
       py_return (n > 0)))"

definition delete_collection_errors_by_test_file_id :: "(int \<Rightarrow> nat writing) \<Rightarrow> int \<Rightarrow> nat py" where
  "delete_collection_errors_by_test_file_id statement test_file_id =
     get_cursor (
       py_bind (execute_write (statement test_file_id)) (\<lambda>n.
       py_return n))"

definition list_collection_errors :: "(int \<Rightarrow> int \<Rightarrow> pydict list reading) \<Rightarrow> int \<Rightarrow> int \<Rightarrow> pydict list py" where
  "list_collection_errors statement limit offset =
     get_cursor (
       py_bind (execute_read (statement limit offset)) (\<lambda>rows_fetched.
       py_return rows_fetched))"

subsection \<open>coverage\_issues.py\<close>

definition create_coverage_issue ::
  "(string \<Rightarrow> int \<Rightarrow> int option \<Rightarrow> bool \<Rightarrow> nat \<Rightarrow> nat writing) \<Rightarrow> string \<Rightarrow> int \<Rightarrow> int option \<Rightarrow> bool \<Rightarrow> nat py" where
  "create_coverage_issue statement file_path line_number source_file_id is_excluded =
     py_bind format_datetime (\<lambda>current_time.
     get_cursor (
       py_bind (execute_write (statement file_path line_number source_file_id is_excluded current_time)) (\<lambda>lastrowid.
       py_return lastrowid)))"

definition get_coverage_issue_by_id :: "(int \<Rightarrow> pydict option reading) \<Rightarrow> int \<Rightarrow> pydict option py" where
  "get_coverage_issue_by_id statement issue_id =
     get_cursor (
       py_bind (execute_read (statement issue_id)) (\<lambda>row.
       case row of Some r \<Rightarrow> py_return (Some r) | None \<Rightarrow> py_return None))"

definition get_coverage_issues_by_file_path :: "(string \<Rightarrow> pydict list reading) \<Rightarrow> string \<Rightarrow> pydict list py" where
  "get_coverage_issues_by_file_path statement file_path =
     get_cursor (
       py_bind (execute_read (statement file_path)) (\<lambda>rows_fetched.
       py_return rows_fetched))"

definition get_coverage_issues_by_source_file_id :: "(int \<Rightarrow> pydict list reading) \<Rightarrow> int \<Rightarrow> pydict list py" where
  "get_coverage_issues_by_source_file_id statement source_file_id =
     get_cursor (
       py_bind (execute_read (statement source_file_id)) (\<lambda>rows_fetched.
       py_return rows_fetched))"

definition delete_coverage_issues_by_file_path :: "(string \<Rightarrow> nat writing) \<Rightarrow> string \<Rightarrow> nat py" where
  "delete_coverage_issues_by_file_path statement file_path =
     get_cursor (
       py_bind (execute_write (statement file_path)) (\<lambda>n.
       py_return n))"

definition delete_coverage_issues_by_source_file_id :: "(int \<Rightarrow> nat writing) \<Rightarrow> int \<Rightarrow> nat py" where
  "delete_coverage_issues_by_source_file_id statement source_file_id =
     get_cursor (
       py_bind (execute_write (statement source_file_id)) (\<lambda>n.
       py_return n))"

definition list_coverage_issues :: "(int \<Rightarrow> int \<Rightarrow> pydict list reading) \<Rightarrow> int \<Rightarrow> int \<Rightarrow> pydict list py" where
  "list_coverage_issues statement limit offset =
     get_cursor (
       py_bind (execute_read (statement limit offset)) (\<lambda>rows_fetched.
       py_return rows_fetched))"

subsection \<open>coverage\_branches.py\<close>

definition create_coverage_branch ::
  "(int \<Rightarrow> int \<Rightarrow> int \<Rightarrow> string \<Rightarrow> string \<Rightarrow> nat \<Rightarrow> nat writing) \<Rightarrow> int \<Rightarrow> int \<Rightarrow> int \<Rightarrow> string \<Rightarrow> string \<Rightarrow> nat py" where
  "create_coverage_branch statement coverage_issue_id source_line end_line condition branch_type =
     py_bind format_datetime (\<lambda>current_time.
     get_cursor (
       py_bind (execute_write (statement coverage_issue_id source_line end_line condition branch_type current_time)) (\<lambda>lastrowid.
       py_return lastrowid)))"

definition get_coverage_branch_by_id :: "(int \<Rightarrow> pydict option reading) \<Rightarrow> int \<Rightarrow> pydict option py" where
  "get_coverage_branch_by_id statement branch_id =
     get_cursor (
       py_bind (execute_read (statement branch_id)) (\<lambda>row.
       case row of Some r \<Rightarrow> py_return (Some r) | None \<Rightarrow> py_return None))"

definition get_coverage_branches_by_issue_id :: "(int \<Rightarrow> pydict list reading) \<Rightarrow> int \<Rightarrow> pydict list py" where
  "get_coverage_branches_by_issue_id statement coverage_issue_id =
     get_cursor (
       py_bind (execute_read (statement coverage_issue_id)) (\<lambda>rows_fetched.
       py_return rows_fetched))"

definition delete_coverage_branch :: "(int \<Rightarrow> nat writing) \<Rightarrow> int \<Rightarrow> bool py" where
  "delete_coverage_branch statement branch_id =
     get_cursor (
       py_bind (execute_write (statement branch_id)) (\<lambda>n.
       py_return (n > 0)))"

definition delete_coverage_branches_by_issue_id :: "(int \<Rightarrow> nat writing) \<Rightarrow> int \<Rightarrow> nat py" where
  "delete_coverage_branches_by_issue_id statement coverage_issue_id =
     get_cursor (
       py_bind (execute_write (statement coverage_issue_id)) (\<lambda>n.
       py_return n))"

definition list_coverage_branches :: "(int \<Rightarrow> int \<Rightarrow> pydict list reading) \<Rightarrow> int \<Rightarrow> int \<Rightarrow> pydict list py" where
  "list_coverage_branches statement limit offset =
     get_cursor (
       py_bind (execute_read (statement limit offset)) (\<lambda>rows_fetched.
       py_return rows_fetched))"

section \<open>States of the running process\<close>

text \<open>
  Shorthands for the proofs: the database of a process state, a state with
  another database, a state after one clock reading; the states the module
  runs in (its connection is \<open>qa_connection\<close>), and those whose tables exist.
\<close>

definition dbw :: "world \<Rightarrow> database" where
  "dbw w = db (conn w)"

definition set_db :: "database \<Rightarrow> world \<Rightarrow> world" where
  "set_db d w = w\<lparr>conn := (conn w)\<lparr>db := d\<rparr>\<rparr>"

definition tick :: "world \<Rightarrow> world" where
  "tick w = w\<lparr>clock := Suc (clock w)\<rparr>"

definition qa_world :: "world \<Rightarrow> bool" where
  "qa_world w \<longleftrightarrow> conn w = qa_connection (db (conn w))"

definition ready :: "world \<Rightarrow> bool" where
  "ready w \<longleftrightarrow> qa_world w \<and> schema_loaded (dbw w)"

definition unique_paths :: "database \<Rightarrow> bool" where
  "unique_paths d \<longleftrightarrow>
     distinct (map sf_file_path (rows (source_files d))) \<and>
     distinct (map pf_file_path (rows (pytest_files d)))"

definition errors_of :: "pytest_file option \<Rightarrow> database \<Rightarrow> pytest_error list" where
  "errors_of test_file d =
     filter (\<lambda>r. case test_file of None \<Rightarrow> True | Some t \<Rightarrow> pe_test_file_id r = pf_id t)
       (rows (pytest_errors d))"

text \<open>
  An entry of type \<open>CoverageBranch\<close> that carries the key \<open>parent_issue_id\<close>.
\<close>

definition branch_entry_with_parent :: "coverage_dict \<Rightarrow> bool" where
  "branch_entry_with_parent issue \<longleftrightarrow>
     dict_get (cd_type issue) '''' = ''CoverageBranch'' \<and> bd_parent_issue_id issue \<noteq> None"

text \<open>The error lists whose \<open>result\<close> entries \<open>json.dumps\<close> can encode.\<close>

definition encodable :: "py_test_error list \<Rightarrow> bool" where
  "encodable es \<longleftrightarrow> list_all (\<lambda>e. json_serialisable (dict_get (te_result e) (PList []))) es"

text \<open>
  The cells \<open>json.loads\<close> accepts or the code does not parse (the empty
  string). The dictionary expected for a stored error, written out column by
  column: every column of \<open>pytest_errors\<close> under its name, the \<open>result\<close>
  column as the value its JSON text stands for.
\<close>

definition decodable :: "json_text \<Rightarrow> bool" where
  "decodable t \<longleftrightarrow> (case t of JsonText v \<Rightarrow> True | PlainText s \<Rightarrow> s = [])"

definition error_record :: "pytest_error \<Rightarrow> pydict" where
  "error_record r =
     [(''id'', PInt (int (pe_id r))),
      (''node_id'', PStr (pe_node_id r)),
      (''test_file_id'', PInt (int (pe_test_file_id r))),
      (''outcome'', PStr (pe_outcome r)),
      (''error_type'', PStr (pe_error_type r)),
      (''result'', (case pe_result r of JsonText v \<Rightarrow> v | PlainText s \<Rightarrow> PStr s)),
      (''longrepr'', PStr (pe_longrepr r)),
      (''created_at'', PTime (pe_created_at r))]"

text \<open>A row of a list whose identifier is the least of the list.\<close>

definition is_lowest :: "pytest_error \<Rightarrow> pytest_error list \<Rightarrow> bool" where
  "is_lowest row xs \<longleftrightarrow> row \<in> set xs \<and> (\<forall>r\<in>set xs. pe_id row \<le> pe_id r)"

text \<open>
  No branch without its issue: every row of \<open>coverage_branches\<close> refers to a
  row of \<open>coverage_issues\<close>.
\<close>

definition no_orphans :: "database \<Rightarrow> bool" where
  "no_orphans d \<longleftrightarrow>
     list_all (\<lambda>b. cb_coverage_issue_id b \<in> set (map ci_id (rows (coverage_issues d))))
       (rows (coverage_branches d))"

text \<open>
  What is stored for a path, read back without identifiers and times: the
  issues of the path in the order of their insertion, each with its line
  number, its exclusion flag and the branches that refer to it.
\<close>

type_synonym branch_view = "int \<times> int \<times> string \<times> string"

type_synonym issue_view = "int \<times> bool \<times> branch_view list"

definition branch_fields :: "coverage_branch \<Rightarrow> branch_view" where
  "branch_fields b = (cb_source_line b, cb_end_line b, cb_condition b, cb_branch_type b)"

definition stored_issues :: "string \<Rightarrow> database \<Rightarrow> issue_view list" where
  "stored_issues p d =
     map (\<lambda>r. (ci_line_number r, ci_is_excluded r,
                map branch_fields (sql_select_coverage_branches (ci_id r) d)))
       (filter (\<lambda>r. ci_file_path r = p) (rows (coverage_issues d)))"

text \<open>
  What the claim expects for the entries handed in: a line issue is stored
  with its nested branches, a standalone branch under an issue of its own.
\<close>

definition entry_fields :: "'a branch_dict_scheme \<Rightarrow> branch_view" where
  "entry_fields b =
     (dict_get (bd_source_line b) 0, dict_get (bd_end_line b) 0,
      dict_get (bd_condition b) '''', dict_get (bd_branch_type b) '''')"

definition line_issue_view :: "coverage_dict \<Rightarrow> issue_view" where
  "line_issue_view issue =
     (dict_get (cd_line_number issue) 0, dict_get (cd_is_excluded issue) False,
      map entry_fields (dict_get (cd_branches issue) []))"

definition standalone_view :: "coverage_dict \<Rightarrow> issue_view" where
  "standalone_view branch = (dict_get (bd_source_line branch) 0, False, [entry_fields branch])"

text \<open>
  From one state of the process to a later one, rows were only added to the
  two coverage tables: issues of the path, and branches that refer to them.
\<close>

definition coverage_added :: "string \<Rightarrow> world \<Rightarrow> world \<Rightarrow> bool" where
  "coverage_added p w w' \<longleftrightarrow>
     source_files (dbw w') = source_files (dbw w) \<and>
     pytest_files (dbw w') = pytest_files (dbw w) \<and>
     pytest_errors (dbw w') = pytest_errors (dbw w) \<and>
     (\<exists>newi newb.
        rows (coverage_issues (dbw w')) = rows (coverage_issues (dbw w)) @ newi \<and>
        rows (coverage_branches (dbw w')) = rows (coverage_branches (dbw w)) @ newb \<and>
        list_all (\<lambda>r. ci_file_path r = p) newi \<and>
        list_all (\<lambda>b. cb_coverage_issue_id b \<in> set (map ci_id newi)) newb)"

text \<open>
  An entry as it is to be stored can be bound: its line numbers are within
  the 64 bits of an SQLite integer.
\<close>

definition branch_fits :: "branch_view \<Rightarrow> bool" where
  "branch_fits b \<longleftrightarrow>
     (case b of (source_line, end_line, condition, branch_type) \<Rightarrow>
        sqlite_int source_line \<and> sqlite_int end_line)"

definition issue_fits :: "issue_view \<Rightarrow> bool" where
  "issue_fits v \<longleftrightarrow>
     (case v of (line_number, is_excluded, branches) \<Rightarrow>
        sqlite_int line_number \<and> list_all branch_fits branches)"


text \<open>
  A computation lets the failures of the storage layer through: whenever the
  storage layer has failed at a statement during the call, the call ends in
  an exception. And a computation that never ends in an exception.
\<close>

definition raises_on_failure :: "'a py \<Rightarrow> bool" where
  "raises_on_failure m \<longleftrightarrow>
     (\<forall>w r w'. m w = (r, w') \<longrightarrow>
        raised (conn w) \<le> raised (conn w') \<and>
        (raised (conn w) < raised (conn w') \<longrightarrow> (\<exists>e. r = Inl e)))"

definition never_raises :: "'a py \<Rightarrow> bool" where
  "never_raises m \<longleftrightarrow> (\<forall>w r w'. m w = (r, w') \<longrightarrow> (\<exists>v. r = Inr v))"

definition returns_None_on_failure :: "'a option py \<Rightarrow> bool" where
  "returns_None_on_failure m \<longleftrightarrow> (\<forall>w r w'. m w = (r, w') \<longrightarrow> (\<exists>v. r = Inr v) \<and>
      (raised (conn w) < raised (conn w') \<longrightarrow> r = Inr None))"

text \<open>
  No branch without its issue, in the database and in the snapshot that a
  rollback would restore. A computation keeps that, however it ends, and a
  statement keeps it when it takes effect.
\<close>

definition integrity :: "world \<Rightarrow> bool" where
  "integrity w \<longleftrightarrow> no_orphans (db (conn w)) \<and>
     (case txn_start (conn w) of None \<Rightarrow> True | Some d \<Rightarrow> no_orphans d)"

definition keeps_integrity :: "'a py \<Rightarrow> bool" where
  "keeps_integrity m \<longleftrightarrow> (\<forall>w r w'. integrity w \<longrightarrow> m w = (r, w') \<longrightarrow> integrity w')"

definition statement_keeps_integrity :: "(database \<Rightarrow> error + 'a \<times> database) \<Rightarrow> bool" where
  "statement_keeps_integrity stmt \<longleftrightarrow>
     (\<forall>d v d'. no_orphans d \<longrightarrow> stmt d = Inr (v, d') \<longrightarrow> no_orphans d')"

section \<open>Lemmas about the statements and the loops\<close>

lemma qa_world_iff:
  "qa_world w \<longleftrightarrow> isolation_level (conn w) = None \<and> txn_start (conn w) = None
     \<and> faults (conn w) = [] \<and> raised (conn w) = 0"
  by (cases w, cases "conn w") (auto simp: qa_world_def qa_connection_def get_connection_def)

lemma dbw_set_db [simp]: "dbw (set_db d w) = d"
  by (simp add: dbw_def set_db_def)

lemma dbw_tick [simp]: "dbw (tick w) = dbw w"
  by (simp add: dbw_def tick_def)

lemma clock_set_db [simp]: "clock (set_db d w) = clock w"
  by (simp add: set_db_def)

lemma clock_tick [simp]: "clock (tick w) = Suc (clock w)"
  by (simp add: tick_def)

lemma qa_world_set_db [simp]: "qa_world (set_db d w) = qa_world w"
  by (simp add: qa_world_iff set_db_def)

lemma qa_world_tick [simp]: "qa_world (tick w) = qa_world w"
  by (simp add: qa_world_iff tick_def)

lemma ready_set_db [simp]: "ready (set_db d w) = (qa_world w \<and> schema_loaded d)"
  by (simp add: ready_def)

lemma ready_tick [simp]: "ready (tick w) = ready w"
  by (simp add: ready_def)

lemma set_db_set_db [simp]: "set_db d (set_db d' w) = set_db d w"
  by (simp add: set_db_def)

lemma set_db_same [simp]: "set_db (dbw w) w = w"
  by (simp add: set_db_def dbw_def)

lemma ready_qa: "ready w \<Longrightarrow> qa_world w"
  by (simp add: ready_def)

lemma format_datetime_eq: "format_datetime w = (Inr (clock w), tick w)"
  by (simp add: format_datetime_def tick_def)

lemma storage_fails_ready: "ready w \<Longrightarrow> storage_fails w = (None, w)"
  by (simp add: storage_fails_def ready_def qa_world_iff dbw_def)

lemma execute_read_ready: "ready w \<Longrightarrow> execute_read q w = (q (dbw w), w)"
  by (simp add: execute_read_def storage_fails_ready dbw_def)

lemma execute_select_ready: "ready w \<Longrightarrow> execute_select q w = (Inr (q (dbw w)), w)"
  by (simp add: execute_select_def execute_read_ready)

lemma execute_write_ready:
  "ready w \<Longrightarrow> execute_write stmt w =
     (case stmt (dbw w) of Inl e \<Rightarrow> (Inl e, w) | Inr (v, d) \<Rightarrow> (Inr v, set_db d w))"
  by (auto simp: execute_write_def storage_fails_ready ready_def qa_world_iff dbw_def
           begin_implicit_def set_db_def split: sum.splits)

lemma get_cursor_qa: "qa_world (snd (body w)) \<Longrightarrow> get_cursor body w = body w"
  by (auto simp: get_cursor_def qa_world_iff commit_def rollback_def split: prod.splits sum.splits)

lemmas py_simps = py_return_def py_raise_def py_bind_def py_try_def py_lift_def

lemmas run_simps = py_simps format_datetime_eq execute_select_ready execute_write_ready

lemmas eval_defs = py_simps format_datetime_def storage_fails_def execute_read_def
  execute_select_def execute_write_def sqlite_int_def
  get_cursor_def begin_implicit_def commit_def rollback_def qa_connection_def
  get_connection_def empty_table_def empty_database_def execute_schema_def max_id_def
  next_rowid_def insert_row_def delete_rows_def update_rows_def rowcount_def fetchone_def
  fetchone_order_by_id_def dict_get_def json_dumps_def ERROR_TYPE_TEST_def Let_def

lemmas sql_defs = sql_select_source_file_by_path_def sql_insert_source_file_def
  sql_update_source_file_def sql_select_pytest_file_by_path_def sql_insert_pytest_file_def
  sql_update_pytest_file_def sql_delete_pytest_errors_def sql_insert_pytest_error_def
  sql_select_next_pytest_error_def sql_insert_coverage_issue_def sql_update_coverage_issue_def
  sql_delete_coverage_issues_def sql_delete_coverage_issue_by_id_def
  sql_insert_coverage_branch_def
  sql_select_next_coverage_issue_def sql_select_coverage_branches_def

lemma sql_insert_pytest_error_eq:
  "sql_insert_pytest_error node file outcome etype res longrepr created d =
     Inr (next_rowid pe_id (pytest_errors d),
          d\<lparr>pytest_errors :=
              \<lparr>rows = rows (pytest_errors d) @
                 [\<lparr>pe_id = next_rowid pe_id (pytest_errors d), pe_node_id = node,
                   pe_test_file_id = file, pe_outcome = outcome, pe_error_type = etype,
                   pe_result = res, pe_longrepr = longrepr, pe_created_at = created\<rparr>],
               seq = next_rowid pe_id (pytest_errors d)\<rparr>\<rparr>)"
  by (simp add: sql_insert_pytest_error_def insert_row_def Let_def)

lemma insert_test_errors_effect:
  assumes "ready w" and "insert_test_errors tid es w = (Inr u, w')"
  shows "ready w' \<and>
     (\<exists>new. dbw w' = (dbw w)\<lparr>pytest_errors :=
                \<lparr>rows = rows (pytest_errors (dbw w)) @ new, seq = seq (pytest_errors (dbw w'))\<rparr>\<rparr>
        \<and> length new = length es \<and> (\<forall>r\<in>set new. pe_test_file_id r = tid))"
  using assms
proof (induction es arbitrary: w)
  case Nil
  then show ?case by (simp add: py_simps)
next
  case (Cons e es)
  from Cons.prems obtain res where res: "json_dumps (dict_get (te_result e) (PList [])) = Inr res"
    by (cases "json_dumps (dict_get (te_result e) (PList []))") (simp_all add: py_simps)
  define row where "row = \<lparr>pe_id = next_rowid pe_id (pytest_errors (dbw w)),
      pe_node_id = dict_get (te_node_id e) '''', pe_test_file_id = tid,
      pe_outcome = dict_get (te_outcome e) ''failed'', pe_error_type = ERROR_TYPE_TEST,
      pe_result = res, pe_longrepr = dict_get (te_longrepr e) '''', pe_created_at = clock w\<rparr>"
  define d1 where "d1 = (dbw w)\<lparr>pytest_errors :=
      \<lparr>rows = rows (pytest_errors (dbw w)) @ [row],
       seq = next_rowid pe_id (pytest_errors (dbw w))\<rparr>\<rparr>"
  define w1 where "w1 = set_db d1 (tick w)"
  have r1: "ready w1"
    using Cons.prems(1) by (simp add: w1_def d1_def ready_def)
  have step: "insert_test_errors tid es w1 = (Inr u, w')"
    using Cons.prems by (simp add: run_simps res sql_insert_pytest_error_eq w1_def d1_def row_def)
  from Cons.IH[OF r1 step] obtain new where
    n: "ready w'"
       "dbw w' = (dbw w1)\<lparr>pytest_errors :=
           \<lparr>rows = rows (pytest_errors (dbw w1)) @ new, seq = seq (pytest_errors (dbw w'))\<rparr>\<rparr>"
       "length new = length es" "\<forall>r\<in>set new. pe_test_file_id r = tid"
    by blast
  have "dbw w' = (dbw w)\<lparr>pytest_errors :=
      \<lparr>rows = rows (pytest_errors (dbw w)) @ (row # new), seq = seq (pytest_errors (dbw w'))\<rparr>\<rparr>"
    using n(2) by (simp add: w1_def d1_def)
  moreover have "length (row # new) = length (e # es)"
    using n(3) by simp
  moreover have "\<forall>r\<in>set (row # new). pe_test_file_id r = tid"
    using n(4) by (simp add: row_def)
  ultimately show ?case
    using n(1) by blast
qed

lemma commit_qa [simp]: "qa_world w \<Longrightarrow> w\<lparr>conn := commit (conn w)\<rparr> = w"
  by (simp add: qa_world_iff commit_def)

lemma rollback_qa [simp]: "qa_world w \<Longrightarrow> w\<lparr>conn := rollback (conn w)\<rparr> = w"
  by (simp add: qa_world_iff rollback_def)

lemma find_by_key_None: "find (\<lambda>r. f r = k) xs = None \<longleftrightarrow> k \<notin> set (map f xs)"
  by (induction xs) auto

lemma find_by_key_Some: "find (\<lambda>r. f r = k) xs = Some r \<Longrightarrow> r \<in> set xs \<and> f r = k"
  by (induction xs) (auto split: if_splits)

lemma filter_key_absent: "k \<notin> set (map f xs) \<Longrightarrow> filter (\<lambda>r. f r = k) xs = []"
  by (induction xs) auto

lemma filter_key_distinct:
  "distinct (map f xs) \<Longrightarrow> find (\<lambda>r. f r = k) xs = Some r \<Longrightarrow> filter (\<lambda>r. f r = k) xs = [r]"
proof (induction xs)
  case Nil
  then show ?case by simp
next
  case (Cons x xs)
  show ?case
  proof (cases "f x = k")
    case True
    with Cons.prems have "x = r" and "k \<notin> set (map f xs)" by auto
    then show ?thesis using True by (simp add: filter_key_absent)
  next
    case False
    with Cons show ?thesis by simp
  qed
qed

lemma save_source_file_to_db_ready:
  assumes "ready w"
  shows "save_source_file_to_db p w =
     (case sql_select_source_file_by_path p (dbw w) of
        Some row \<Rightarrow> (Inr (Some (sf_id row)), w)
      | None \<Rightarrow>
          (Inr (Some (next_rowid sf_id (source_files (dbw w)))),
           set_db ((dbw w)\<lparr>source_files :=
              \<lparr>rows = rows (source_files (dbw w)) @
                 [\<lparr>sf_id = next_rowid sf_id (source_files (dbw w)), sf_file_path = p,
                   sf_file_hash = '''', sf_created_at = clock w, sf_updated_at = clock w\<rparr>],
               seq = next_rowid sf_id (source_files (dbw w))\<rparr>\<rparr>) (tick w)))"
proof (cases "sql_select_source_file_by_path p (dbw w)")
  case None
  then have absent: "p \<notin> set (map sf_file_path (rows (source_files (dbw w))))"
    by (simp add: sql_select_source_file_by_path_def fetchone_def find_by_key_None)
  show ?thesis
    using assms None absent
    by (simp add: save_source_file_to_db_def get_cursor_def run_simps ready_def
        sql_insert_source_file_def insert_row_def Let_def)
next
  case (Some row)
  then show ?thesis
    using assms
    by (simp add: save_source_file_to_db_def get_cursor_def run_simps ready_def)
qed

lemma find_append_absent:
  "k \<notin> set (map f xs) \<Longrightarrow> f r = k \<Longrightarrow> find (\<lambda>r. f r = k) (xs @ [r]) = Some r"
  by (induction xs) auto

lemma lowest_None_iff: "lowest ident xs = None \<longleftrightarrow> xs = []"
  by (induction xs) (auto split: option.splits)

lemma sql_select_next_pytest_error_errors_of:
  "sql_select_next_pytest_error (map_option pf_id T) d = lowest pe_id (errors_of T d)"
  by (cases T) (simp_all add: sql_select_next_pytest_error_def fetchone_order_by_id_def errors_of_def)

lemma dict_keys_dict_set: "set (dict_keys (dict_set k v d)) = insert k (set (dict_keys d))"
proof (induction d)
  case Nil
  then show ?case by (simp add: dict_keys_def)
next
  case (Cons kv d)
  then show ?case by (cases kv) (auto simp: dict_keys_def)
qed

lemma dict_keys_pytest_error_dict:
  "dict_keys (pytest_error_dict r) =
     [''id'', ''node_id'', ''test_file_id'', ''outcome'', ''error_type'', ''result'',
      ''longrepr'', ''created_at'']"
  by (simp add: dict_keys_def pytest_error_dict_def)

lemma get_cursor_ready: "ready w \<Longrightarrow> body w = (r, w) \<Longrightarrow> get_cursor body w = (r, w)"
  by (cases r) (simp_all add: get_cursor_def ready_def)

lemma py_bind_return: "py_bind (py_return x) f = f x"
  by (rule ext) (simp add: py_simps)

lemma insert_branch_issues_skip:
  "insert_branch_issues P sid (filter (\<lambda>b. bd_parent_issue_id b = None) bs) =
   insert_branch_issues P sid bs"
  by (induction bs) (simp_all add: py_bind_return)

lemma line_issues_without_parent_entries:
  "filter (\<lambda>issue. dict_get (cd_type issue) '''' = ''CoverageIssue'')
     (filter (\<lambda>i. \<not> branch_entry_with_parent i) issues) =
   filter (\<lambda>issue. dict_get (cd_type issue) '''' = ''CoverageIssue'') issues"
  by (induction issues) (auto simp: branch_entry_with_parent_def)

lemma branch_issues_without_parent_entries:
  "filter (\<lambda>issue. dict_get (cd_type issue) '''' = ''CoverageBranch'')
     (filter (\<lambda>i. \<not> branch_entry_with_parent i) issues) =
   filter (\<lambda>b. bd_parent_issue_id b = None)
     (filter (\<lambda>issue. dict_get (cd_type issue) '''' = ''CoverageBranch'') issues)"
  by (induction issues) (auto simp: branch_entry_with_parent_def)

lemma rowcount_positive: "0 < rowcount (\<lambda>r. f r = k) t \<longleftrightarrow> k \<in> f ` set (rows t)"
  by (auto simp: rowcount_def filter_empty_conv)

lemma update_source_file_ready:
  assumes "ready w"
  shows "update_source_file i h w =
     (Inr (i \<in> sf_id ` set (rows (source_files (dbw w)))),
      set_db ((dbw w)\<lparr>source_files := update_rows (\<lambda>r. sf_id r = i)
         (\<lambda>r. (case h of None \<Rightarrow> r | Some x \<Rightarrow> r\<lparr>sf_file_hash := x\<rparr>)\<lparr>sf_updated_at := clock w\<rparr>)
         (source_files (dbw w))\<rparr>) (tick w))"
  using assms
  by (simp add: update_source_file_def get_cursor_def run_simps sql_update_source_file_def
      rowcount_positive ready_def)

lemma update_pytest_file_ready:
  assumes "ready w"
  shows "update_pytest_file i s p w =
     (Inr (i \<in> pf_id ` set (rows (pytest_files (dbw w)))),
      set_db ((dbw w)\<lparr>pytest_files := update_rows (\<lambda>r. pf_id r = i)
         (\<lambda>r. let r1 = (case s of None \<Rightarrow> r | Some x \<Rightarrow> r\<lparr>pf_source_file_id := Some x\<rparr>);
                    r2 = (case p of None \<Rightarrow> r1 | Some x \<Rightarrow> r1\<lparr>pf_pytest_summary := x\<rparr>)
                in r2\<lparr>pf_updated_at := clock w\<rparr>)
         (pytest_files (dbw w))\<rparr>) (tick w))"
  using assms
  by (simp add: update_pytest_file_def get_cursor_def run_simps sql_update_pytest_file_def
      rowcount_positive ready_def)

lemma insert_test_errors_total:
  assumes "ready w" and "encodable es"
  shows "\<exists>w'. insert_test_errors tid es w = (Inr (), w')"
  using assms
proof (induction es arbitrary: w)
  case Nil
  then show ?case by (simp add: py_simps)
next
  case (Cons e es)
  from Cons.prems(2) have res: "json_dumps (dict_get (te_result e) (PList [])) =
      Inr (JsonText (dict_get (te_result e) (PList [])))" and rest: "encodable es"
    by (simp_all add: encodable_def json_dumps_def)
  define d1 where "d1 = (dbw w)\<lparr>pytest_errors :=
      \<lparr>rows = rows (pytest_errors (dbw w)) @
         [\<lparr>pe_id = next_rowid pe_id (pytest_errors (dbw w)),
           pe_node_id = dict_get (te_node_id e) '''', pe_test_file_id = tid,
           pe_outcome = dict_get (te_outcome e) ''failed'', pe_error_type = ERROR_TYPE_TEST,
           pe_result = JsonText (dict_get (te_result e) (PList [])),
           pe_longrepr = dict_get (te_longrepr e) '''', pe_created_at = clock w\<rparr>],
       seq = next_rowid pe_id (pytest_errors (dbw w))\<rparr>\<rparr>"
  have r1: "ready (set_db d1 (tick w))"
    using Cons.prems(1) by (simp add: d1_def ready_def)
  have "insert_test_errors tid (e # es) w = insert_test_errors tid es (set_db d1 (tick w))"
    using Cons.prems(1) by (simp add: run_simps res sql_insert_pytest_error_eq d1_def)
  with Cons.IH[OF r1 rest] show ?case by simp
qed

lemma map_update_rows_key:
  assumes "\<And>r. k (f r) = k r"
  shows "map k (rows (update_rows p f t)) = map k (rows t)"
  by (simp add: update_rows_def assms)

lemma filter_update_rows_key:
  assumes "\<And>r. k (f r) = k r"
  shows "filter (\<lambda>r. k r = x) (rows (update_rows p f t)) =
         map (\<lambda>r. if p r then f r else r) (filter (\<lambda>r. k r = x) (rows t))"
  by (simp add: update_rows_def filter_map comp_def assms if_distrib[of k] cong: if_cong)

lemma py_bind_Inr: "m w = (Inr v, w') \<Longrightarrow> py_bind m f w = f v w'"
  by (simp add: py_bind_def)

lemma py_bind_Inl: "m w = (Inl e, w') \<Longrightarrow> py_bind m f w = (Inl e, w')"
  by (simp add: py_bind_def)

lemma save_test_results_tail:
  assumes "ready w" and "json_serialisable S" and "encodable E"
  shows "\<exists>w' new.
     py_bind (py_lift (json_dumps S)) (\<lambda>summary.
       py_bind format_datetime (\<lambda>now.
       py_bind (execute_write (sql_update_pytest_file None (Some summary) now tid)) (\<lambda>_.
       py_bind (execute_write (sql_delete_pytest_errors (\<lambda>r. pe_test_file_id r = tid))) (\<lambda>_.
       insert_test_errors tid E)))) w = (Inr (), w')
     \<and> ready w'
     \<and> source_files (dbw w') = source_files (dbw w)
     \<and> coverage_issues (dbw w') = coverage_issues (dbw w)
     \<and> coverage_branches (dbw w') = coverage_branches (dbw w)
     \<and> pytest_files (dbw w') = update_rows (\<lambda>r. pf_id r = tid)
           (\<lambda>r. r\<lparr>pf_pytest_summary := JsonText S, pf_updated_at := clock w\<rparr>)
           (pytest_files (dbw w))
     \<and> rows (pytest_errors (dbw w')) =
           filter (\<lambda>r. pe_test_file_id r \<noteq> tid) (rows (pytest_errors (dbw w))) @ new
     \<and> length new = length E \<and> (\<forall>r\<in>set new. pe_test_file_id r = tid)"
proof -
  define d2 where "d2 = (dbw w)\<lparr>
      pytest_files := update_rows (\<lambda>r. pf_id r = tid)
           (\<lambda>r. r\<lparr>pf_pytest_summary := JsonText S, pf_updated_at := clock w\<rparr>)
           (pytest_files (dbw w)),
      pytest_errors := delete_rows (\<lambda>r. pe_test_file_id r = tid) (pytest_errors (dbw w))\<rparr>"
  define w2 where "w2 = set_db d2 (tick w)"
  have r2: "ready w2"
    using assms(1) by (simp add: w2_def d2_def ready_def)
  have chain: "py_bind (py_lift (json_dumps S)) (\<lambda>summary.
       py_bind format_datetime (\<lambda>now.
       py_bind (execute_write (sql_update_pytest_file None (Some summary) now tid)) (\<lambda>_.
       py_bind (execute_write (sql_delete_pytest_errors (\<lambda>r. pe_test_file_id r = tid))) (\<lambda>_.
       insert_test_errors tid E)))) w = insert_test_errors tid E w2"
    using assms(1,2)
    by (simp add: run_simps json_dumps_def sql_update_pytest_file_def sql_delete_pytest_errors_def
        ready_def w2_def d2_def Let_def)
  from insert_test_errors_total[OF r2 assms(3)] obtain w' where
    run: "insert_test_errors tid E w2 = (Inr (), w')" by blast
  from insert_test_errors_effect[OF r2 run] obtain new where
    n: "ready w'"
       "dbw w' = (dbw w2)\<lparr>pytest_errors :=
           \<lparr>rows = rows (pytest_errors (dbw w2)) @ new, seq = seq (pytest_errors (dbw w'))\<rparr>\<rparr>"
       "length new = length E" "\<forall>r\<in>set new. pe_test_file_id r = tid"
    by blast
  have d: "dbw w2 = d2"
    by (simp add: w2_def)
  have 1: "source_files (dbw w') = source_files (dbw w)"
    by (subst n(2)) (simp add: d d2_def)
  have 2: "coverage_issues (dbw w') = coverage_issues (dbw w)"
    by (subst n(2)) (simp add: d d2_def)
  have 3: "coverage_branches (dbw w') = coverage_branches (dbw w)"
    by (subst n(2)) (simp add: d d2_def)
  have 4: "pytest_files (dbw w') = update_rows (\<lambda>r. pf_id r = tid)
           (\<lambda>r. r\<lparr>pf_pytest_summary := JsonText S, pf_updated_at := clock w\<rparr>)
           (pytest_files (dbw w))"
    by (subst n(2)) (simp add: d d2_def)
  have 5: "rows (pytest_errors (dbw w')) =
           filter (\<lambda>r. pe_test_file_id r \<noteq> tid) (rows (pytest_errors (dbw w))) @ new"
    by (subst n(2)) (simp add: d d2_def delete_rows_def)
  from chain run n(1,3,4) 1 2 3 4 5 show ?thesis
    by (intro exI[of _ w'] exI[of _ new]) simp
qed

lemma save_test_results_to_db_effect:
  assumes "ready w" and "unique_paths (dbw w)" and "json_serialisable S" and "encodable E"
  shows "\<exists>w' row. save_test_results_to_db F S E w = (Inr (), w')
     \<and> ready w' \<and> unique_paths (dbw w')
     \<and> filter (\<lambda>r. pf_file_path r = F) (rows (pytest_files (dbw w'))) = [row]
     \<and> rowcount (\<lambda>r. pe_test_file_id r = pf_id row) (pytest_errors (dbw w')) = length E
     \<and> coverage_issues (dbw w') = coverage_issues (dbw w)
     \<and> coverage_branches (dbw w') = coverage_branches (dbw w)"
proof -
  have head: "\<exists>tid w1 row0.
      save_test_results_to_db F S E w =
        get_cursor (\<lambda>_.
          py_bind (py_lift (json_dumps S)) (\<lambda>summary.
          py_bind format_datetime (\<lambda>now.
          py_bind (execute_write (sql_update_pytest_file None (Some summary) now tid)) (\<lambda>_.
          py_bind (execute_write (sql_delete_pytest_errors (\<lambda>r. pe_test_file_id r = tid))) (\<lambda>_.
          insert_test_errors tid E)))) w1) w
      \<and> ready w1 \<and> distinct (map pf_file_path (rows (pytest_files (dbw w1))))
      \<and> source_files (dbw w1) = source_files (dbw w)
      \<and> coverage_issues (dbw w1) = coverage_issues (dbw w)
      \<and> coverage_branches (dbw w1) = coverage_branches (dbw w)
      \<and> filter (\<lambda>r. pf_file_path r = F) (rows (pytest_files (dbw w1))) = [row0]
      \<and> pf_id row0 = tid"
  proof (cases "sql_select_pytest_file_by_path F (dbw w)")
    case (Some row)
    then have f: "find (\<lambda>r. pf_file_path r = F) (rows (pytest_files (dbw w))) = Some row"
      by (simp add: sql_select_pytest_file_by_path_def fetchone_def)
    have one: "filter (\<lambda>r. pf_file_path r = F) (rows (pytest_files (dbw w))) = [row]"
      using assms(2) f by (simp add: unique_paths_def filter_key_distinct)
    have "save_test_results_to_db F S E w =
        get_cursor (\<lambda>_.
          py_bind (py_lift (json_dumps S)) (\<lambda>summary.
          py_bind format_datetime (\<lambda>now.
          py_bind (execute_write (sql_update_pytest_file None (Some summary) now (pf_id row))) (\<lambda>_.
          py_bind (execute_write (sql_delete_pytest_errors (\<lambda>r. pe_test_file_id r = pf_id row))) (\<lambda>_.
          insert_test_errors (pf_id row) E)))) w) w"
      using assms(1) Some
      by (simp add: save_test_results_to_db_def get_cursor_def py_bind_def py_return_def
          execute_select_ready)
    with one assms(1,2) show ?thesis
      by (intro exI[of _ "pf_id row"] exI[of _ w] exI[of _ row]) (simp add: unique_paths_def)
  next
    case None
    then have absent: "F \<notin> set (map pf_file_path (rows (pytest_files (dbw w))))"
      by (simp add: sql_select_pytest_file_by_path_def fetchone_def find_by_key_None)
    define i where "i = next_rowid pf_id (pytest_files (dbw w))"
    define row where "row = \<lparr>pf_id = i, pf_file_path = F, pf_source_file_id = None,
        pf_pytest_summary = JsonText S, pf_created_at = clock w, pf_updated_at = clock w\<rparr>"
    define w1 where "w1 = set_db ((dbw w)\<lparr>pytest_files :=
        \<lparr>rows = rows (pytest_files (dbw w)) @ [row], seq = i\<rparr>\<rparr>) (tick w)"
    have r1: "ready w1"
      using assms(1) by (simp add: w1_def ready_def)
    have sel: "execute_select (sql_select_pytest_file_by_path F) w = (Inr None, w)"
      using assms(1) None by (simp add: execute_select_ready)
    have ins: "py_bind format_datetime (\<lambda>current_time.
          py_bind (py_lift (json_dumps S)) (\<lambda>summary.
          execute_write (sql_insert_pytest_file F None summary current_time current_time))) w =
        (Inr i, w1)"
      using assms(1,3) absent
      by (simp add: run_simps json_dumps_def sql_insert_pytest_file_def insert_row_def
          Let_def w1_def row_def i_def ready_def)
    have "save_test_results_to_db F S E w =
        get_cursor (\<lambda>_.
          py_bind (py_lift (json_dumps S)) (\<lambda>summary.
          py_bind format_datetime (\<lambda>now.
          py_bind (execute_write (sql_update_pytest_file None (Some summary) now i)) (\<lambda>_.
          py_bind (execute_write (sql_delete_pytest_errors (\<lambda>r. pe_test_file_id r = i))) (\<lambda>_.
          insert_test_errors i E)))) w1) w"
    proof -
      have sel': "\<And>f. py_bind (execute_select (sql_select_pytest_file_by_path F)) f w = f None w"
        by (rule py_bind_Inr) (rule sel)
      have ins': "\<And>f. py_bind (py_bind format_datetime (\<lambda>current_time.
          py_bind (py_lift (json_dumps S)) (\<lambda>summary.
          execute_write (sql_insert_pytest_file F None summary current_time current_time)))) f w =
          f i w1"
        by (rule py_bind_Inr) (rule ins)
      show ?thesis
        by (simp add: save_test_results_to_db_def get_cursor_def sel' ins')
    qed
    moreover have "filter (\<lambda>r. pf_file_path r = F) (rows (pytest_files (dbw w1))) = [row]"
      using absent by (simp add: w1_def filter_key_absent row_def)
    moreover have "distinct (map pf_file_path (rows (pytest_files (dbw w1))))"
      using absent assms(2) by (simp add: w1_def unique_paths_def row_def)
    moreover have "pf_id row = i"
      by (simp add: row_def)
    ultimately show ?thesis
      using r1 by (intro exI[of _ i] exI[of _ w1] exI[of _ row]) (simp add: w1_def)
  qed
  then obtain tid w1 row0 where
    h: "save_test_results_to_db F S E w =
        get_cursor (\<lambda>_.
          py_bind (py_lift (json_dumps S)) (\<lambda>summary.
          py_bind format_datetime (\<lambda>now.
          py_bind (execute_write (sql_update_pytest_file None (Some summary) now tid)) (\<lambda>_.
          py_bind (execute_write (sql_delete_pytest_errors (\<lambda>r. pe_test_file_id r = tid))) (\<lambda>_.
          insert_test_errors tid E)))) w1) w"
       "ready w1" "distinct (map pf_file_path (rows (pytest_files (dbw w1))))"
       "source_files (dbw w1) = source_files (dbw w)"
       "coverage_issues (dbw w1) = coverage_issues (dbw w)"
       "coverage_branches (dbw w1) = coverage_branches (dbw w)"
       "filter (\<lambda>r. pf_file_path r = F) (rows (pytest_files (dbw w1))) = [row0]"
       "pf_id row0 = tid"
    by blast
  from save_test_results_tail[OF h(2) assms(3,4), of tid] obtain w' new where
    t: "py_bind (py_lift (json_dumps S)) (\<lambda>summary.
          py_bind format_datetime (\<lambda>now.
          py_bind (execute_write (sql_update_pytest_file None (Some summary) now tid)) (\<lambda>_.
          py_bind (execute_write (sql_delete_pytest_errors (\<lambda>r. pe_test_file_id r = tid))) (\<lambda>_.
          insert_test_errors tid E)))) w1 = (Inr (), w')"
       "ready w'"
       "source_files (dbw w') = source_files (dbw w1)"
       "coverage_issues (dbw w') = coverage_issues (dbw w1)"
       "coverage_branches (dbw w') = coverage_branches (dbw w1)"
       "pytest_files (dbw w') = update_rows (\<lambda>r. pf_id r = tid)
           (\<lambda>r. r\<lparr>pf_pytest_summary := JsonText S, pf_updated_at := clock w1\<rparr>)
           (pytest_files (dbw w1))"
       "rows (pytest_errors (dbw w')) =
           filter (\<lambda>r. pe_test_file_id r \<noteq> tid) (rows (pytest_errors (dbw w1))) @ new"
       "length new = length E" "\<forall>r\<in>set new. pe_test_file_id r = tid"
    by blast
  define row where "row = row0\<lparr>pf_pytest_summary := JsonText S, pf_updated_at := clock w1\<rparr>"
  have run: "save_test_results_to_db F S E w = (Inr (), w')"
    using h(1) t(1,2) by (simp add: get_cursor_def ready_def)
  have paths: "map pf_file_path (rows (pytest_files (dbw w'))) =
      map pf_file_path (rows (pytest_files (dbw w1)))"
    by (simp add: t(6) map_update_rows_key)
  have u: "unique_paths (dbw w')"
    using assms(2) h(3,4) by (simp add: unique_paths_def paths t(3))
  have one: "filter (\<lambda>r. pf_file_path r = F) (rows (pytest_files (dbw w'))) = [row]"
    using h(7,8) by (simp add: t(6) filter_update_rows_key row_def)
  have "filter (\<lambda>r. pe_test_file_id r = tid) (rows (pytest_errors (dbw w'))) = new"
    using t(9) by (simp add: t(7) filter_id_conv)
  then have count: "rowcount (\<lambda>r. pe_test_file_id r = pf_id row) (pytest_errors (dbw w')) = length E"
    using h(8) t(8) by (simp add: rowcount_def row_def)
  from run t(2) u one count t(4,5) h(5,6) show ?thesis
    by (intro exI[of _ w'] exI[of _ row]) simp
qed

lemma lowest_Some:
  "lowest ident xs = Some m \<Longrightarrow> m \<in> set xs \<and> (\<forall>r\<in>set xs. ident m \<le> ident r)"
proof (induction xs arbitrary: m)
  case Nil
  then show ?case by simp
next
  case (Cons x xs)
  show ?case
  proof (cases "lowest ident xs")
    case None
    then have "xs = []" by (simp add: lowest_None_iff)
    with Cons.prems show ?thesis by simp
  next
    case (Some m')
    from Cons.IH[OF Some] have m': "m' \<in> set xs" "\<forall>r\<in>set xs. ident m' \<le> ident r"
      by simp_all
    show ?thesis
    proof (cases "ident x \<le> ident m'")
      case True
      with Cons.prems Some have "m = x" by simp
      with True m' show ?thesis by auto
    next
      case False
      with Cons.prems Some have "m = m'" by simp
      with False m' show ?thesis by auto
    qed
  qed
qed

lemma get_next_pytest_error_ready:
  assumes "ready w" and "\<forall>r\<in>set (rows (pytest_errors (dbw w))). decodable (pe_result r)"
  shows "get_next_pytest_error T w =
     (Inr (map_option error_record (lowest pe_id (errors_of (Some T) (dbw w)))), w)"
proof (cases "lowest pe_id (errors_of (Some T) (dbw w))")
  case None
  show ?thesis
    unfolding get_next_pytest_error_def
    by (rule get_cursor_ready[OF assms(1)])
       (simp add: run_simps assms(1) sql_select_next_pytest_error_errors_of[of "Some T", simplified]
          None)
next
  case (Some row)
  from lowest_Some[OF Some] have "row \<in> set (rows (pytest_errors (dbw w)))"
    by (simp add: errors_of_def)
  with assms(2) have dec: "decodable (pe_result row)" by blast
  show ?thesis
    unfolding get_next_pytest_error_def
    by (rule get_cursor_ready[OF assms(1)], cases "pe_result row")
       (use dec in \<open>simp_all add: run_simps assms(1)
          sql_select_next_pytest_error_errors_of[of "Some T", simplified] Some
          error_record_def decodable_def pytest_error_dict_def\<close>)
qed

lemma delete_pytest_error_ready:
  assumes "ready w"
  shows "delete_pytest_error nid w =
     (Inr (rowcount (\<lambda>r. pe_node_id r = nid) (pytest_errors (dbw w))),
      set_db ((dbw w)\<lparr>pytest_errors :=
         delete_rows (\<lambda>r. pe_node_id r = nid) (pytest_errors (dbw w))\<rparr>) w)"
  using assms
  by (simp add: delete_pytest_error_def get_cursor_def run_simps sql_delete_pytest_errors_def
      connection_commit_def ready_def Let_def)

lemma py_bind_assoc: "py_bind (py_bind m f) g = py_bind m (\<lambda>x. py_bind (f x) g)"
  by (rule ext) (simp add: py_bind_def split: prod.splits sum.splits)

lemma next_rowid_fresh: "r \<in> set (rows t) \<Longrightarrow> ident r < next_rowid ident t"
proof -
  have "ident r \<le> fold (\<lambda>r m. max (ident r) m) xs m" if "r \<in> set xs \<or> ident r \<le> m" for xs m
    using that
  proof (induction xs arbitrary: m)
    case Nil
    then show ?case by simp
  next
    case (Cons x xs)
    show ?case
      using Cons.prems by (auto intro!: Cons.IH)
  qed
  then show "r \<in> set (rows t) \<Longrightarrow> ident r < next_rowid ident t"
    by (force simp: next_rowid_def max_id_def)
qed

lemma insert_branches_effect:
  assumes "ready w" and "cid \<in> set (map ci_id (rows (coverage_issues (dbw w))))"
  shows "\<exists>r w' new. insert_branches cid bs w = (r, w') \<and> ready w'
     \<and> source_files (dbw w') = source_files (dbw w)
     \<and> pytest_files (dbw w') = pytest_files (dbw w)
     \<and> pytest_errors (dbw w') = pytest_errors (dbw w)
     \<and> coverage_issues (dbw w') = coverage_issues (dbw w)
     \<and> rows (coverage_branches (dbw w')) = rows (coverage_branches (dbw w)) @ new
     \<and> list_all (\<lambda>b. cb_coverage_issue_id b = cid) new
     \<and> (r = Inr () \<or> r = Inl OverflowError)
     \<and> (list_all branch_fits (map entry_fields bs) \<longrightarrow>
          r = Inr () \<and> map branch_fields new = map entry_fields bs)"
  using assms
proof (induction bs arbitrary: w)
  case Nil
  then show ?case by (simp add: py_simps)
next
  case (Cons b bs)
  show ?case
  proof (cases "branch_fits (entry_fields b)")
    case False
    then have over: "\<not> (sqlite_int (dict_get (bd_source_line b) 0)
        \<and> sqlite_int (dict_get (bd_end_line b) 0))"
      by (simp add: branch_fits_def entry_fields_def)
    have "insert_branches cid (b # bs) w = (Inl OverflowError, tick w)"
      using Cons.prems(1) over
      by (simp add: run_simps sql_insert_coverage_branch_def)
    with Cons.prems(1) False show ?thesis
      by (intro exI[of _ "Inl OverflowError"] exI[of _ "tick w"] exI[of _ "[]"]) simp
  next
    case True
    then have fit: "sqlite_int (dict_get (bd_source_line b) 0)"
      "sqlite_int (dict_get (bd_end_line b) 0)"
      by (simp_all add: branch_fits_def entry_fields_def)
    define row where "row = \<lparr>cb_id = next_rowid cb_id (coverage_branches (dbw w)),
        cb_coverage_issue_id = cid, cb_source_line = dict_get (bd_source_line b) 0,
        cb_end_line = dict_get (bd_end_line b) 0, cb_condition = dict_get (bd_condition b) '''',
        cb_branch_type = dict_get (bd_branch_type b) '''', cb_created_at = clock w\<rparr>"
    define d1 where "d1 = (dbw w)\<lparr>coverage_branches :=
        \<lparr>rows = rows (coverage_branches (dbw w)) @ [row],
         seq = next_rowid cb_id (coverage_branches (dbw w))\<rparr>\<rparr>"
    define w1 where "w1 = set_db d1 (tick w)"
    have r1: "ready w1"
      using Cons.prems(1) by (simp add: w1_def d1_def ready_def)
    have c1: "cid \<in> set (map ci_id (rows (coverage_issues (dbw w1))))"
      using Cons.prems(2) by (simp add: w1_def d1_def)
    have step: "insert_branches cid (b # bs) w = insert_branches cid bs w1"
      using Cons.prems fit
      by (simp add: run_simps sql_insert_coverage_branch_def insert_row_def Let_def
          w1_def d1_def row_def)
    from Cons.IH[OF r1 c1] obtain r w' new where
      n: "insert_branches cid bs w1 = (r, w')" "ready w'"
         "source_files (dbw w') = source_files (dbw w1)"
         "pytest_files (dbw w') = pytest_files (dbw w1)"
         "pytest_errors (dbw w') = pytest_errors (dbw w1)"
         "coverage_issues (dbw w') = coverage_issues (dbw w1)"
         "rows (coverage_branches (dbw w')) = rows (coverage_branches (dbw w1)) @ new"
         "list_all (\<lambda>b. cb_coverage_issue_id b = cid) new"
         "r = Inr () \<or> r = Inl OverflowError"
         "list_all branch_fits (map entry_fields bs) \<longrightarrow>
            r = Inr () \<and> map branch_fields new = map entry_fields bs"
      by blast
    have "rows (coverage_branches (dbw w')) = rows (coverage_branches (dbw w)) @ (row # new)"
      using n(7) by (simp add: w1_def d1_def)
    moreover have "list_all (\<lambda>b. cb_coverage_issue_id b = cid) (row # new)"
      using n(8) by (simp add: row_def)
    moreover have "list_all branch_fits (map entry_fields (b # bs)) \<longrightarrow>
        r = Inr () \<and> map branch_fields (row # new) = map entry_fields (b # bs)"
      using n(10) by (simp add: row_def branch_fields_def entry_fields_def)
    ultimately show ?thesis
      using step n(1-6,9)
      by (intro exI[of _ r] exI[of _ w'] exI[of _ "row # new"]) (simp add: w1_def d1_def)
  qed
qed

lemma coverage_added_refl: "coverage_added p w w"
  by (simp add: coverage_added_def)

lemma coverage_added_trans:
  assumes "coverage_added p w w1" and "coverage_added p w1 w2"
  shows "coverage_added p w w2"
proof -
  from assms(1) obtain i1 b1 where
    1: "rows (coverage_issues (dbw w1)) = rows (coverage_issues (dbw w)) @ i1"
       "rows (coverage_branches (dbw w1)) = rows (coverage_branches (dbw w)) @ b1"
       "list_all (\<lambda>r. ci_file_path r = p) i1"
       "list_all (\<lambda>b. cb_coverage_issue_id b \<in> set (map ci_id i1)) b1"
    unfolding coverage_added_def by blast
  from assms(2) obtain i2 b2 where
    2: "rows (coverage_issues (dbw w2)) = rows (coverage_issues (dbw w1)) @ i2"
       "rows (coverage_branches (dbw w2)) = rows (coverage_branches (dbw w1)) @ b2"
       "list_all (\<lambda>r. ci_file_path r = p) i2"
       "list_all (\<lambda>b. cb_coverage_issue_id b \<in> set (map ci_id i2)) b2"
    unfolding coverage_added_def by blast
  have "rows (coverage_issues (dbw w2)) = rows (coverage_issues (dbw w)) @ (i1 @ i2)"
    by (simp add: 1 2)
  moreover have "rows (coverage_branches (dbw w2)) = rows (coverage_branches (dbw w)) @ (b1 @ b2)"
    by (simp add: 1 2)
  moreover have "list_all (\<lambda>r. ci_file_path r = p) (i1 @ i2)"
    using 1(3) 2(3) by simp
  moreover have "list_all (\<lambda>b. cb_coverage_issue_id b \<in> set (map ci_id (i1 @ i2))) (b1 @ b2)"
    using 1(4) 2(4) by (auto simp: list_all_iff)
  ultimately have "\<exists>newi newb.
        rows (coverage_issues (dbw w2)) = rows (coverage_issues (dbw w)) @ newi \<and>
        rows (coverage_branches (dbw w2)) = rows (coverage_branches (dbw w)) @ newb \<and>
        list_all (\<lambda>r. ci_file_path r = p) newi \<and>
        list_all (\<lambda>b. cb_coverage_issue_id b \<in> set (map ci_id newi)) newb"
    by blast
  moreover have "source_files (dbw w2) = source_files (dbw w)"
    "pytest_files (dbw w2) = pytest_files (dbw w)" "pytest_errors (dbw w2) = pytest_errors (dbw w)"
    using assms by (simp_all add: coverage_added_def)
  ultimately show ?thesis
    unfolding coverage_added_def by blast
qed

lemma stored_after_issue:
  assumes "no_orphans d"
    and "rows (coverage_issues d') = rows (coverage_issues d) @ [ir]"
    and "rows (coverage_branches d') = rows (coverage_branches d) @ newb"
    and "ci_id ir \<notin> set (map ci_id (rows (coverage_issues d)))"
    and "list_all (\<lambda>b. cb_coverage_issue_id b = ci_id ir) newb"
  shows "no_orphans d'"
    and "stored_issues q d' = stored_issues q d @
           (if ci_file_path ir = q
            then [(ci_line_number ir, ci_is_excluded ir, map branch_fields newb)] else [])"
proof -
  show "no_orphans d'"
    using assms(1,5) by (auto simp: no_orphans_def assms(2,3) list_all_iff)
  have old: "filter (\<lambda>b. cb_coverage_issue_id b = ci_id r) newb = []"
    if "r \<in> set (rows (coverage_issues d))" for r
    using that assms(4,5) by (auto simp: filter_empty_conv list_all_iff)
  have new1: "filter (\<lambda>b. cb_coverage_issue_id b = ci_id ir) (rows (coverage_branches d)) = []"
  proof -
    have "cb_coverage_issue_id b \<noteq> ci_id ir" if "b \<in> set (rows (coverage_branches d))" for b
    proof -
      from assms(1) that have "cb_coverage_issue_id b \<in> set (map ci_id (rows (coverage_issues d)))"
        by (simp add: no_orphans_def list_all_iff)
      with assms(4) show ?thesis by metis
    qed
    then show ?thesis by (simp add: filter_empty_conv)
  qed
  have new2: "filter (\<lambda>b. cb_coverage_issue_id b = ci_id ir) newb = newb"
    using assms(5) by (simp add: filter_id_conv list_all_iff)
  have same: "map (\<lambda>r. (ci_line_number r, ci_is_excluded r,
                map branch_fields (sql_select_coverage_branches (ci_id r) d')))
       (filter (\<lambda>r. ci_file_path r = q) (rows (coverage_issues d))) = stored_issues q d"
    unfolding stored_issues_def
    by (rule map_cong) (simp_all add: sql_select_coverage_branches_def assms(3) old)
  show "stored_issues q d' = stored_issues q d @
           (if ci_file_path ir = q
            then [(ci_line_number ir, ci_is_excluded ir, map branch_fields newb)] else [])"
    using same
    by (simp add: stored_issues_def[of q d'] assms(2) sql_select_coverage_branches_def[of _ d']
        assms(3) new1 new2)
qed

lemma coverage_added_tick: "coverage_added p w (tick w)"
  by (simp add: coverage_added_def)

lemma add_issue_effect:
  assumes "ready w" and "no_orphans (dbw w)"
  shows "\<exists>r w'. py_bind format_datetime (\<lambda>now.
           py_bind (execute_write (sql_insert_coverage_issue P src line excl now)) (\<lambda>cid.
           insert_branches cid bs)) w = (r, w')
     \<and> ready w' \<and> no_orphans (dbw w') \<and> coverage_added P w w'
     \<and> (r = Inr () \<or> r = Inl OverflowError)
     \<and> (issue_fits (line, excl, map entry_fields bs) \<longrightarrow>
          r = Inr () \<and>
          stored_issues P (dbw w') =
            stored_issues P (dbw w) @ [(line, excl, map entry_fields bs)])"
proof (cases "sqlite_int line")
  case False
  have "py_bind format_datetime (\<lambda>now.
           py_bind (execute_write (sql_insert_coverage_issue P src line excl now)) (\<lambda>cid.
           insert_branches cid bs)) w = (Inl OverflowError, tick w)"
    using assms(1) False by (simp add: run_simps sql_insert_coverage_issue_def)
  with assms False show ?thesis
    by (intro exI[of _ "Inl OverflowError"] exI[of _ "tick w"])
       (simp add: coverage_added_tick issue_fits_def)
next
  case True
  define i where "i = next_rowid ci_id (coverage_issues (dbw w))"
  define ir where "ir = \<lparr>ci_id = i, ci_file_path = P, ci_source_file_id = src,
      ci_line_number = line, ci_is_excluded = excl, ci_created_at = clock w\<rparr>"
  define d1 where "d1 = (dbw w)\<lparr>coverage_issues :=
      \<lparr>rows = rows (coverage_issues (dbw w)) @ [ir], seq = i\<rparr>\<rparr>"
  define w1 where "w1 = set_db d1 (tick w)"
  have r1: "ready w1"
    using assms(1) by (simp add: w1_def d1_def ready_def)
  have c1: "i \<in> set (map ci_id (rows (coverage_issues (dbw w1))))"
    by (simp add: w1_def d1_def ir_def)
  have step: "py_bind format_datetime (\<lambda>now.
           py_bind (execute_write (sql_insert_coverage_issue P src line excl now)) (\<lambda>cid.
           insert_branches cid bs)) w = insert_branches i bs w1"
    using assms(1) True
    by (simp add: run_simps sql_insert_coverage_issue_def insert_row_def Let_def
        w1_def d1_def ir_def i_def)
  from insert_branches_effect[OF r1 c1, of bs] obtain r w' new where
    n: "insert_branches i bs w1 = (r, w')" "ready w'"
       "source_files (dbw w') = source_files (dbw w1)"
       "pytest_files (dbw w') = pytest_files (dbw w1)"
       "pytest_errors (dbw w') = pytest_errors (dbw w1)"
       "coverage_issues (dbw w') = coverage_issues (dbw w1)"
       "rows (coverage_branches (dbw w')) = rows (coverage_branches (dbw w1)) @ new"
       "list_all (\<lambda>b. cb_coverage_issue_id b = i) new"
       "r = Inr () \<or> r = Inl OverflowError"
       "list_all branch_fits (map entry_fields bs) \<longrightarrow>
          r = Inr () \<and> map branch_fields new = map entry_fields bs"
    by blast
  have ri: "rows (coverage_issues (dbw w')) = rows (coverage_issues (dbw w)) @ [ir]"
    by (simp add: n(6) w1_def d1_def)
  have rb: "rows (coverage_branches (dbw w')) = rows (coverage_branches (dbw w)) @ new"
    by (simp add: n(7) w1_def d1_def)
  have fresh: "ci_id ir \<notin> set (map ci_id (rows (coverage_issues (dbw w))))"
  proof
    assume "ci_id ir \<in> set (map ci_id (rows (coverage_issues (dbw w))))"
    then obtain r where "r \<in> set (rows (coverage_issues (dbw w)))" "ci_id r = i"
      by (auto simp: ir_def)
    with next_rowid_fresh[of r "coverage_issues (dbw w)" ci_id] show False
      by (simp add: i_def)
  qed
  have own: "list_all (\<lambda>b. cb_coverage_issue_id b = ci_id ir) new"
    using n(8) by (simp add: ir_def)
  have no: "no_orphans (dbw w')"
    by (rule stored_after_issue(1)[OF assms(2) ri rb fresh own])
  have st: "issue_fits (line, excl, map entry_fields bs) \<longrightarrow>
      r = Inr () \<and>
      stored_issues P (dbw w') = stored_issues P (dbw w) @ [(line, excl, map entry_fields bs)]"
    using stored_after_issue(2)[OF assms(2) ri rb fresh own, of P] n(10)
    by (simp add: ir_def issue_fits_def)
  have "list_all (\<lambda>r. ci_file_path r = P) [ir]"
    by (simp add: ir_def)
  moreover have "list_all (\<lambda>b. cb_coverage_issue_id b \<in> set (map ci_id [ir])) new"
    using own by (simp add: list_all_iff)
  ultimately have "\<exists>newi newb.
        rows (coverage_issues (dbw w')) = rows (coverage_issues (dbw w)) @ newi \<and>
        rows (coverage_branches (dbw w')) = rows (coverage_branches (dbw w)) @ newb \<and>
        list_all (\<lambda>r. ci_file_path r = P) newi \<and>
        list_all (\<lambda>b. cb_coverage_issue_id b \<in> set (map ci_id newi)) newb"
    using ri rb by blast
  then have ca: "coverage_added P w w'"
    using n(3,4,5) by (simp add: coverage_added_def w1_def d1_def)
  from step n(1,2,9) no ca st show ?thesis
    by (intro exI[of _ r] exI[of _ w']) simp
qed

lemma insert_line_issues_step:
  "insert_line_issues P sid (issue # issues) =
     py_bind (py_bind format_datetime (\<lambda>now.
        py_bind (execute_write (sql_insert_coverage_issue P (Some sid)
                   (dict_get (cd_line_number issue) 0) (dict_get (cd_is_excluded issue) False) now))
          (\<lambda>cid. insert_branches cid (dict_get (cd_branches issue) []))))
       (\<lambda>_. insert_line_issues P sid issues)"
proof -
  have "(case cd_branches issue of
           None \<Rightarrow> py_return ()
         | Some bs \<Rightarrow> if bs \<noteq> [] then insert_branches cid bs else py_return ()) =
        insert_branches cid (dict_get (cd_branches issue) [])" for cid
    by (cases "cd_branches issue") (auto simp: dict_get_def)
  then show ?thesis
    by (simp add: py_bind_assoc)
qed

lemma insert_branch_issues_step:
  "insert_branch_issues P sid (b # bs) =
     (if bd_parent_issue_id b = None then
        py_bind (py_bind format_datetime (\<lambda>now.
           py_bind (execute_write (sql_insert_coverage_issue P (Some sid)
                      (dict_get (bd_source_line b) 0) False now))
             (\<lambda>cid. insert_branches cid [branch_dict.truncate b])))
          (\<lambda>_. insert_branch_issues P sid bs)
      else insert_branch_issues P sid bs)"
  by (simp add: py_bind_assoc py_bind_return branch_dict.truncate_def)

lemma entry_fields_truncate: "entry_fields (branch_dict.truncate b) = entry_fields b"
  by (simp add: entry_fields_def branch_dict.truncate_def)

lemma insert_line_issues_effect:
  assumes "ready w" and "no_orphans (dbw w)"
  shows "\<exists>r w'. insert_line_issues P sid issues w = (r, w')
     \<and> ready w' \<and> no_orphans (dbw w') \<and> coverage_added P w w'
     \<and> (r = Inr () \<or> r = Inl OverflowError)
     \<and> (list_all issue_fits (map line_issue_view issues) \<longrightarrow>
          r = Inr () \<and>
          stored_issues P (dbw w') = stored_issues P (dbw w) @ map line_issue_view issues)"
  using assms
proof (induction issues arbitrary: w)
  case Nil
  then show ?case by (simp add: py_return_def coverage_added_refl)
next
  case (Cons issue issues)
  from add_issue_effect[OF Cons.prems, of P "Some sid" "dict_get (cd_line_number issue) 0"
      "dict_get (cd_is_excluded issue) False" "dict_get (cd_branches issue) []"]
  obtain r1 w1 where
    a: "py_bind format_datetime (\<lambda>now.
           py_bind (execute_write (sql_insert_coverage_issue P (Some sid)
                      (dict_get (cd_line_number issue) 0) (dict_get (cd_is_excluded issue) False) now))
             (\<lambda>cid. insert_branches cid (dict_get (cd_branches issue) []))) w = (r1, w1)"
       "ready w1" "no_orphans (dbw w1)" "coverage_added P w w1"
       "r1 = Inr () \<or> r1 = Inl OverflowError"
       "issue_fits (line_issue_view issue) \<longrightarrow>
          r1 = Inr () \<and>
          stored_issues P (dbw w1) = stored_issues P (dbw w) @ [line_issue_view issue]"
    unfolding line_issue_view_def by blast
  show ?case
  proof (cases "r1 = Inr ()")
    case False
    with a(5) have e: "r1 = Inl OverflowError" by simp
    have "insert_line_issues P sid (issue # issues) w = (Inl OverflowError, w1)"
      using a(1) unfolding e
      by (simp only: insert_line_issues_step) (rule py_bind_Inl)
    with a(2,3,4,6) False show ?thesis
      by (intro exI[of _ "Inl OverflowError"] exI[of _ w1]) auto
  next
    case True
    have step: "insert_line_issues P sid (issue # issues) w = insert_line_issues P sid issues w1"
      using a(1) unfolding True
      by (simp only: insert_line_issues_step) (rule py_bind_Inr)
    from Cons.IH[OF a(2,3)] obtain r w' where
      b: "insert_line_issues P sid issues w1 = (r, w')" "ready w'" "no_orphans (dbw w')"
         "coverage_added P w1 w'" "r = Inr () \<or> r = Inl OverflowError"
         "list_all issue_fits (map line_issue_view issues) \<longrightarrow>
            r = Inr () \<and>
            stored_issues P (dbw w') = stored_issues P (dbw w1) @ map line_issue_view issues"
      by blast
    have "list_all issue_fits (map line_issue_view (issue # issues)) \<longrightarrow>
        r = Inr () \<and>
        stored_issues P (dbw w') =
          stored_issues P (dbw w) @ map line_issue_view (issue # issues)"
      using a(6) b(6) by simp
    with step b(1,2,3,5) coverage_added_trans[OF a(4) b(4)] show ?thesis
      by (intro exI[of _ r] exI[of _ w']) simp
  qed
qed

lemma insert_branch_issues_effect:
  assumes "ready w" and "no_orphans (dbw w)"
  shows "\<exists>r w'. insert_branch_issues P sid branches w = (r, w')
     \<and> ready w' \<and> no_orphans (dbw w') \<and> coverage_added P w w'
     \<and> (r = Inr () \<or> r = Inl OverflowError)
     \<and> (list_all issue_fits
           (map standalone_view (filter (\<lambda>b. bd_parent_issue_id b = None) branches)) \<longrightarrow>
          r = Inr () \<and>
          stored_issues P (dbw w') = stored_issues P (dbw w) @
            map standalone_view (filter (\<lambda>b. bd_parent_issue_id b = None) branches))"
  using assms
proof (induction branches arbitrary: w)
  case Nil
  then show ?case by (simp add: py_return_def coverage_added_refl)
next
  case (Cons branch branches)
  show ?case
  proof (cases "bd_parent_issue_id branch = None")
    case False
    from Cons.IH[OF Cons.prems] obtain r w' where
      b: "insert_branch_issues P sid branches w = (r, w')" "ready w'" "no_orphans (dbw w')"
         "coverage_added P w w'" "r = Inr () \<or> r = Inl OverflowError"
         "list_all issue_fits
            (map standalone_view (filter (\<lambda>b. bd_parent_issue_id b = None) branches)) \<longrightarrow>
          r = Inr () \<and>
          stored_issues P (dbw w') = stored_issues P (dbw w) @
            map standalone_view (filter (\<lambda>b. bd_parent_issue_id b = None) branches)"
      by blast
    have run: "insert_branch_issues P sid (branch # branches) w = (r, w')"
      using False b(1) by (simp only: insert_branch_issues_step if_False)
    have f: "filter (\<lambda>b. bd_parent_issue_id b = None) (branch # branches) =
        filter (\<lambda>b. bd_parent_issue_id b = None) branches"
      using False by simp
    show ?thesis
      unfolding f using run b(2-6) by blast
  next
    case True
    from add_issue_effect[OF Cons.prems, of P "Some sid" "dict_get (bd_source_line branch) 0"
        False "[branch_dict.truncate branch]"]
    obtain r1 w1 where
      a: "py_bind format_datetime (\<lambda>now.
             py_bind (execute_write (sql_insert_coverage_issue P (Some sid)
                        (dict_get (bd_source_line branch) 0) False now))
               (\<lambda>cid. insert_branches cid [branch_dict.truncate branch])) w = (r1, w1)"
         "ready w1" "no_orphans (dbw w1)" "coverage_added P w w1"
         "r1 = Inr () \<or> r1 = Inl OverflowError"
         "issue_fits (dict_get (bd_source_line branch) 0, False,
                      map entry_fields [branch_dict.truncate branch]) \<longrightarrow>
            r1 = Inr () \<and>
            stored_issues P (dbw w1) = stored_issues P (dbw w) @
              [(dict_get (bd_source_line branch) 0, False,
                map entry_fields [branch_dict.truncate branch])]"
      by blast
    have a6: "issue_fits (standalone_view branch) \<longrightarrow>
            r1 = Inr () \<and>
            stored_issues P (dbw w1) = stored_issues P (dbw w) @ [standalone_view branch]"
      using a(6) by (simp add: standalone_view_def entry_fields_truncate)
    show ?thesis
    proof (cases "r1 = Inr ()")
      case False
      with a(5) have e: "r1 = Inl OverflowError" by simp
      have "insert_branch_issues P sid (branch # branches) w = (Inl OverflowError, w1)"
        using True a(1) unfolding e
        by (simp only: insert_branch_issues_step simp_thms if_True) (rule py_bind_Inl)
      with a(2,3,4) a6 False True show ?thesis
        by (intro exI[of _ "Inl OverflowError"] exI[of _ w1]) auto
    next
      case ok: True
      have step: "insert_branch_issues P sid (branch # branches) w =
          insert_branch_issues P sid branches w1"
        using True a(1) unfolding ok
        by (simp only: insert_branch_issues_step simp_thms if_True) (rule py_bind_Inr)
      from Cons.IH[OF a(2,3)] obtain r w' where
        b: "insert_branch_issues P sid branches w1 = (r, w')" "ready w'" "no_orphans (dbw w')"
           "coverage_added P w1 w'" "r = Inr () \<or> r = Inl OverflowError"
           "list_all issue_fits
              (map standalone_view (filter (\<lambda>b. bd_parent_issue_id b = None) branches)) \<longrightarrow>
            r = Inr () \<and>
            stored_issues P (dbw w') = stored_issues P (dbw w1) @
              map standalone_view (filter (\<lambda>b. bd_parent_issue_id b = None) branches)"
        by blast
      have "list_all issue_fits
            (map standalone_view
               (filter (\<lambda>b. bd_parent_issue_id b = None) (branch # branches))) \<longrightarrow>
          r = Inr () \<and>
          stored_issues P (dbw w') = stored_issues P (dbw w) @
            map standalone_view (filter (\<lambda>b. bd_parent_issue_id b = None) (branch # branches))"
        using True a6 b(6) by simp
      with step b(1,2,3,5) coverage_added_trans[OF a(4) b(4)] show ?thesis
        by (intro exI[of _ r] exI[of _ w']) simp
    qed
  qed
qed

lemma no_orphans_after_delete:
  assumes "no_orphans d"
    and "rows (coverage_issues d') = filter (\<lambda>r. \<not> p r) (rows (coverage_issues d))"
    and "rows (coverage_branches d') =
           filter (\<lambda>b. cb_coverage_issue_id b \<notin> set (map ci_id (filter p (rows (coverage_issues d)))))
             (rows (coverage_branches d))"
  shows "no_orphans d'"
proof -
  have "cb_coverage_issue_id b \<in> set (map ci_id (rows (coverage_issues d')))"
    if "b \<in> set (rows (coverage_branches d'))" for b
  proof -
    from that have b: "b \<in> set (rows (coverage_branches d))"
      "cb_coverage_issue_id b \<notin> set (map ci_id (filter p (rows (coverage_issues d))))"
      by (simp_all add: assms(3))
    from assms(1) b(1) obtain r where r: "r \<in> set (rows (coverage_issues d))"
      "ci_id r = cb_coverage_issue_id b"
      by (auto simp: no_orphans_def list_all_iff)
    with b(2) have "\<not> p r" by force
    with r show ?thesis by (force simp: assms(2))
  qed
  then show ?thesis
    by (simp add: no_orphans_def list_all_iff)
qed

lemma save_coverage_tail:
  assumes "ready w" and "no_orphans (dbw w)"
  shows "\<exists>r w' newi newb.
     py_bind (execute_write (sql_delete_coverage_issues (\<lambda>r. ci_file_path r = P))) (\<lambda>_.
       py_bind (insert_line_issues P sid L) (\<lambda>_. insert_branch_issues P sid B)) w = (r, w')
     \<and> ready w' \<and> no_orphans (dbw w')
     \<and> (r = Inr () \<or> r = Inl OverflowError)
     \<and> (list_all issue_fits
           (map line_issue_view L @
            map standalone_view (filter (\<lambda>b. bd_parent_issue_id b = None) B)) \<longrightarrow>
          r = Inr () \<and>
          stored_issues P (dbw w') =
            map line_issue_view L @
            map standalone_view (filter (\<lambda>b. bd_parent_issue_id b = None) B))
     \<and> source_files (dbw w') = source_files (dbw w)
     \<and> pytest_files (dbw w') = pytest_files (dbw w)
     \<and> pytest_errors (dbw w') = pytest_errors (dbw w)
     \<and> rows (coverage_issues (dbw w')) =
          filter (\<lambda>r. ci_file_path r \<noteq> P) (rows (coverage_issues (dbw w))) @ newi
     \<and> rows (coverage_branches (dbw w')) =
          filter (\<lambda>b. cb_coverage_issue_id b \<notin>
                    set (map ci_id (filter (\<lambda>r. ci_file_path r = P) (rows (coverage_issues (dbw w))))))
            (rows (coverage_branches (dbw w))) @ newb
     \<and> list_all (\<lambda>r. ci_file_path r = P) newi
     \<and> list_all (\<lambda>b. cb_coverage_issue_id b \<in> set (map ci_id newi)) newb"
proof -
  define d2 where "d2 = (dbw w)\<lparr>
      coverage_issues := delete_rows (\<lambda>r. ci_file_path r = P) (coverage_issues (dbw w)),
      coverage_branches := delete_rows
        (\<lambda>b. cb_coverage_issue_id b \<in>
              set (map ci_id (filter (\<lambda>r. ci_file_path r = P) (rows (coverage_issues (dbw w))))))
        (coverage_branches (dbw w))\<rparr>"
  define w2 where "w2 = set_db d2 w"
  have r2: "ready w2"
    using assms(1) by (simp add: w2_def d2_def ready_def)
  have ri: "rows (coverage_issues (dbw w2)) =
      filter (\<lambda>r. ci_file_path r \<noteq> P) (rows (coverage_issues (dbw w)))"
    by (simp add: w2_def d2_def delete_rows_def)
  have rb: "rows (coverage_branches (dbw w2)) =
      filter (\<lambda>b. cb_coverage_issue_id b \<notin>
                set (map ci_id (filter (\<lambda>r. ci_file_path r = P) (rows (coverage_issues (dbw w))))))
        (rows (coverage_branches (dbw w)))"
    by (simp add: w2_def d2_def delete_rows_def)
  have n2: "no_orphans (dbw w2)"
    by (rule no_orphans_after_delete[OF assms(2), where p = "\<lambda>r. ci_file_path r = P"])
       (simp_all add: ri rb)
  have s2: "stored_issues P (dbw w2) = []"
    by (simp add: stored_issues_def ri)
  have del: "execute_write (sql_delete_coverage_issues (\<lambda>r. ci_file_path r = P)) w =
      (Inr (rowcount (\<lambda>r. ci_file_path r = P) (coverage_issues (dbw w))), w2)"
    using assms(1)
    by (simp add: execute_write_ready sql_delete_coverage_issues_def Let_def w2_def d2_def)
  from insert_line_issues_effect[OF r2 n2, of P sid L] obtain r3 w3 where
    a: "insert_line_issues P sid L w2 = (r3, w3)" "ready w3" "no_orphans (dbw w3)"
       "coverage_added P w2 w3" "r3 = Inr () \<or> r3 = Inl OverflowError"
       "list_all issue_fits (map line_issue_view L) \<longrightarrow>
          r3 = Inr () \<and>
          stored_issues P (dbw w3) = stored_issues P (dbw w2) @ map line_issue_view L"
    by blast
  have same: "source_files (dbw w2) = source_files (dbw w)"
    "pytest_files (dbw w2) = pytest_files (dbw w)" "pytest_errors (dbw w2) = pytest_errors (dbw w)"
    by (simp_all add: w2_def d2_def)
  have finish: ?thesis
    if run: "py_bind (execute_write (sql_delete_coverage_issues (\<lambda>r. ci_file_path r = P))) (\<lambda>_.
         py_bind (insert_line_issues P sid L) (\<lambda>_. insert_branch_issues P sid B)) w = (r, w')"
      and good: "ready w'" "no_orphans (dbw w')" "coverage_added P w2 w'"
        "r = Inr () \<or> r = Inl OverflowError"
        "list_all issue_fits
           (map line_issue_view L @
            map standalone_view (filter (\<lambda>b. bd_parent_issue_id b = None) B)) \<longrightarrow>
          r = Inr () \<and>
          stored_issues P (dbw w') =
            map line_issue_view L @
            map standalone_view (filter (\<lambda>b. bd_parent_issue_id b = None) B)"
    for r w'
  proof -
    from good(3) obtain newi newb where
      c: "source_files (dbw w') = source_files (dbw w2)"
         "pytest_files (dbw w') = pytest_files (dbw w2)"
         "pytest_errors (dbw w') = pytest_errors (dbw w2)"
         "rows (coverage_issues (dbw w')) = rows (coverage_issues (dbw w2)) @ newi"
         "rows (coverage_branches (dbw w')) = rows (coverage_branches (dbw w2)) @ newb"
         "list_all (\<lambda>r. ci_file_path r = P) newi"
         "list_all (\<lambda>b. cb_coverage_issue_id b \<in> set (map ci_id newi)) newb"
      unfolding coverage_added_def by blast
    from run good(1,2,4,5) c same ri rb show ?thesis
      by (intro exI[of _ r] exI[of _ w'] exI[of _ newi] exI[of _ newb]) simp
  qed
  show ?thesis
  proof (cases "r3 = Inr ()")
    case False
    with a(5) have e: "r3 = Inl OverflowError" by simp
    have lines: "py_bind (insert_line_issues P sid L) (\<lambda>_. insert_branch_issues P sid B) w2 =
        (Inl OverflowError, w3)"
      using a(1) unfolding e by (rule py_bind_Inl)
    have run: "py_bind (execute_write (sql_delete_coverage_issues (\<lambda>r. ci_file_path r = P))) (\<lambda>_.
         py_bind (insert_line_issues P sid L) (\<lambda>_. insert_branch_issues P sid B)) w =
        (Inl OverflowError, w3)"
      using lines by (simp add: py_bind_def[of "execute_write _"] del)
    show ?thesis
      using a(6) False by (intro finish[OF run a(2,3,4)]) auto
  next
    case True
    from insert_branch_issues_effect[OF a(2,3), of P sid B] obtain r w' where
      b: "insert_branch_issues P sid B w3 = (r, w')" "ready w'" "no_orphans (dbw w')"
         "coverage_added P w3 w'" "r = Inr () \<or> r = Inl OverflowError"
         "list_all issue_fits
            (map standalone_view (filter (\<lambda>b. bd_parent_issue_id b = None) B)) \<longrightarrow>
          r = Inr () \<and>
          stored_issues P (dbw w') = stored_issues P (dbw w3) @
            map standalone_view (filter (\<lambda>b. bd_parent_issue_id b = None) B)"
      by blast
    have lines: "py_bind (insert_line_issues P sid L) (\<lambda>_. insert_branch_issues P sid B) w2 =
        (r, w')"
      using a(1) b(1) unfolding True by (simp add: py_bind_def)
    have run: "py_bind (execute_write (sql_delete_coverage_issues (\<lambda>r. ci_file_path r = P))) (\<lambda>_.
         py_bind (insert_line_issues P sid L) (\<lambda>_. insert_branch_issues P sid B)) w = (r, w')"
      using lines by (simp add: py_bind_def[of "execute_write _"] del)
    have st: "list_all issue_fits
           (map line_issue_view L @
            map standalone_view (filter (\<lambda>b. bd_parent_issue_id b = None) B)) \<longrightarrow>
          r = Inr () \<and>
          stored_issues P (dbw w') =
            map line_issue_view L @
            map standalone_view (filter (\<lambda>b. bd_parent_issue_id b = None) B)"
      using a(6) b(6) by (simp add: s2)
    show ?thesis
      by (rule finish[OF run b(2,3) coverage_added_trans[OF a(4) b(4)] b(5) st])
  qed
qed

lemma save_coverage_issues_to_db_effect:
  assumes "ready w" and "no_orphans (dbw w)"
  shows "\<exists>r w' newi newb. save_coverage_issues_to_db P issues w = (r, w')
     \<and> ready w' \<and> no_orphans (dbw w')
     \<and> (r = Inr () \<or> r = Inl OverflowError)
     \<and> (list_all issue_fits
           (map line_issue_view
              (filter (\<lambda>issue. dict_get (cd_type issue) '''' = ''CoverageIssue'') issues) @
            map standalone_view
              (filter (\<lambda>b. bd_parent_issue_id b = None)
                 (filter (\<lambda>issue. dict_get (cd_type issue) '''' = ''CoverageBranch'') issues))) \<longrightarrow>
          r = Inr () \<and>
          stored_issues P (dbw w') =
            map line_issue_view
              (filter (\<lambda>issue. dict_get (cd_type issue) '''' = ''CoverageIssue'') issues) @
            map standalone_view
              (filter (\<lambda>b. bd_parent_issue_id b = None)
                 (filter (\<lambda>issue. dict_get (cd_type issue) '''' = ''CoverageBranch'') issues)))
     \<and> pytest_files (dbw w') = pytest_files (dbw w)
     \<and> pytest_errors (dbw w') = pytest_errors (dbw w)
     \<and> rows (coverage_issues (dbw w')) =
          filter (\<lambda>r. ci_file_path r \<noteq> P) (rows (coverage_issues (dbw w))) @ newi
     \<and> rows (coverage_branches (dbw w')) =
          filter (\<lambda>b. cb_coverage_issue_id b \<notin>
                    set (map ci_id (filter (\<lambda>r. ci_file_path r = P) (rows (coverage_issues (dbw w))))))
            (rows (coverage_branches (dbw w))) @ newb
     \<and> list_all (\<lambda>r. ci_file_path r = P) newi
     \<and> list_all (\<lambda>b. cb_coverage_issue_id b \<in> set (map ci_id newi)) newb"
proof -
  define L where "L = filter (\<lambda>issue. dict_get (cd_type issue) '''' = ''CoverageIssue'') issues"
  define B where "B = filter (\<lambda>issue. dict_get (cd_type issue) '''' = ''CoverageBranch'') issues"
  have head: "\<exists>sid w0.
      save_coverage_issues_to_db P issues w =
        get_cursor (\<lambda>_.
          py_bind (execute_write (sql_delete_coverage_issues (\<lambda>r. ci_file_path r = P))) (\<lambda>_.
            py_bind (insert_line_issues P sid L) (\<lambda>_. insert_branch_issues P sid B)) w0) w
      \<and> ready w0
      \<and> pytest_files (dbw w0) = pytest_files (dbw w)
      \<and> pytest_errors (dbw w0) = pytest_errors (dbw w)
      \<and> coverage_issues (dbw w0) = coverage_issues (dbw w)
      \<and> coverage_branches (dbw w0) = coverage_branches (dbw w)"
  proof (cases "sql_select_source_file_by_path P (dbw w)")
    case (Some row)
    have "save_coverage_issues_to_db P issues w =
        get_cursor (\<lambda>_.
          py_bind (execute_write (sql_delete_coverage_issues (\<lambda>r. ci_file_path r = P))) (\<lambda>_.
            py_bind (insert_line_issues P (sf_id row) L)
              (\<lambda>_. insert_branch_issues P (sf_id row) B)) w) w"
      using assms(1) Some
      by (simp add: save_coverage_issues_to_db_def get_cursor_def py_bind_def[of "execute_select _"]
          py_bind_def[of "py_return _"] py_return_def execute_select_ready L_def B_def)
    with assms(1) show ?thesis
      by (intro exI[of _ "sf_id row"] exI[of _ w]) simp
  next
    case None
    then have absent: "P \<notin> set (map sf_file_path (rows (source_files (dbw w))))"
      by (simp add: sql_select_source_file_by_path_def fetchone_def find_by_key_None)
    define i where "i = next_rowid sf_id (source_files (dbw w))"
    define w0 where "w0 = set_db ((dbw w)\<lparr>source_files :=
        \<lparr>rows = rows (source_files (dbw w)) @
           [\<lparr>sf_id = i, sf_file_path = P, sf_file_hash = '''', sf_created_at = clock w,
             sf_updated_at = clock w\<rparr>], seq = i\<rparr>\<rparr>) (tick w)"
    have r0: "ready w0"
      using assms(1) by (simp add: w0_def ready_def)
    have sel: "execute_select (sql_select_source_file_by_path P) w = (Inr None, w)"
      using assms(1) None by (simp add: execute_select_ready)
    have ins: "py_bind format_datetime (\<lambda>current_time.
          execute_write (sql_insert_source_file P '''' current_time current_time)) w =
        (Inr i, w0)"
      using assms(1) absent
      by (simp add: run_simps sql_insert_source_file_def insert_row_def Let_def w0_def i_def
          ready_def)
    have "save_coverage_issues_to_db P issues w =
        get_cursor (\<lambda>_.
          py_bind (execute_write (sql_delete_coverage_issues (\<lambda>r. ci_file_path r = P))) (\<lambda>_.
            py_bind (insert_line_issues P i L) (\<lambda>_. insert_branch_issues P i B)) w0) w"
    proof -
      have sel': "\<And>f. py_bind (execute_select (sql_select_source_file_by_path P)) f w = f None w"
        by (rule py_bind_Inr) (rule sel)
      have ins': "\<And>f. py_bind (py_bind format_datetime (\<lambda>current_time.
          execute_write (sql_insert_source_file P '''' current_time current_time))) f w = f i w0"
        by (rule py_bind_Inr) (rule ins)
      show ?thesis
        by (simp add: save_coverage_issues_to_db_def get_cursor_def sel' ins' L_def B_def)
    qed
    with r0 show ?thesis
      by (intro exI[of _ i] exI[of _ w0]) (simp add: w0_def)
  qed
  then obtain sid w0 where
    h: "save_coverage_issues_to_db P issues w =
        get_cursor (\<lambda>_.
          py_bind (execute_write (sql_delete_coverage_issues (\<lambda>r. ci_file_path r = P))) (\<lambda>_.
            py_bind (insert_line_issues P sid L) (\<lambda>_. insert_branch_issues P sid B)) w0) w"
       "ready w0"
       "pytest_files (dbw w0) = pytest_files (dbw w)"
       "pytest_errors (dbw w0) = pytest_errors (dbw w)"
       "coverage_issues (dbw w0) = coverage_issues (dbw w)"
       "coverage_branches (dbw w0) = coverage_branches (dbw w)"
    by blast
  have n0: "no_orphans (dbw w0)"
    using assms(2) by (simp add: no_orphans_def h(5,6))
  from save_coverage_tail[OF h(2) n0, of P sid L B] obtain r w' newi newb where
    t: "py_bind (execute_write (sql_delete_coverage_issues (\<lambda>r. ci_file_path r = P))) (\<lambda>_.
          py_bind (insert_line_issues P sid L) (\<lambda>_. insert_branch_issues P sid B)) w0 = (r, w')"
       "ready w'" "no_orphans (dbw w')"
       "r = Inr () \<or> r = Inl OverflowError"
       "list_all issue_fits
           (map line_issue_view L @
            map standalone_view (filter (\<lambda>b. bd_parent_issue_id b = None) B)) \<longrightarrow>
          r = Inr () \<and>
          stored_issues P (dbw w') =
            map line_issue_view L @
            map standalone_view (filter (\<lambda>b. bd_parent_issue_id b = None) B)"
       "pytest_files (dbw w') = pytest_files (dbw w0)"
       "pytest_errors (dbw w') = pytest_errors (dbw w0)"
       "rows (coverage_issues (dbw w')) =
          filter (\<lambda>r. ci_file_path r \<noteq> P) (rows (coverage_issues (dbw w0))) @ newi"
       "rows (coverage_branches (dbw w')) =
          filter (\<lambda>b. cb_coverage_issue_id b \<notin>
                    set (map ci_id (filter (\<lambda>r. ci_file_path r = P) (rows (coverage_issues (dbw w0))))))
            (rows (coverage_branches (dbw w0))) @ newb"
       "list_all (\<lambda>r. ci_file_path r = P) newi"
       "list_all (\<lambda>b. cb_coverage_issue_id b \<in> set (map ci_id newi)) newb"
    by blast
  have run: "save_coverage_issues_to_db P issues w = (r, w')"
    using h(1) t(1,2) by (cases r) (simp_all add: get_cursor_def ready_def)
  from run t(2-11) h(3-6) show ?thesis
    unfolding L_def B_def by (intro exI[of _ r] exI[of _ w'] exI[of _ newi] exI[of _ newb]) simp
qed


lemma delete_coverage_issue_ready:
  assumes "ready w"
  shows "delete_coverage_issue i w =
     (if sqlite_int (int i) then
        (Inr (i \<in> ci_id ` set (rows (coverage_issues (dbw w)))),
         set_db ((dbw w)\<lparr>
           coverage_issues := delete_rows (\<lambda>r. ci_id r = i) (coverage_issues (dbw w)),
           coverage_branches := delete_rows
             (\<lambda>b. cb_coverage_issue_id b \<in>
                   set (map ci_id (filter (\<lambda>r. ci_id r = i) (rows (coverage_issues (dbw w))))))
             (coverage_branches (dbw w))\<rparr>) w)
      else (Inl OverflowError, w))"
  using assms
  by (simp add: delete_coverage_issue_def get_cursor_def run_simps
      sql_delete_coverage_issue_by_id_def sql_delete_coverage_issues_def
      rowcount_positive ready_def Let_def)

lemma raises_on_failure_return: "raises_on_failure (py_return v)"
  by (simp add: raises_on_failure_def py_return_def)

lemma raises_on_failure_raise: "raises_on_failure (py_raise e)"
  by (simp add: raises_on_failure_def py_raise_def)

lemma raises_on_failure_lift: "raises_on_failure (py_lift r)"
  by (simp add: raises_on_failure_def py_lift_def)

lemma raises_on_failure_format_datetime: "raises_on_failure format_datetime"
  by (auto simp: raises_on_failure_def format_datetime_def)

lemma raises_on_failure_connection_commit: "raises_on_failure connection_commit"
  by (auto simp: raises_on_failure_def connection_commit_def commit_def)

lemma storage_fails_raised:
  assumes "storage_fails w = (f, w')"
  shows "raised (conn w) \<le> raised (conn w') \<and> (raised (conn w) < raised (conn w') \<longrightarrow> f \<noteq> None)"
  using assms
  by (auto simp: storage_fails_def split: if_splits list.splits option.splits)

lemma raises_on_failure_read: "raises_on_failure (execute_read q)"
  unfolding raises_on_failure_def
proof (intro allI impI)
  fix w r w'
  assume run: "execute_read q w = (r, w')"
  obtain f w1 where s: "storage_fails w = (f, w1)" by (cases "storage_fails w")
  from storage_fails_raised[OF s] run s
  show "raised (conn w) \<le> raised (conn w') \<and>
      (raised (conn w) < raised (conn w') \<longrightarrow> (\<exists>e. r = Inl e))"
    by (cases f) (auto simp: execute_read_def)
qed

lemma raises_on_failure_select: "raises_on_failure (execute_select q)"
  by (simp add: execute_select_def raises_on_failure_read)

lemma raises_on_failure_write: "raises_on_failure (execute_write stmt)"
  unfolding raises_on_failure_def
proof (intro allI impI)
  fix w r w'
  assume run: "execute_write stmt w = (r, w')"
  obtain f w1 where s: "storage_fails w = (f, w1)" by (cases "storage_fails w")
  from storage_fails_raised[OF s] run s
  show "raised (conn w) \<le> raised (conn w') \<and>
      (raised (conn w) < raised (conn w') \<longrightarrow> (\<exists>e. r = Inl e))"
    by (cases f)
       (auto simp: execute_write_def begin_implicit_def Let_def split: sum.splits if_splits)
qed

lemma raises_on_failure_bind:
  assumes "raises_on_failure m" and "\<And>v. raises_on_failure (f v)"
  shows "raises_on_failure (py_bind m f)"
  unfolding raises_on_failure_def
proof (intro allI impI)
  fix w r w'
  assume run: "py_bind m f w = (r, w')"
  obtain r1 w1 where m: "m w = (r1, w1)" by (cases "m w")
  from assms(1) m have 1: "raised (conn w) \<le> raised (conn w1)"
    "raised (conn w) < raised (conn w1) \<longrightarrow> (\<exists>e. r1 = Inl e)"
    unfolding raises_on_failure_def by blast+
  show "raised (conn w) \<le> raised (conn w') \<and>
      (raised (conn w) < raised (conn w') \<longrightarrow> (\<exists>e. r = Inl e))"
  proof (cases r1)
    case (Inl e)
    with run m have "r = Inl e" "w' = w1" by (simp_all add: py_bind_def)
    with 1 show ?thesis by simp
  next
    case (Inr v)
    with run m have "f v w1 = (r, w')" by (simp add: py_bind_def)
    with assms(2)[of v] have 2: "raised (conn w1) \<le> raised (conn w')"
      "raised (conn w1) < raised (conn w') \<longrightarrow> (\<exists>e. r = Inl e)"
      unfolding raises_on_failure_def by blast+
    from Inr 1(2) have "\<not> raised (conn w) < raised (conn w1)" by auto
    with 1(1) have "raised (conn w1) = raised (conn w)" by simp
    with 2 show ?thesis by simp
  qed
qed

lemma raises_on_failure_get_cursor:
  assumes "raises_on_failure m"
  shows "raises_on_failure (get_cursor m)"
  unfolding raises_on_failure_def
proof (intro allI impI)
  fix w r w'
  assume run: "get_cursor m w = (r, w')"
  obtain r1 w1 where m: "m w = (r1, w1)" by (cases "m w")
  from assms m have 1: "raised (conn w) \<le> raised (conn w1)"
    "raised (conn w) < raised (conn w1) \<longrightarrow> (\<exists>e. r1 = Inl e)"
    unfolding raises_on_failure_def by blast+
  have keep: "raised (commit c) = raised c" "raised (rollback c) = raised c" for c
    by (simp_all add: commit_def rollback_def split: option.splits)
  from run m have "r = r1" "raised (conn w') = raised (conn w1)"
    by (cases r1; auto simp: get_cursor_def keep)+
  with 1 show "raised (conn w) \<le> raised (conn w') \<and>
      (raised (conn w) < raised (conn w') \<longrightarrow> (\<exists>e. r = Inl e))"
    by simp
qed

lemma raises_on_failure_try_lift:
  assumes "\<And>e. raises_on_failure (h e)"
  shows "raises_on_failure (py_try (py_lift x) h)"
proof (cases x)
  case (Inl e)
  then have "py_try (py_lift x) h = h e"
    by (intro ext) (simp add: py_try_def py_lift_def)
  with assms show ?thesis by simp
next
  case (Inr v)
  then have "py_try (py_lift x) h = py_return v"
    by (intro ext) (simp add: py_try_def py_lift_def py_return_def)
  then show ?thesis by (simp add: raises_on_failure_return)
qed

lemmas raises_on_failure_intros = raises_on_failure_bind raises_on_failure_get_cursor
  raises_on_failure_return raises_on_failure_raise raises_on_failure_lift
  raises_on_failure_format_datetime raises_on_failure_connection_commit
  raises_on_failure_read raises_on_failure_select raises_on_failure_write
  raises_on_failure_try_lift

lemma raises_on_failure_insert_test_errors: "raises_on_failure (insert_test_errors tid es)"
  by (induction es) (auto intro!: raises_on_failure_intros)

lemma raises_on_failure_insert_branches: "raises_on_failure (insert_branches cid bs)"
  by (induction bs) (auto intro!: raises_on_failure_intros)

lemma raises_on_failure_insert_line_issues: "raises_on_failure (insert_line_issues P sid issues)"
  by (induction issues)
     (auto intro!: raises_on_failure_intros raises_on_failure_insert_branches split: option.split)

lemma raises_on_failure_insert_branch_issues:
  "raises_on_failure (insert_branch_issues P sid branches)"
  by (induction branches) (auto intro!: raises_on_failure_intros)

lemma raises_on_failure_collect_coverage_issues:
  "raises_on_failure (collect_coverage_issues issue_rows acc)"
  by (induction issue_rows arbitrary: acc) (auto intro!: raises_on_failure_intros)

lemma raises_on_failure_aggregates:
  "raises_on_failure (save_test_results_to_db F S E)"
  "raises_on_failure (save_coverage_issues_to_db P issues)"
  "raises_on_failure (get_pytest_file P1)"
  "raises_on_failure (get_source_file P2)"
  "raises_on_failure (get_next_pytest_error T)"
  "raises_on_failure (delete_pytest_error n)"
  "raises_on_failure (get_next_pytest_error_dict T')"
  unfolding save_test_results_to_db_def save_coverage_issues_to_db_def get_pytest_file_def
    get_source_file_def get_next_pytest_error_def delete_pytest_error_def
    get_next_pytest_error_dict_def Let_def
  by (auto intro!: raises_on_failure_intros raises_on_failure_insert_test_errors
      raises_on_failure_insert_line_issues raises_on_failure_insert_branch_issues
      raises_on_failure_collect_coverage_issues split: option.split)

lemma never_raises_try: "never_raises (py_try m (\<lambda>e. py_return v))"
  by (auto simp: never_raises_def py_try_def py_return_def split: prod.splits sum.splits)

lemma never_raises_get_cursor: "never_raises m \<Longrightarrow> never_raises (get_cursor m)"
  by (auto simp: never_raises_def get_cursor_def split: prod.splits sum.splits)

lemma never_raises_swallowing:
  "never_raises (get_next_coverage_issue q)"
  "never_raises (save_source_file_to_db P)"
  "never_raises (save_test_file_to_db P' P)"
  unfolding get_next_coverage_issue_def save_source_file_to_db_def save_test_file_to_db_def
  by (intro never_raises_get_cursor never_raises_try)+

lemma raises_on_failure_crud:
  "raises_on_failure (create_source_file s1 x1_0 x1_1)"
  "raises_on_failure (get_source_file_by_id s2 x2_0)"
  "raises_on_failure (get_source_file_by_path s3 x3_0)"
  "raises_on_failure (delete_source_file s4 x4_0)"
  "raises_on_failure (list_source_files s5 x5_0 x5_1)"
  "raises_on_failure (create_pytest_file s6 x6_0 x6_1 x6_2)"
  "raises_on_failure (get_pytest_file_by_id s7 x7_0)"
  "raises_on_failure (get_pytest_file_by_path s8 x8_0)"
  "raises_on_failure (get_pytest_files_by_source_id s9 x9_0)"
  "raises_on_failure (delete_pytest_file s10 x10_0)"
  "raises_on_failure (list_pytest_files s11 x11_0 x11_1)"
  "raises_on_failure (create_pytest_error s12 x12_0 x12_1 x12_2 x12_3 x12_4 x12_5)"
  "raises_on_failure (get_pytest_error_by_id s13 x13_0)"
  "raises_on_failure (get_pytest_error_by_node_id s14 x14_0)"
  "raises_on_failure (get_pytest_errors_by_test_file_id s15 x15_0)"
  "raises_on_failure (delete_pytest_error_crud s16 x16_0)"
  "raises_on_failure (delete_pytest_errors_by_test_file_id s17 x17_0)"
  "raises_on_failure (list_pytest_errors s18 x18_0 x18_1)"
  "raises_on_failure (create_collection_error s19 x19_0 x19_1 x19_2 x19_3 x19_4 x19_5)"
  "raises_on_failure (get_collection_error_by_id s20 x20_0)"
  "raises_on_failure (get_collection_error_by_node_id s21 x21_0)"
  "raises_on_failure (get_collection_errors_by_test_file_id s22 x22_0)"
  "raises_on_failure (delete_collection_error s23 x23_0)"
  "raises_on_failure (delete_collection_errors_by_test_file_id s24 x24_0)"
  "raises_on_failure (list_collection_errors s25 x25_0 x25_1)"
  "raises_on_failure (create_coverage_issue s26 x26_0 x26_1 x26_2 x26_3)"
  "raises_on_failure (get_coverage_issue_by_id s27 x27_0)"
  "raises_on_failure (get_coverage_issues_by_file_path s28 x28_0)"
  "raises_on_failure (get_coverage_issues_by_source_file_id s29 x29_0)"
  "raises_on_failure (delete_coverage_issues_by_file_path s30 x30_0)"
  "raises_on_failure (delete_coverage_issues_by_source_file_id s31 x31_0)"
  "raises_on_failure (list_coverage_issues s32 x32_0 x32_1)"
  "raises_on_failure (create_coverage_branch s33 x33_0 x33_1 x33_2 x33_3 x33_4)"
  "raises_on_failure (get_coverage_branch_by_id s34 x34_0)"
  "raises_on_failure (get_coverage_branches_by_issue_id s35 x35_0)"
  "raises_on_failure (delete_coverage_branch s36 x36_0)"
  "raises_on_failure (delete_coverage_branches_by_issue_id s37 x37_0)"
  "raises_on_failure (list_coverage_branches s38 x38_0 x38_1)"
  "raises_on_failure (update_source_file i1 h1)"
  "raises_on_failure (update_pytest_file i2 t2 p2)"
  "raises_on_failure (update_coverage_issue i3 b3 t3)"
  "raises_on_failure (delete_coverage_issue i4)"
  unfolding create_source_file_def get_source_file_by_id_def get_source_file_by_path_def
    delete_source_file_def list_source_files_def create_pytest_file_def
    get_pytest_file_by_id_def get_pytest_file_by_path_def get_pytest_files_by_source_id_def
    delete_pytest_file_def list_pytest_files_def create_pytest_error_def
    get_pytest_error_by_id_def get_pytest_error_by_node_id_def
    get_pytest_errors_by_test_file_id_def delete_pytest_error_crud_def
    delete_pytest_errors_by_test_file_id_def list_pytest_errors_def
    create_collection_error_def get_collection_error_by_id_def
    get_collection_error_by_node_id_def get_collection_errors_by_test_file_id_def
    delete_collection_error_def delete_collection_errors_by_test_file_id_def
    list_collection_errors_def create_coverage_issue_def get_coverage_issue_by_id_def
    get_coverage_issues_by_file_path_def get_coverage_issues_by_source_file_id_def
    delete_coverage_issues_by_file_path_def delete_coverage_issues_by_source_file_id_def
    list_coverage_issues_def create_coverage_branch_def get_coverage_branch_by_id_def
    get_coverage_branches_by_issue_id_def delete_coverage_branch_def
    delete_coverage_branches_by_issue_id_def list_coverage_branches_def
    update_source_file_def update_pytest_file_def update_coverage_issue_def
    delete_coverage_issue_def
  by (auto intro!: raises_on_failure_intros split: option.split)

lemma returns_None_on_failure_try:
  assumes "raises_on_failure m"
  shows "returns_None_on_failure (py_try m (\<lambda>e. py_return None))"
  unfolding returns_None_on_failure_def
proof (intro allI impI)
  fix w r w'
  assume run: "py_try m (\<lambda>e. py_return None) w = (r, w')"
  obtain r1 w1 where m: "m w = (r1, w1)" by (cases "m w")
  from assms m have 1: "raised (conn w) < raised (conn w1) \<longrightarrow> (\<exists>e. r1 = Inl e)"
    unfolding raises_on_failure_def by blast
  show "(\<exists>v. r = Inr v) \<and> (raised (conn w) < raised (conn w') \<longrightarrow> r = Inr None)"
  proof (cases r1)
    case (Inl e)
    with run m have "r = Inr None" by (simp add: py_try_def py_return_def)
    then show ?thesis by simp
  next
    case (Inr v)
    with run m have "r = Inr v" "w' = w1" by (simp_all add: py_try_def)
    with 1 Inr show ?thesis by auto
  qed
qed

lemma returns_None_on_failure_get_cursor:
  assumes "returns_None_on_failure m"
  shows "returns_None_on_failure (get_cursor m)"
  unfolding returns_None_on_failure_def
proof (intro allI impI)
  fix w r w'
  assume run: "get_cursor m w = (r, w')"
  obtain r1 w1 where m: "m w = (r1, w1)" by (cases "m w")
  have keep: "raised (commit c) = raised c" "raised (rollback c) = raised c" for c
    by (simp_all add: commit_def rollback_def split: option.split)
  from assms m have 1: "\<exists>v. r1 = Inr v"
    "raised (conn w) < raised (conn w1) \<longrightarrow> r1 = Inr None"
    unfolding returns_None_on_failure_def by blast+
  from 1(1) obtain v where v: "r1 = Inr v" by blast
  with run m have "r = r1" "raised (conn w') = raised (conn w1)"
    by (auto simp: get_cursor_def keep)
  with 1 show "(\<exists>v. r = Inr v) \<and> (raised (conn w) < raised (conn w') \<longrightarrow> r = Inr None)"
    by simp
qed

lemma returns_None_on_failure_swallowing:
  "returns_None_on_failure (get_next_coverage_issue q)"
  "returns_None_on_failure (save_source_file_to_db P)"
  unfolding get_next_coverage_issue_def save_source_file_to_db_def
  by (intro returns_None_on_failure_get_cursor returns_None_on_failure_try;
      auto intro!: raises_on_failure_intros split: option.split)+

lemma keeps_integrity_return: "keeps_integrity (py_return v)"
  by (simp add: keeps_integrity_def py_return_def)

lemma keeps_integrity_raise: "keeps_integrity (py_raise e)"
  by (simp add: keeps_integrity_def py_raise_def)

lemma keeps_integrity_lift: "keeps_integrity (py_lift r)"
  by (simp add: keeps_integrity_def py_lift_def)

lemma keeps_integrity_format_datetime: "keeps_integrity format_datetime"
  by (auto simp: keeps_integrity_def format_datetime_def integrity_def)

lemma keeps_integrity_connection_commit: "keeps_integrity connection_commit"
  by (auto simp: keeps_integrity_def connection_commit_def commit_def integrity_def)

lemma storage_fails_integrity:
  assumes "storage_fails w = (f, w')"
  shows "db (conn w') = db (conn w)" "txn_start (conn w') = txn_start (conn w)"
    "isolation_level (conn w') = isolation_level (conn w)"
  using assms by (auto simp: storage_fails_def split: if_splits list.splits option.splits)

lemma keeps_integrity_read: "keeps_integrity (execute_read q)"
  unfolding keeps_integrity_def
proof (intro allI impI)
  fix w r w'
  assume i: "integrity w" and run: "execute_read q w = (r, w')"
  obtain f w1 where s: "storage_fails w = (f, w1)" by (cases "storage_fails w")
  from run s have "w' = w1"
    by (cases f) (simp_all add: execute_read_def)
  with storage_fails_integrity[OF s] i show "integrity w'"
    by (simp add: integrity_def)
qed

lemma keeps_integrity_select: "keeps_integrity (execute_select q)"
  unfolding execute_select_def by (rule keeps_integrity_read)

lemma keeps_integrity_write:
  assumes "statement_keeps_integrity stmt"
  shows "keeps_integrity (execute_write stmt)"
  unfolding keeps_integrity_def
proof (intro allI impI)
  fix w r w'
  assume i: "integrity w" and run: "execute_write stmt w = (r, w')"
  obtain f w1 where s: "storage_fails w = (f, w1)" by (cases "storage_fails w")
  note same = storage_fails_integrity[OF s]
  from i same have i1: "integrity w1" by (simp add: integrity_def)
  show "integrity w'"
  proof (cases f)
    case (Some e)
    with run s have "w' = w1" by (simp add: execute_write_def)
    with i1 show ?thesis by simp
  next
    case None
    define c where "c = begin_implicit (conn w1)"
    have dc: "db c = db (conn w1)"
      by (simp add: c_def begin_implicit_def)
    have tc: "case txn_start c of None \<Rightarrow> True | Some d \<Rightarrow> no_orphans d"
      using i1 by (auto simp: c_def begin_implicit_def integrity_def split: option.splits)
    show ?thesis
    proof (cases "stmt (db c)")
      case (Inl e)
      with run s None have "w' = w1\<lparr>conn := c\<rparr>"
        by (simp add: execute_write_def c_def)
      with i1 dc tc show ?thesis by (simp add: integrity_def)
    next
      case (Inr p)
      obtain v d where p: "p = (v, d)" by (cases p)
      with run s None Inr have w': "w' = w1\<lparr>conn := c\<lparr>db := d\<rparr>\<rparr>"
        by (simp add: execute_write_def c_def)
      from i1 dc have "no_orphans (db c)" by (simp add: integrity_def)
      with assms Inr p have "no_orphans d"
        unfolding statement_keeps_integrity_def by blast
      with tc show ?thesis by (simp add: w' integrity_def)
    qed
  qed
qed

lemma keeps_integrity_bind:
  assumes "keeps_integrity m" and "\<And>v. keeps_integrity (f v)"
  shows "keeps_integrity (py_bind m f)"
  unfolding keeps_integrity_def
proof (intro allI impI)
  fix w r w'
  assume i: "integrity w" and run: "py_bind m f w = (r, w')"
  obtain r1 w1 where m: "m w = (r1, w1)" by (cases "m w")
  with assms(1) i have i1: "integrity w1"
    unfolding keeps_integrity_def by blast
  show "integrity w'"
  proof (cases r1)
    case (Inl e)
    with run m have "w' = w1" by (simp add: py_bind_def)
    with i1 show ?thesis by simp
  next
    case (Inr v)
    with run m have "f v w1 = (r, w')" by (simp add: py_bind_def)
    with assms(2)[of v] i1 show ?thesis
      unfolding keeps_integrity_def by blast
  qed
qed

lemma keeps_integrity_try:
  assumes "keeps_integrity m" and "\<And>e. keeps_integrity (h e)"
  shows "keeps_integrity (py_try m h)"
  unfolding keeps_integrity_def
proof (intro allI impI)
  fix w r w'
  assume i: "integrity w" and run: "py_try m h w = (r, w')"
  obtain r1 w1 where m: "m w = (r1, w1)" by (cases "m w")
  with assms(1) i have i1: "integrity w1"
    unfolding keeps_integrity_def by blast
  show "integrity w'"
  proof (cases r1)
    case (Inl e)
    with run m have "h e w1 = (r, w')" by (simp add: py_try_def)
    with assms(2)[of e] i1 show ?thesis
      unfolding keeps_integrity_def by blast
  next
    case (Inr v)
    with run m have "w' = w1" by (simp add: py_try_def)
    with i1 show ?thesis by simp
  qed
qed

lemma keeps_integrity_get_cursor:
  assumes "keeps_integrity m"
  shows "keeps_integrity (get_cursor m)"
  unfolding keeps_integrity_def
proof (intro allI impI)
  fix w r w'
  assume i: "integrity w" and run: "get_cursor m w = (r, w')"
  obtain r1 w1 where m: "m w = (r1, w1)" by (cases "m w")
  with assms(1) i have i1: "integrity w1"
    unfolding keeps_integrity_def by blast
  show "integrity w'"
  proof (cases r1)
    case (Inl e)
    with run m have "w' = w1\<lparr>conn := rollback (conn w1)\<rparr>" by (simp add: get_cursor_def)
    with i1 show ?thesis
      by (auto simp: integrity_def rollback_def split: option.splits)
  next
    case (Inr v)
    with run m have "w' = w1\<lparr>conn := commit (conn w1)\<rparr>" by (simp add: get_cursor_def)
    with i1 show ?thesis
      by (simp add: integrity_def commit_def)
  qed
qed

lemma statement_keeps_integrity_other_tables:
  "statement_keeps_integrity (sql_insert_source_file p h c u)"
  "statement_keeps_integrity (sql_insert_pytest_file p s j c u)"
  "statement_keeps_integrity (sql_update_pytest_file s' j' u i)"
  "statement_keeps_integrity (sql_delete_pytest_errors q)"
  "statement_keeps_integrity (sql_insert_pytest_error n i o' t j l c)"
  by (auto simp: statement_keeps_integrity_def no_orphans_def sql_insert_source_file_def
      sql_insert_pytest_file_def sql_update_pytest_file_def sql_delete_pytest_errors_def
      sql_insert_pytest_error_def insert_row_def Let_def split: if_splits prod.splits)

lemma statement_keeps_integrity_insert_coverage_issue:
  "statement_keeps_integrity (sql_insert_coverage_issue p s l x c)"
  by (auto simp: statement_keeps_integrity_def no_orphans_def sql_insert_coverage_issue_def
      insert_row_def Let_def list_all_iff split: if_splits prod.splits)

lemma statement_keeps_integrity_insert_coverage_branch:
  "statement_keeps_integrity (sql_insert_coverage_branch i sl el c b t)"
  by (auto simp: statement_keeps_integrity_def no_orphans_def sql_insert_coverage_branch_def
      insert_row_def Let_def list_all_iff split: if_splits prod.splits)

lemma statement_keeps_integrity_delete_coverage_issues:
  "statement_keeps_integrity (sql_delete_coverage_issues p)"
  unfolding statement_keeps_integrity_def
proof (intro allI impI)
  fix d v d'
  assume n: "no_orphans d" and run: "sql_delete_coverage_issues p d = Inr (v, d')"
  from run have d': "d' = d\<lparr>coverage_issues := delete_rows p (coverage_issues d),
      coverage_branches := delete_rows
        (\<lambda>b. cb_coverage_issue_id b \<in> set (map ci_id (filter p (rows (coverage_issues d)))))
        (coverage_branches d)\<rparr>"
    by (simp add: sql_delete_coverage_issues_def Let_def)
  show "no_orphans d'"
    by (rule no_orphans_after_delete[OF n, where p = p]) (simp_all add: d' delete_rows_def)
qed

lemma statement_keeps_integrity_delete_coverage_issue_by_id:
  "statement_keeps_integrity (sql_delete_coverage_issue_by_id i)"
  using statement_keeps_integrity_delete_coverage_issues[of "\<lambda>r. ci_id r = i"]
  by (auto simp: statement_keeps_integrity_def sql_delete_coverage_issue_by_id_def
      split: if_splits)

lemmas keeps_integrity_intros = keeps_integrity_bind keeps_integrity_get_cursor
  keeps_integrity_try keeps_integrity_return keeps_integrity_raise keeps_integrity_lift
  keeps_integrity_format_datetime keeps_integrity_connection_commit
  keeps_integrity_read keeps_integrity_select keeps_integrity_write
  statement_keeps_integrity_other_tables statement_keeps_integrity_insert_coverage_issue
  statement_keeps_integrity_insert_coverage_branch
  statement_keeps_integrity_delete_coverage_issues
  statement_keeps_integrity_delete_coverage_issue_by_id

lemma keeps_integrity_insert_test_errors: "keeps_integrity (insert_test_errors tid es)"
  by (induction es) (auto intro!: keeps_integrity_intros)

lemma keeps_integrity_insert_branches: "keeps_integrity (insert_branches cid bs)"
  by (induction bs) (auto intro!: keeps_integrity_intros)

lemma keeps_integrity_insert_line_issues: "keeps_integrity (insert_line_issues P sid L)"
  by (induction L)
     (auto intro!: keeps_integrity_intros keeps_integrity_insert_branches split: option.split)

lemma keeps_integrity_insert_branch_issues: "keeps_integrity (insert_branch_issues P sid B)"
  by (induction B) (auto intro!: keeps_integrity_intros)

lemma keeps_integrity_saves:
  "keeps_integrity (save_test_results_to_db F S E)"
  "keeps_integrity (save_coverage_issues_to_db P issues)"
  "keeps_integrity (save_source_file_to_db P)"
  "keeps_integrity (save_test_file_to_db P' P)"
  "keeps_integrity (delete_coverage_issue i)"
proof -
  show "keeps_integrity (save_test_results_to_db F S E)"
    unfolding save_test_results_to_db_def
    by (auto intro!: keeps_integrity_intros keeps_integrity_insert_test_errors
        split: option.split)
  show "keeps_integrity (save_coverage_issues_to_db P issues)"
    unfolding save_coverage_issues_to_db_def Let_def
    by (auto intro!: keeps_integrity_intros keeps_integrity_insert_line_issues
        keeps_integrity_insert_branch_issues split: option.split)
  show s: "keeps_integrity (save_source_file_to_db P)" for P
    unfolding save_source_file_to_db_def
    by (auto intro!: keeps_integrity_intros split: option.split)
  show "keeps_integrity (save_test_file_to_db P' P)"
    unfolding save_test_file_to_db_def
    by (auto intro!: keeps_integrity_intros s split: option.split)
  show "keeps_integrity (delete_coverage_issue i)"
    unfolding delete_coverage_issue_def
    by (auto intro!: keeps_integrity_intros split: option.split)
qed

section \<open>Transactional rollback (C1)\<close>

text \<open>
  With a connection that opens transactions (any \<open>isolation_level\<close> other than
  \<open>None\<close>), a save that fails at its second error leaves the database as it
  was: \<open>get_cursor\<close> rolls the open transaction back.
\<close>

lemma rollback_restores_with_transactions:
  "(let w0 = \<lparr>conn = get_connection (execute_schema empty_database) (Some ''DEFERRED''), clock = 0\<rparr>;
        (r, w1) = save_test_results_to_db ''tests/test_a.py'' (PDict [(''total'', PInt 2)])
           [\<lparr>te_node_id = Some ''test_a.py::test_x'', te_outcome = Some ''failed'',
             te_result = None, te_longrepr = Some ''AssertionError''\<rparr>,
            \<lparr>te_node_id = Some ''test_a.py::test_y'', te_outcome = Some ''failed'',
             te_result = Some PObject, te_longrepr = Some ''boom''\<rparr>] w0
    in r = Inl TypeError \<and> db (conn w1) = db (conn w0))"
  by (simp add: save_test_results_to_db_def eval_defs sql_defs)

text \<open>
  C1. Claim: when an aggregate save raises partway through inserting child
  rows, no row written by it is visible afterwards. On the module's own
  connection (\<open>qa_connection\<close>, opened with \<open>isolation_level = None\<close>) the save
  of two errors, the second of which cannot be serialised, raises
  \<open>TypeError\<close> and leaves behind the test file row and the first error row:
  every statement was committed as it ran and \<open>rollback()\<close> had nothing to
  undo.
\<close>

theorem save_test_results_leaves_partial_rows:
  "(let w0 = \<lparr>conn = qa_connection (execute_schema empty_database), clock = 0\<rparr>;
        (r, w1) = save_test_results_to_db ''tests/test_a.py'' (PDict [(''total'', PInt 2)])
           [\<lparr>te_node_id = Some ''test_a.py::test_x'', te_outcome = Some ''failed'',
             te_result = None, te_longrepr = Some ''AssertionError''\<rparr>,
            \<lparr>te_node_id = Some ''test_a.py::test_y'', te_outcome = Some ''failed'',
             te_result = Some PObject, te_longrepr = Some ''boom''\<rparr>] w0
    in r = Inl TypeError
       \<and> map pf_file_path (rows (pytest_files (db (conn w1)))) = [''tests/test_a.py'']
       \<and> map pe_node_id (rows (pytest_errors (db (conn w1)))) = [''test_a.py::test_x'']
       \<and> db (conn w1) \<noteq> db (conn w0))"
  by (simp add: save_test_results_to_db_def eval_defs sql_defs)

section \<open>Saving a source file twice (C5)\<close>

text \<open>
  C5. Two calls of \<open>save_source_file_to_db\<close> with the same path return the same
  identifier, and afterwards the table \<open>source_files\<close> holds exactly one row
  with that path. The calls run on the module's connection with the tables
  created; paths are unique in the table before, as the schema demands.
\<close>

theorem save_source_file_to_db_twice:
  assumes "ready w" and "unique_paths (dbw w)"
  shows "\<exists>i w1 w2. save_source_file_to_db P w = (Inr (Some i), w1)
      \<and> save_source_file_to_db P w1 = (Inr (Some i), w2)
      \<and> rowcount (\<lambda>r. sf_file_path r = P) (source_files (dbw w2)) = 1"
proof (cases "sql_select_source_file_by_path P (dbw w)")
  case (Some row)
  then have f: "find (\<lambda>r. sf_file_path r = P) (rows (source_files (dbw w))) = Some row"
    by (simp add: sql_select_source_file_by_path_def fetchone_def)
  have "filter (\<lambda>r. sf_file_path r = P) (rows (source_files (dbw w))) = [row]"
    using assms(2) f by (simp add: unique_paths_def filter_key_distinct)
  then have "rowcount (\<lambda>r. sf_file_path r = P) (source_files (dbw w)) = 1"
    by (simp add: rowcount_def)
  moreover have "save_source_file_to_db P w = (Inr (Some (sf_id row)), w)"
    using Some by (simp add: save_source_file_to_db_ready[OF assms(1)])
  ultimately show ?thesis by metis
next
  case None
  then have absent: "P \<notin> set (map sf_file_path (rows (source_files (dbw w))))"
    by (simp add: sql_select_source_file_by_path_def fetchone_def find_by_key_None)
  define i where "i = next_rowid sf_id (source_files (dbw w))"
  define row where "row = \<lparr>sf_id = i, sf_file_path = P, sf_file_hash = '''',
      sf_created_at = clock w, sf_updated_at = clock w\<rparr>"
  define w1 where "w1 = set_db ((dbw w)\<lparr>source_files :=
      \<lparr>rows = rows (source_files (dbw w)) @ [row], seq = i\<rparr>\<rparr>) (tick w)"
  have first: "save_source_file_to_db P w = (Inr (Some i), w1)"
    using None by (simp add: save_source_file_to_db_ready[OF assms(1)] w1_def row_def i_def)
  have r1: "ready w1"
    using assms(1) by (simp add: w1_def ready_def)
  have f1: "find (\<lambda>r. sf_file_path r = P) (rows (source_files (dbw w)) @ [row]) = Some row"
    using absent by (simp add: find_append_absent row_def)
  have sel: "sql_select_source_file_by_path P (dbw w1) = Some row"
    using f1 by (simp add: sql_select_source_file_by_path_def fetchone_def w1_def)
  have second: "save_source_file_to_db P w1 = (Inr (Some i), w1)"
    using sel by (simp add: save_source_file_to_db_ready[OF r1] row_def)
  have "filter (\<lambda>r. sf_file_path r = P) (rows (source_files (dbw w)) @ [row]) = [row]"
    using absent by (simp add: filter_key_absent row_def)
  then have "rowcount (\<lambda>r. sf_file_path r = P) (source_files (dbw w1)) = 1"
    by (simp add: rowcount_def w1_def)
  with first second show ?thesis by metis
qed

theorem save_source_file_to_db_twice_witness:
  "ready \<lparr>conn = qa_connection (execute_schema empty_database), clock = 0\<rparr>
   \<and> unique_paths (dbw \<lparr>conn = qa_connection (execute_schema empty_database), clock = 0\<rparr>)
   \<and> (\<exists>i w1 w2.
        save_source_file_to_db ''src/app.py''
            \<lparr>conn = qa_connection (execute_schema empty_database), clock = 0\<rparr> = (Inr (Some i), w1)
      \<and> save_source_file_to_db ''src/app.py'' w1 = (Inr (Some i), w2)
      \<and> rowcount (\<lambda>r. sf_file_path r = ''src/app.py'') (source_files (dbw w2)) = 1)"
proof -
  have r: "ready \<lparr>conn = qa_connection (execute_schema empty_database), clock = 0\<rparr>"
    by (simp add: ready_def qa_world_def dbw_def qa_connection_def get_connection_def
        execute_schema_def)
  have u: "unique_paths (dbw \<lparr>conn = qa_connection (execute_schema empty_database), clock = 0\<rparr>)"
    by (simp add: unique_paths_def dbw_def qa_connection_def get_connection_def
        execute_schema_def empty_database_def empty_table_def)
  from save_source_file_to_db_twice[OF r u, of "''src/app.py''"] r u show ?thesis
    by blast
qed

section \<open>The marker of "no errors" (C9)\<close>

text \<open>
  C9. When no row of \<open>pytest_errors\<close> matches, \<open>get_next_pytest_error_dict\<close>
  returns the dictionary \<open>{"Success": "No pytest errors were found"}\<close>, not an
  absent value. Both outcomes are dictionaries; they differ in their keys: the
  marker has the single key \<open>Success\<close>, an error record has the key \<open>id\<close> and
  no key \<open>Success\<close>.
\<close>

theorem get_next_pytest_error_dict_success_marker:
  assumes "ready w"
  shows "\<exists>d. get_next_pytest_error_dict T w = (Inr d, w) \<and>
     (if errors_of T (dbw w) = [] then d = [(''Success'', PStr ''No pytest errors were found'')]
      else ''id'' \<in> set (dict_keys d) \<and> ''Success'' \<notin> set (dict_keys d))"
proof (cases "lowest pe_id (errors_of T (dbw w))")
  case None
  then have empty: "errors_of T (dbw w) = []"
    by (simp add: lowest_None_iff)
  have "get_next_pytest_error_dict T w =
      (Inr [(''Success'', PStr ''No pytest errors were found'')], w)"
    unfolding get_next_pytest_error_dict_def
    by (rule get_cursor_ready[OF assms])
       (simp add: run_simps assms sql_select_next_pytest_error_errors_of None)
  with empty show ?thesis by simp
next
  case (Some row)
  then have nonempty: "errors_of T (dbw w) \<noteq> []"
    by (auto simp: lowest_None_iff[symmetric])
  define v where "v = (case json_loads (pe_result row) of Inl e \<Rightarrow> PList [] | Inr x \<Rightarrow> x)"
  define error where "error =
     (if text_truthy (pe_result row) then dict_set ''result'' v (pytest_error_dict row)
      else pytest_error_dict row)"
  have "get_next_pytest_error_dict T w =
      (Inr (dict_set ''error_type'' (PStr ERROR_TYPE_TEST) error), w)"
    unfolding get_next_pytest_error_dict_def
    by (rule get_cursor_ready[OF assms], cases "pe_result row")
       (simp_all add: run_simps assms sql_select_next_pytest_error_errors_of Some error_def v_def)
  moreover have "set (dict_keys (dict_set ''error_type'' (PStr ERROR_TYPE_TEST) error)) =
      set (dict_keys (pytest_error_dict row))"
    by (auto simp: error_def dict_keys_dict_set dict_keys_pytest_error_dict)
  ultimately show ?thesis
    using nonempty by (simp add: dict_keys_pytest_error_dict)
qed

theorem get_next_pytest_error_dict_success_marker_witness:
  "ready \<lparr>conn = qa_connection (execute_schema empty_database), clock = 0\<rparr>
   \<and> get_next_pytest_error_dict None
        \<lparr>conn = qa_connection (execute_schema empty_database), clock = 0\<rparr> =
       (Inr [(''Success'', PStr ''No pytest errors were found'')],
        \<lparr>conn = qa_connection (execute_schema empty_database), clock = 0\<rparr>)"
proof -
  have r: "ready \<lparr>conn = qa_connection (execute_schema empty_database), clock = 0\<rparr>"
    by (simp add: ready_def qa_world_def dbw_def qa_connection_def get_connection_def
        execute_schema_def)
  have e: "errors_of None (dbw \<lparr>conn = qa_connection (execute_schema empty_database), clock = 0\<rparr>) = []"
    by (simp add: errors_of_def dbw_def qa_connection_def get_connection_def
        execute_schema_def empty_database_def empty_table_def)
  from get_next_pytest_error_dict_success_marker[OF r, of None] e r show ?thesis
    by auto
qed

section \<open>Branch entries that name a parent (C10)\<close>

text \<open>
  C10. In \<open>save_coverage_issues_to_db\<close> every entry of type \<open>CoverageBranch\<close> that
  contains the key \<open>parent_issue_id\<close> is skipped without a word: the call
  behaves, in every state, as the call on the list without these entries, so
  such an entry gets neither a row in \<open>coverage_branches\<close> nor a parent row in
  \<open>coverage_issues\<close>. The instance below saves one such entry and stores
  nothing.
\<close>

theorem save_coverage_issues_skips_entries_with_parent:
  "save_coverage_issues_to_db P issues =
   save_coverage_issues_to_db P (filter (\<lambda>i. \<not> branch_entry_with_parent i) issues)"
  by (simp add: save_coverage_issues_to_db_def line_issues_without_parent_entries
      branch_issues_without_parent_entries insert_branch_issues_skip del: filter_filter)

theorem save_coverage_issues_skips_entries_with_parent_witness:
  "(let w0 = \<lparr>conn = qa_connection (execute_schema empty_database), clock = 0\<rparr>;
        (r, w1) = save_coverage_issues_to_db ''src/app.py''
           [\<lparr>bd_source_line = Some 12, bd_end_line = Some 14, bd_condition = Some ''x > 0'',
             bd_branch_type = Some ''if'', bd_parent_issue_id = Some 3,
             cd_type = Some ''CoverageBranch'', cd_line_number = None, cd_is_excluded = None,
             cd_branches = None\<rparr>] w0
    in r = Inr ()
       \<and> rows (coverage_issues (db (conn w1))) = []
       \<and> rows (coverage_branches (db (conn w1))) = [])"
  using save_coverage_issues_skips_entries_with_parent [of "''src/app.py''"
     "[\<lparr>bd_source_line = Some 12, bd_end_line = Some 14, bd_condition = Some ''x > 0'',
        bd_branch_type = Some ''if'', bd_parent_issue_id = Some 3,
        cd_type = Some ''CoverageBranch'', cd_line_number = None, cd_is_excluded = None,
        cd_branches = None\<rparr>]"]
  by (simp add: branch_entry_with_parent_def save_coverage_issues_to_db_def eval_defs sql_defs)

section \<open>Updates with no field given (C6)\<close>

text \<open>
  \<open>update_source_file\<close> and \<open>update_pytest_file\<close> always put \<open>updated_at = ?\<close>
  in the \<open>SET\<close> list. After \<open>save_test_file_to_db\<close> has created one row in each
  table, an update with no field given returns \<open>True\<close> and moves \<open>updated_at\<close>
  to the time of the call.
\<close>

theorem update_source_file_without_fields_touches_row:
  "(let w0 = \<lparr>conn = qa_connection (execute_schema empty_database), clock = 0\<rparr>;
        (i, w1) = save_test_file_to_db ''tests/test_app.py'' ''src/app.py'' w0;
        (r, w2) = update_source_file 1 None w1;
        (r', w3) = update_pytest_file 1 None None w2
    in i = Inr (Some 1)
       \<and> map sf_id (rows (source_files (db (conn w1)))) = [1]
       \<and> map sf_updated_at (rows (source_files (db (conn w1)))) = [0]
       \<and> r = Inr True
       \<and> map sf_updated_at (rows (source_files (db (conn w2)))) = [2]
       \<and> map pf_id (rows (pytest_files (db (conn w2)))) = [1]
       \<and> map pf_updated_at (rows (pytest_files (db (conn w2)))) = [1]
       \<and> r' = Inr True
       \<and> map pf_updated_at (rows (pytest_files (db (conn w3)))) = [3])"
  by (simp add: save_test_file_to_db_def save_source_file_to_db_def update_source_file_def
      update_pytest_file_def eval_defs sql_defs)

text \<open>
  C6, as the code has it. With no optional field given, \<open>update_coverage_issue\<close>
  returns \<open>False\<close> and changes nothing. \<open>update_source_file\<close> and
  \<open>update_pytest_file\<close> still run their \<open>UPDATE\<close>: they return whether a row has
  the identifier, and set \<open>updated_at\<close> of that row to the time of the call,
  leaving every other column and every other row as they were.
\<close>

theorem update_without_fields:
  assumes "ready w"
  shows "update_coverage_issue i None None w = (Inr False, w)
     \<and> update_source_file j None w =
         (Inr (j \<in> sf_id ` set (rows (source_files (dbw w)))),
          set_db ((dbw w)\<lparr>source_files := (source_files (dbw w))
             \<lparr>rows := map (\<lambda>r. if sf_id r = j then r\<lparr>sf_updated_at := clock w\<rparr> else r)
                        (rows (source_files (dbw w)))\<rparr>\<rparr>) (tick w))
     \<and> update_pytest_file k None None w =
         (Inr (k \<in> pf_id ` set (rows (pytest_files (dbw w)))),
          set_db ((dbw w)\<lparr>pytest_files := (pytest_files (dbw w))
             \<lparr>rows := map (\<lambda>r. if pf_id r = k then r\<lparr>pf_updated_at := clock w\<rparr> else r)
                        (rows (pytest_files (dbw w)))\<rparr>\<rparr>) (tick w))"
  by (simp add: update_coverage_issue_def py_return_def update_source_file_ready[OF assms]
      update_pytest_file_ready[OF assms] update_rows_def)

theorem update_without_fields_witness:
  "(let w = \<lparr>conn = qa_connection ((execute_schema empty_database)
                \<lparr>source_files := \<lparr>rows = [\<lparr>sf_id = 1, sf_file_path = ''src/app.py'',
                     sf_file_hash = ''abc'', sf_created_at = 0, sf_updated_at = 0\<rparr>], seq = 1\<rparr>\<rparr>),
              clock = 7\<rparr>
    in ready w
       \<and> update_coverage_issue 1 None None w = (Inr False, w)
       \<and> fst (update_source_file 1 None w) = Inr True
       \<and> rows (source_files (dbw (snd (update_source_file 1 None w)))) =
            [\<lparr>sf_id = 1, sf_file_path = ''src/app.py'', sf_file_hash = ''abc'',
              sf_created_at = 0, sf_updated_at = 7\<rparr>]
       \<and> fst (update_pytest_file 1 None None w) = Inr False)"
proof -
  define w where "w = \<lparr>conn = qa_connection ((execute_schema empty_database)
                \<lparr>source_files := \<lparr>rows = [\<lparr>sf_id = 1, sf_file_path = ''src/app.py'',
                     sf_file_hash = ''abc'', sf_created_at = 0, sf_updated_at = 0\<rparr>], seq = 1\<rparr>\<rparr>),
              clock = 7\<rparr>"
  have r: "ready w"
    by (simp add: w_def ready_def qa_world_def dbw_def qa_connection_def get_connection_def
        execute_schema_def)
  have d: "dbw w = (execute_schema empty_database)
                \<lparr>source_files := \<lparr>rows = [\<lparr>sf_id = 1, sf_file_path = ''src/app.py'',
                     sf_file_hash = ''abc'', sf_created_at = 0, sf_updated_at = 0\<rparr>], seq = 1\<rparr>\<rparr>"
    by (simp add: w_def dbw_def qa_connection_def get_connection_def)
  have c: "clock w = 7"
    by (simp add: w_def)
  from update_without_fields[OF r, of 1 1 1] r show ?thesis
    unfolding w_def[symmetric] Let_def
    by (simp add: d c execute_schema_def empty_database_def empty_table_def)
qed

section \<open>Failures of the storage layer (C7)\<close>

text \<open>
  The storage layer fails at a statement when the tables were never created
  or when the connection's \<open>faults\<close> say so (a locked database, a full disk);
  \<open>raised\<close> counts these failures. \<open>get_next_coverage_issue\<close> and
  \<open>save_source_file_to_db\<close> catch the exception and return \<open>None\<close>, the value
  \<open>get_next_coverage_issue\<close> also returns when the table exists and is empty.
  \<open>save_test_file_to_db\<close> calls \<open>save_source_file_to_db\<close>, gets \<open>None\<close> for
  the failure and goes on: it stores the test file without its source file
  and returns the new identifier.
\<close>

theorem storage_failure_returned_as_None:
  "(let w0 = \<lparr>conn = qa_connection empty_database, clock = 0\<rparr>;
        w1 = \<lparr>conn = qa_connection (execute_schema empty_database), clock = 0\<rparr>;
        w2 = \<lparr>conn = (qa_connection (execute_schema empty_database))
                        \<lparr>faults := [Some OperationalError]\<rparr>, clock = 0\<rparr>;
        (r0, u0) = get_next_coverage_issue None w0;
        (r1, u1) = get_next_coverage_issue None w1;
        (r2, u2) = get_next_coverage_issue None w2;
        (r3, u3) = save_source_file_to_db ''src/app.py'' w2;
        (r4, u4) = save_test_file_to_db ''tests/test_app.py'' ''src/app.py'' w2
    in r0 = Inr None \<and> raised (conn u0) = 1
       \<and> r1 = Inr None \<and> raised (conn u1) = 0
       \<and> r2 = Inr None \<and> raised (conn u2) = 1
       \<and> r3 = Inr None \<and> raised (conn u3) = 1 \<and> rows (source_files (db (conn u3))) = []
       \<and> r4 = Inr (Some 1) \<and> raised (conn u4) = 1
       \<and> map pf_source_file_id (rows (pytest_files (db (conn u4)))) = [None])"
  by (simp add: get_next_coverage_issue_def save_source_file_to_db_def save_test_file_to_db_def
      eval_defs sql_defs)

text \<open>
  C7, as the code has it. Whenever the storage layer has failed at a statement
  during a call, the call ends in an exception: so it is for every operation
  of the aggregate repository and of the entity repositories but three. The
  operations of \<open>crud/\<close> are taken with any statement in the place of their
  SQL text. \<open>get_next_coverage_issue\<close> and \<open>save_source_file_to_db\<close> never end
  in an exception and return \<open>None\<close> whenever the storage layer has failed
  during the call; \<open>save_test_file_to_db\<close> never ends in an exception either.
\<close>

theorem storage_exceptions_propagate:
  "(\<forall>test_file_path summary_data test_errors. raises_on_failure (save_test_results_to_db test_file_path summary_data test_errors))
   \<and> (\<forall>source_file_path coverage_issues_arg. raises_on_failure (save_coverage_issues_to_db source_file_path coverage_issues_arg))
   \<and> (\<forall>file_path. raises_on_failure (get_pytest_file file_path))
   \<and> (\<forall>file_path. raises_on_failure (get_source_file file_path))
   \<and> (\<forall>test_file. raises_on_failure (get_next_pytest_error test_file))
   \<and> (\<forall>node_id. raises_on_failure (delete_pytest_error node_id))
   \<and> (\<forall>test_file. raises_on_failure (get_next_pytest_error_dict test_file))
   \<and> (\<forall>statement file_path file_hash. raises_on_failure (create_source_file statement file_path file_hash))
   \<and> (\<forall>statement file_id. raises_on_failure (get_source_file_by_id statement file_id))
   \<and> (\<forall>statement file_path. raises_on_failure (get_source_file_by_path statement file_path))
   \<and> (\<forall>file_id file_hash. raises_on_failure (update_source_file file_id file_hash))
   \<and> (\<forall>statement file_id. raises_on_failure (delete_source_file statement file_id))
   \<and> (\<forall>statement limit offset. raises_on_failure (list_source_files statement limit offset))
   \<and> (\<forall>statement file_path source_file_id pytest_summary. raises_on_failure (create_pytest_file statement file_path source_file_id pytest_summary))
   \<and> (\<forall>statement file_id. raises_on_failure (get_pytest_file_by_id statement file_id))
   \<and> (\<forall>statement file_path. raises_on_failure (get_pytest_file_by_path statement file_path))
   \<and> (\<forall>statement source_file_id. raises_on_failure (get_pytest_files_by_source_id statement source_file_id))
   \<and> (\<forall>file_id source_file_id pytest_summary. raises_on_failure (update_pytest_file file_id source_file_id pytest_summary))
   \<and> (\<forall>statement file_id. raises_on_failure (delete_pytest_file statement file_id))
   \<and> (\<forall>statement limit offset. raises_on_failure (list_pytest_files statement limit offset))
   \<and> (\<forall>statement node_id test_file_id outcome error_type result longrepr. raises_on_failure (create_pytest_error statement node_id test_file_id outcome error_type result longrepr))
   \<and> (\<forall>statement error_id. raises_on_failure (get_pytest_error_by_id statement error_id))
   \<and> (\<forall>statement node_id. raises_on_failure (get_pytest_error_by_node_id statement node_id))
   \<and> (\<forall>statement test_file_id. raises_on_failure (get_pytest_errors_by_test_file_id statement test_file_id))
   \<and> (\<forall>statement error_id. raises_on_failure (delete_pytest_error_crud statement error_id))
   \<and> (\<forall>statement test_file_id. raises_on_failure (delete_pytest_errors_by_test_file_id statement test_file_id))
   \<and> (\<forall>statement limit offset. raises_on_failure (list_pytest_errors statement limit offset))
   \<and> (\<forall>statement node_id test_file_id outcome error_type result longrepr. raises_on_failure (create_collection_error statement node_id test_file_id outcome error_type result longrepr))
   \<and> (\<forall>statement error_id. raises_on_failure (get_collection_error_by_id statement error_id))
   \<and> (\<forall>statement node_id. raises_on_failure (get_collection_error_by_node_id statement node_id))
   \<and> (\<forall>statement test_file_id. raises_on_failure (get_collection_errors_by_test_file_id statement test_file_id))
   \<and> (\<forall>statement error_id. raises_on_failure (delete_collection_error statement error_id))
   \<and> (\<forall>statement test_file_id. raises_on_failure (delete_collection_errors_by_test_file_id statement test_file_id))
   \<and> (\<forall>statement limit offset. raises_on_failure (list_collection_errors statement limit offset))
   \<and> (\<forall>statement file_path line_number source_file_id is_excluded. raises_on_failure (create_coverage_issue statement file_path line_number source_file_id is_excluded))
   \<and> (\<forall>statement issue_id. raises_on_failure (get_coverage_issue_by_id statement issue_id))
   \<and> (\<forall>statement file_path. raises_on_failure (get_coverage_issues_by_file_path statement file_path))
   \<and> (\<forall>statement source_file_id. raises_on_failure (get_coverage_issues_by_source_file_id statement source_file_id))
   \<and> (\<forall>issue_id is_excluded source_file_id. raises_on_failure (update_coverage_issue issue_id is_excluded source_file_id))
   \<and> (\<forall>issue_id. raises_on_failure (delete_coverage_issue issue_id))
   \<and> (\<forall>statement file_path. raises_on_failure (delete_coverage_issues_by_file_path statement file_path))
   \<and> (\<forall>statement source_file_id. raises_on_failure (delete_coverage_issues_by_source_file_id statement source_file_id))
   \<and> (\<forall>statement limit offset. raises_on_failure (list_coverage_issues statement limit offset))
   \<and> (\<forall>statement coverage_issue_id source_line end_line condition branch_type. raises_on_failure (create_coverage_branch statement coverage_issue_id source_line end_line condition branch_type))
   \<and> (\<forall>statement branch_id. raises_on_failure (get_coverage_branch_by_id statement branch_id))
   \<and> (\<forall>statement coverage_issue_id. raises_on_failure (get_coverage_branches_by_issue_id statement coverage_issue_id))
   \<and> (\<forall>statement branch_id. raises_on_failure (delete_coverage_branch statement branch_id))
   \<and> (\<forall>statement coverage_issue_id. raises_on_failure (delete_coverage_branches_by_issue_id statement coverage_issue_id))
   \<and> (\<forall>statement limit offset. raises_on_failure (list_coverage_branches statement limit offset))
   \<and> (\<forall>file_path. returns_None_on_failure (get_next_coverage_issue file_path))
   \<and> (\<forall>source_path. returns_None_on_failure (save_source_file_to_db source_path))
   \<and> (\<forall>test_path source_path. never_raises (save_test_file_to_db test_path source_path))"
  by (intro conjI allI raises_on_failure_aggregates raises_on_failure_crud
      returns_None_on_failure_swallowing never_raises_swallowing(3))

theorem storage_exceptions_propagate_witness:
  "(let w = \<lparr>conn = (qa_connection (execute_schema empty_database))
                       \<lparr>faults := [None, None, None, None, Some OperationalError]\<rparr>,
              clock = 0\<rparr>;
        (r, w') = save_test_results_to_db ''tests/test_a.py'' (PDict [(''total'', PInt 2)])
           [\<lparr>te_node_id = Some ''test_a.py::test_x'', te_outcome = Some ''failed'',
             te_result = None, te_longrepr = Some ''AssertionError''\<rparr>,
            \<lparr>te_node_id = Some ''test_a.py::test_y'', te_outcome = Some ''failed'',
             te_result = None, te_longrepr = Some ''boom''\<rparr>] w
    in raised (conn w) = 0 \<and> raised (conn w') = 1 \<and> (\<exists>e. r = Inl e)
       \<and> r = Inl OperationalError
       \<and> map pf_file_path (rows (pytest_files (db (conn w')))) = [''tests/test_a.py'']
       \<and> rows (pytest_errors (db (conn w'))) = [])"
proof -
  define w where "w = \<lparr>conn = (qa_connection (execute_schema empty_database))
                       \<lparr>faults := [None, None, None, None, Some OperationalError]\<rparr>,
              clock = 0\<rparr>"
  define E where "E = [\<lparr>te_node_id = Some ''test_a.py::test_x'', te_outcome = Some ''failed'',
             te_result = None, te_longrepr = Some ''AssertionError''\<rparr>,
            \<lparr>te_node_id = Some ''test_a.py::test_y'', te_outcome = Some ''failed'',
             te_result = None, te_longrepr = Some ''boom''\<rparr>]"
  obtain r w' where run:
    "save_test_results_to_db ''tests/test_a.py'' (PDict [(''total'', PInt 2)]) E w = (r, w')"
    by force
  have ev: "raised (conn w) = 0" "raised (conn w') = 1" "r = Inl OperationalError"
    "map pf_file_path (rows (pytest_files (db (conn w')))) = [''tests/test_a.py'']"
    "rows (pytest_errors (db (conn w'))) = []"
    using run
    by (auto simp: w_def E_def save_test_results_to_db_def eval_defs sql_defs)
  from storage_exceptions_propagate
  have "raises_on_failure
      (save_test_results_to_db ''tests/test_a.py'' (PDict [(''total'', PInt 2)]) E)"
    by simp
  with run ev(1,2) have "\<exists>e. r = Inl e"
    unfolding raises_on_failure_def by (metis zero_less_one)
  with ev show ?thesis
    unfolding Let_def w_def[symmetric] E_def[symmetric] by (simp add: run)
qed

section \<open>Saving the results of a test file twice (C2)\<close>

text \<open>
  C2. Two calls of \<open>save_test_results_to_db\<close> in succession with the same
  path, summary and list of errors both return, and leave exactly one row of
  \<open>pytest_files\<close> with the path and, for that row's identifier, exactly as many
  rows of \<open>pytest_errors\<close> as the list has entries. The calls run on the
  module's connection with the tables created and paths unique; the summary
  and the \<open>result\<close> entries are values \<open>json.dumps\<close> encodes.
\<close>

theorem save_test_results_to_db_twice:
  assumes "ready w" and "unique_paths (dbw w)" and "json_serialisable S" and "encodable E"
  shows "\<exists>w1 w2 row. save_test_results_to_db F S E w = (Inr (), w1)
     \<and> save_test_results_to_db F S E w1 = (Inr (), w2)
     \<and> filter (\<lambda>r. pf_file_path r = F) (rows (pytest_files (dbw w2))) = [row]
     \<and> rowcount (\<lambda>r. pe_test_file_id r = pf_id row) (pytest_errors (dbw w2)) = length E"
proof -
  from save_test_results_to_db_effect[OF assms, of F] obtain w1 where
    first: "save_test_results_to_db F S E w = (Inr (), w1)" "ready w1" "unique_paths (dbw w1)"
    by blast
  from save_test_results_to_db_effect[OF first(2,3) assms(3,4), of F] obtain w2 row where
    second: "save_test_results_to_db F S E w1 = (Inr (), w2)"
      "filter (\<lambda>r. pf_file_path r = F) (rows (pytest_files (dbw w2))) = [row]"
      "rowcount (\<lambda>r. pe_test_file_id r = pf_id row) (pytest_errors (dbw w2)) = length E"
    by blast
  from first(1) second show ?thesis by blast
qed

theorem save_test_results_to_db_twice_witness:
  "ready \<lparr>conn = qa_connection (execute_schema empty_database), clock = 0\<rparr>
   \<and> unique_paths (dbw \<lparr>conn = qa_connection (execute_schema empty_database), clock = 0\<rparr>)
   \<and> json_serialisable (PDict [(''total'', PInt 2)])
   \<and> encodable [\<lparr>te_node_id = Some ''test_a.py::test_x'', te_outcome = Some ''failed'',
                  te_result = None, te_longrepr = Some ''AssertionError''\<rparr>,
                 \<lparr>te_node_id = Some ''test_a.py::test_y'', te_outcome = None,
                  te_result = Some (PList [PInt 1]), te_longrepr = None\<rparr>]
   \<and> (\<exists>w1 w2 row.
        save_test_results_to_db ''tests/test_a.py'' (PDict [(''total'', PInt 2)])
          [\<lparr>te_node_id = Some ''test_a.py::test_x'', te_outcome = Some ''failed'',
            te_result = None, te_longrepr = Some ''AssertionError''\<rparr>,
           \<lparr>te_node_id = Some ''test_a.py::test_y'', te_outcome = None,
            te_result = Some (PList [PInt 1]), te_longrepr = None\<rparr>]
          \<lparr>conn = qa_connection (execute_schema empty_database), clock = 0\<rparr> = (Inr (), w1)
      \<and> save_test_results_to_db ''tests/test_a.py'' (PDict [(''total'', PInt 2)])
          [\<lparr>te_node_id = Some ''test_a.py::test_x'', te_outcome = Some ''failed'',
            te_result = None, te_longrepr = Some ''AssertionError''\<rparr>,
           \<lparr>te_node_id = Some ''test_a.py::test_y'', te_outcome = None,
            te_result = Some (PList [PInt 1]), te_longrepr = None\<rparr>] w1 = (Inr (), w2)
      \<and> filter (\<lambda>r. pf_file_path r = ''tests/test_a.py'') (rows (pytest_files (dbw w2))) = [row]
      \<and> rowcount (\<lambda>r. pe_test_file_id r = pf_id row) (pytest_errors (dbw w2)) = 2)"
proof -
  have r: "ready \<lparr>conn = qa_connection (execute_schema empty_database), clock = 0\<rparr>"
    by (simp add: ready_def qa_world_def dbw_def qa_connection_def get_connection_def
        execute_schema_def)
  have u: "unique_paths (dbw \<lparr>conn = qa_connection (execute_schema empty_database), clock = 0\<rparr>)"
    by (simp add: unique_paths_def dbw_def qa_connection_def get_connection_def
        execute_schema_def empty_database_def empty_table_def)
  have s: "json_serialisable (PDict [(''total'', PInt 2)])"
    by simp
  have e: "encodable [\<lparr>te_node_id = Some ''test_a.py::test_x'', te_outcome = Some ''failed'',
                  te_result = None, te_longrepr = Some ''AssertionError''\<rparr>,
                 \<lparr>te_node_id = Some ''test_a.py::test_y'', te_outcome = None,
                  te_result = Some (PList [PInt 1]), te_longrepr = None\<rparr>]"
    by (simp add: encodable_def dict_get_def)
  from save_test_results_to_db_twice[OF r u s e, of "''tests/test_a.py''"] r u s e
  show ?thesis
    by (simp add: numeral_2_eq_2)
qed

section \<open>The next error of a test file (C4)\<close>

text \<open>
  C4. \<open>get_next_pytest_error\<close> returns the stored error of the test file with
  the lowest identifier, as the dictionary of its columns
  (\<open>error_record\<close>), or \<open>None\<close> when none is stored. After
  \<open>delete_pytest_error\<close> with that error's node id, the errors stored for the
  test file are those with another node id, and a second call returns the one
  with the lowest identifier among them, which is greater than the first, or
  \<open>None\<close> when none remain. The calls run on the module's connection with the
  tables created; identifiers are unique, and every \<open>result\<close> cell holds JSON
  text or the empty string.
\<close>

theorem get_next_pytest_error_order:
  assumes "ready w"
    and "\<forall>r\<in>set (rows (pytest_errors (dbw w))). decodable (pe_result r)"
    and "distinct (map pe_id (rows (pytest_errors (dbw w))))"
  shows "(errors_of (Some T) (dbw w) = [] \<and> get_next_pytest_error T w = (Inr None, w))
     \<or> (\<exists>row w' n. is_lowest row (errors_of (Some T) (dbw w))
          \<and> get_next_pytest_error T w = (Inr (Some (error_record row)), w)
          \<and> delete_pytest_error (pe_node_id row) w = (Inr n, w')
          \<and> errors_of (Some T) (dbw w') =
              filter (\<lambda>r. pe_node_id r \<noteq> pe_node_id row) (errors_of (Some T) (dbw w))
          \<and> ((errors_of (Some T) (dbw w') = [] \<and> get_next_pytest_error T w' = (Inr None, w'))
             \<or> (\<exists>row'. is_lowest row' (errors_of (Some T) (dbw w')) \<and> pe_id row < pe_id row'
                  \<and> get_next_pytest_error T w' = (Inr (Some (error_record row')), w'))))"
proof (cases "lowest pe_id (errors_of (Some T) (dbw w))")
  case None
  then have "errors_of (Some T) (dbw w) = []"
    by (simp add: lowest_None_iff)
  moreover have "get_next_pytest_error T w = (Inr None, w)"
    by (simp add: get_next_pytest_error_ready[OF assms(1,2)] None)
  ultimately show ?thesis by simp
next
  case (Some row)
  from lowest_Some[OF Some] have low: "is_lowest row (errors_of (Some T) (dbw w))"
    by (simp add: is_lowest_def)
  have first: "get_next_pytest_error T w = (Inr (Some (error_record row)), w)"
    by (simp add: get_next_pytest_error_ready[OF assms(1,2)] Some)
  define nid where "nid = pe_node_id row"
  define w' where "w' = set_db ((dbw w)\<lparr>pytest_errors :=
         delete_rows (\<lambda>r. pe_node_id r = nid) (pytest_errors (dbw w))\<rparr>) w"
  have del: "delete_pytest_error nid w =
      (Inr (rowcount (\<lambda>r. pe_node_id r = nid) (pytest_errors (dbw w))), w')"
    by (simp add: delete_pytest_error_ready[OF assms(1)] w'_def)
  have r': "ready w'"
    using assms(1) by (simp add: w'_def ready_def)
  have rows': "rows (pytest_errors (dbw w')) =
      filter (\<lambda>r. pe_node_id r \<noteq> nid) (rows (pytest_errors (dbw w)))"
    by (simp add: w'_def delete_rows_def)
  have dec': "\<forall>r\<in>set (rows (pytest_errors (dbw w'))). decodable (pe_result r)"
    using assms(2) by (simp add: rows')
  have rest: "errors_of (Some T) (dbw w') =
      filter (\<lambda>r. pe_node_id r \<noteq> nid) (errors_of (Some T) (dbw w))"
    by (simp add: errors_of_def rows' conj_commute)
  have second: "(errors_of (Some T) (dbw w') = [] \<and> get_next_pytest_error T w' = (Inr None, w'))
     \<or> (\<exists>row'. is_lowest row' (errors_of (Some T) (dbw w')) \<and> pe_id row < pe_id row'
          \<and> get_next_pytest_error T w' = (Inr (Some (error_record row')), w'))"
  proof (cases "lowest pe_id (errors_of (Some T) (dbw w'))")
    case None
    then have "errors_of (Some T) (dbw w') = []"
      by (simp add: lowest_None_iff)
    moreover have "get_next_pytest_error T w' = (Inr None, w')"
      by (simp add: get_next_pytest_error_ready[OF r' dec'] None)
    ultimately show ?thesis by simp
  next
    case (Some row')
    from lowest_Some[OF Some] have low': "is_lowest row' (errors_of (Some T) (dbw w'))"
      by (simp add: is_lowest_def)
    then have mem: "row' \<in> set (errors_of (Some T) (dbw w))" and other: "pe_node_id row' \<noteq> nid"
      by (simp_all add: is_lowest_def rest)
    from low mem have le: "pe_id row \<le> pe_id row'"
      by (simp add: is_lowest_def)
    have "row \<in> set (rows (pytest_errors (dbw w)))" "row' \<in> set (rows (pytest_errors (dbw w)))"
      using low mem by (simp_all add: is_lowest_def errors_of_def)
    moreover have "row \<noteq> row'"
      using other by (auto simp: nid_def)
    ultimately have "pe_id row \<noteq> pe_id row'"
      using assms(3) by (auto simp: distinct_map dest: inj_onD)
    with le have "pe_id row < pe_id row'" by simp
    moreover have "get_next_pytest_error T w' = (Inr (Some (error_record row')), w')"
      by (simp add: get_next_pytest_error_ready[OF r' dec'] Some)
    ultimately show ?thesis
      using low' by blast
  qed
  from low first del rest second show ?thesis
    unfolding nid_def by blast
qed

theorem get_next_pytest_error_order_witness:
  "(let r1 = \<lparr>pe_id = 1, pe_node_id = ''test_a.py::test_x'', pe_test_file_id = 1,
               pe_outcome = ''failed'', pe_error_type = ''PyTestError'',
               pe_result = JsonText (PList [PStr ''assert 1 == 2'']),
               pe_longrepr = ''AssertionError'', pe_created_at = 0\<rparr>;
        r2 = \<lparr>pe_id = 2, pe_node_id = ''test_a.py::test_y'', pe_test_file_id = 1,
               pe_outcome = ''failed'', pe_error_type = ''PyTestError'',
               pe_result = PlainText [], pe_longrepr = ''boom'',
               pe_created_at = 1\<rparr>;
        t = \<lparr>pf_id = 1, pf_file_path = ''tests/test_a.py'', pf_source_file_id = None,
              pf_pytest_summary = JsonText (PDict []), pf_created_at = 0, pf_updated_at = 0\<rparr>;
        w = \<lparr>conn = qa_connection ((execute_schema empty_database)
                \<lparr>pytest_errors := \<lparr>rows = [r1, r2], seq = 2\<rparr>\<rparr>), clock = 2\<rparr>
    in ready w
       \<and> list_all (\<lambda>r. decodable (pe_result r)) (rows (pytest_errors (dbw w)))
       \<and> distinct (map pe_id (rows (pytest_errors (dbw w))))
       \<and> get_next_pytest_error t w =
           (Inr (Some [(''id'', PInt 1), (''node_id'', PStr ''test_a.py::test_x''),
                       (''test_file_id'', PInt 1), (''outcome'', PStr ''failed''),
                       (''error_type'', PStr ''PyTestError''),
                       (''result'', PList [PStr ''assert 1 == 2'']),
                       (''longrepr'', PStr ''AssertionError''), (''created_at'', PTime 0)]), w)
       \<and> (\<exists>n w'. delete_pytest_error ''test_a.py::test_x'' w = (Inr n, w')
            \<and> get_next_pytest_error t w' =
                (Inr (Some [(''id'', PInt 2), (''node_id'', PStr ''test_a.py::test_y''),
                            (''test_file_id'', PInt 1), (''outcome'', PStr ''failed''),
                            (''error_type'', PStr ''PyTestError''),
                            (''result'', PStr []),
                            (''longrepr'', PStr ''boom''), (''created_at'', PTime 1)]), w')))"
proof -
  define r1 where "r1 = \<lparr>pe_id = 1, pe_node_id = ''test_a.py::test_x'', pe_test_file_id = 1,
               pe_outcome = ''failed'', pe_error_type = ''PyTestError'',
               pe_result = JsonText (PList [PStr ''assert 1 == 2'']),
               pe_longrepr = ''AssertionError'', pe_created_at = 0\<rparr>"
  define r2 where "r2 = \<lparr>pe_id = 2, pe_node_id = ''test_a.py::test_y'', pe_test_file_id = 1,
               pe_outcome = ''failed'', pe_error_type = ''PyTestError'',
               pe_result = PlainText [], pe_longrepr = ''boom'',
               pe_created_at = 1\<rparr>"
  define t where "t = \<lparr>pf_id = 1, pf_file_path = ''tests/test_a.py'', pf_source_file_id = None,
              pf_pytest_summary = JsonText (PDict []), pf_created_at = 0, pf_updated_at = 0\<rparr>"
  define w where "w = \<lparr>conn = qa_connection ((execute_schema empty_database)
                \<lparr>pytest_errors := \<lparr>rows = [r1, r2], seq = 2\<rparr>\<rparr>), clock = 2\<rparr>"
  have rs: "rows (pytest_errors (dbw w)) = [r1, r2]"
    by (simp add: w_def dbw_def qa_connection_def get_connection_def)
  have r: "ready w"
    by (simp add: w_def ready_def qa_world_def dbw_def qa_connection_def get_connection_def
        execute_schema_def)
  have d: "\<forall>r\<in>set (rows (pytest_errors (dbw w))). decodable (pe_result r)"
    by (simp add: rs r1_def r2_def decodable_def)
  have u: "distinct (map pe_id (rows (pytest_errors (dbw w))))"
    by (simp add: rs r1_def r2_def)
  have e: "errors_of (Some t) (dbw w) = [r1, r2]"
    by (simp add: errors_of_def rs r1_def r2_def t_def)
  have l1: "is_lowest row [r1, r2] \<longleftrightarrow> row = r1" for row
    by (auto simp: is_lowest_def r1_def r2_def)
  have l2: "is_lowest row [r2] \<longleftrightarrow> row = r2" for row
    by (auto simp: is_lowest_def)
  have n: "pe_node_id r1 = ''test_a.py::test_x''" "pe_node_id r2 \<noteq> ''test_a.py::test_x''"
    by (simp_all add: r1_def r2_def)
  have d1: "error_record r1 =
      [(''id'', PInt 1), (''node_id'', PStr ''test_a.py::test_x''),
       (''test_file_id'', PInt 1), (''outcome'', PStr ''failed''),
       (''error_type'', PStr ''PyTestError''),
       (''result'', PList [PStr ''assert 1 == 2'']),
       (''longrepr'', PStr ''AssertionError''), (''created_at'', PTime 0)]"
    by (simp add: error_record_def r1_def)
  have d2: "error_record r2 =
      [(''id'', PInt 2), (''node_id'', PStr ''test_a.py::test_y''),
       (''test_file_id'', PInt 1), (''outcome'', PStr ''failed''),
       (''error_type'', PStr ''PyTestError''),
       (''result'', PStr []),
       (''longrepr'', PStr ''boom''), (''created_at'', PTime 1)]"
    by (simp add: error_record_def r2_def)
  from get_next_pytest_error_order[OF r d u, of t]
  have "get_next_pytest_error t w = (Inr (Some (error_record r1)), w)
       \<and> (\<exists>n w'. delete_pytest_error ''test_a.py::test_x'' w = (Inr n, w')
            \<and> get_next_pytest_error t w' = (Inr (Some (error_record r2)), w'))"
    by (auto simp: e l1 l2 n)
  with r d u show ?thesis
    unfolding Let_def r1_def[symmetric] r2_def[symmetric] t_def[symmetric] w_def[symmetric]
      d1[symmetric] d2[symmetric]
    by (simp add: list_all_iff)
qed

section \<open>What a coverage save stores (C8)\<close>

text \<open>
  A line number outside the 64 bits of an SQLite integer cannot be bound:
  the save of two line issues, the second at line \<open>2 ^ 63\<close>, raises
  \<open>OverflowError\<close> after the first was stored.
\<close>

lemma save_coverage_issues_to_db_overflow:
  "(let w = \<lparr>conn = qa_connection (execute_schema empty_database), clock = 0\<rparr>;
        (r, w') = save_coverage_issues_to_db ''src/app.py''
          [\<lparr>bd_source_line = None, bd_end_line = None, bd_condition = None,
            bd_branch_type = None, bd_parent_issue_id = None,
            cd_type = Some ''CoverageIssue'', cd_line_number = Some 10,
            cd_is_excluded = Some False, cd_branches = None\<rparr>,
           \<lparr>bd_source_line = None, bd_end_line = None, bd_condition = None,
            bd_branch_type = None, bd_parent_issue_id = None,
            cd_type = Some ''CoverageIssue'', cd_line_number = Some (2 ^ 63),
            cd_is_excluded = Some False, cd_branches = None\<rparr>] w
    in r = Inl OverflowError
       \<and> stored_issues ''src/app.py'' (dbw w') = [(10, False, [])])"
  by (simp add: save_coverage_issues_to_db_def stored_issues_def dbw_def dict_get_def
      eval_defs sql_defs)

text \<open>
  C8. \<open>save_coverage_issues_to_db\<close> splits the entries by their \<open>type\<close> into
  line issues (\<open>CoverageIssue\<close>) and branch entries (\<open>CoverageBranch\<close>). After
  the call the issues stored for the path are, in order: one row for each
  line issue, owning the branches nested in the entry, then one new row for
  each standalone branch entry (one without \<open>parent_issue_id\<close>), owning exactly
  that one branch. The branches of a row are those whose \<open>coverage_issue_id\<close>
  is the row's identifier. The call runs on the module's connection with the
  tables created and no branch without its issue, and the line numbers of
  the entries to be stored are within 64 bits.
\<close>

theorem save_coverage_issues_to_db_stores:
  assumes "ready w" and "no_orphans (dbw w)"
    and "list_all issue_fits
          (map line_issue_view
             (filter (\<lambda>issue. dict_get (cd_type issue) '''' = ''CoverageIssue'') issues) @
           map standalone_view
             (filter (\<lambda>issue. dict_get (cd_type issue) '''' = ''CoverageBranch''
                        \<and> bd_parent_issue_id issue = None) issues))"
  shows "\<exists>w'. save_coverage_issues_to_db P issues w = (Inr (), w')
     \<and> stored_issues P (dbw w') =
          map line_issue_view
            (filter (\<lambda>issue. dict_get (cd_type issue) '''' = ''CoverageIssue'') issues) @
          map standalone_view
            (filter (\<lambda>issue. dict_get (cd_type issue) '''' = ''CoverageBranch''
                       \<and> bd_parent_issue_id issue = None) issues)"
proof -
  have f: "filter (\<lambda>b. bd_parent_issue_id b = None)
          (filter (\<lambda>issue. dict_get (cd_type issue) '''' = ''CoverageBranch'') issues) =
        filter (\<lambda>issue. dict_get (cd_type issue) '''' = ''CoverageBranch''
                  \<and> bd_parent_issue_id issue = None) issues"
    by (induction issues) auto
  from save_coverage_issues_to_db_effect[OF assms(1,2), of P issues] obtain r w' where
    e: "save_coverage_issues_to_db P issues w = (r, w')"
       "list_all issue_fits
           (map line_issue_view
              (filter (\<lambda>issue. dict_get (cd_type issue) '''' = ''CoverageIssue'') issues) @
            map standalone_view
              (filter (\<lambda>b. bd_parent_issue_id b = None)
                 (filter (\<lambda>issue. dict_get (cd_type issue) '''' = ''CoverageBranch'') issues))) \<longrightarrow>
          r = Inr () \<and>
          stored_issues P (dbw w') =
            map line_issue_view
              (filter (\<lambda>issue. dict_get (cd_type issue) '''' = ''CoverageIssue'') issues) @
            map standalone_view
              (filter (\<lambda>b. bd_parent_issue_id b = None)
                 (filter (\<lambda>issue. dict_get (cd_type issue) '''' = ''CoverageBranch'') issues))"
    by blast
  from e(2) assms(3) have "r = Inr ()"
    "stored_issues P (dbw w') =
          map line_issue_view
            (filter (\<lambda>issue. dict_get (cd_type issue) '''' = ''CoverageIssue'') issues) @
          map standalone_view
            (filter (\<lambda>issue. dict_get (cd_type issue) '''' = ''CoverageBranch''
                       \<and> bd_parent_issue_id issue = None) issues)"
    unfolding f by blast+
  with e(1) show ?thesis by (intro exI[of _ w']) simp
qed

theorem save_coverage_issues_to_db_stores_witness:
  "ready \<lparr>conn = qa_connection (execute_schema empty_database), clock = 0\<rparr>
   \<and> no_orphans (dbw \<lparr>conn = qa_connection (execute_schema empty_database), clock = 0\<rparr>)
   \<and> list_all issue_fits
        [(10, False, [(10, 12, ''x > 0'', ''if'')]), (20, False, [(20, 21, ''y'', ''while'')])]
   \<and> (\<exists>w'. save_coverage_issues_to_db ''src/app.py''
          [\<lparr>bd_source_line = None, bd_end_line = None, bd_condition = None,
            bd_branch_type = None, bd_parent_issue_id = None,
            cd_type = Some ''CoverageIssue'', cd_line_number = Some 10,
            cd_is_excluded = Some False,
            cd_branches = Some [\<lparr>bd_source_line = Some 10, bd_end_line = Some 12,
                                  bd_condition = Some ''x > 0'', bd_branch_type = Some ''if'',
                                  bd_parent_issue_id = None\<rparr>]\<rparr>,
           \<lparr>bd_source_line = Some 20, bd_end_line = Some 21, bd_condition = Some ''y'',
            bd_branch_type = Some ''while'', bd_parent_issue_id = None,
            cd_type = Some ''CoverageBranch'', cd_line_number = None, cd_is_excluded = None,
            cd_branches = None\<rparr>]
          \<lparr>conn = qa_connection (execute_schema empty_database), clock = 0\<rparr> = (Inr (), w')
      \<and> stored_issues ''src/app.py'' (dbw w') =
            [(10, False, [(10, 12, ''x > 0'', ''if'')]),
             (20, False, [(20, 21, ''y'', ''while'')])])"
proof -
  have r: "ready \<lparr>conn = qa_connection (execute_schema empty_database), clock = 0\<rparr>"
    by (simp add: ready_def qa_world_def dbw_def qa_connection_def get_connection_def
        execute_schema_def)
  have n: "no_orphans (dbw \<lparr>conn = qa_connection (execute_schema empty_database), clock = 0\<rparr>)"
    by (simp add: no_orphans_def dbw_def qa_connection_def get_connection_def
        execute_schema_def empty_database_def empty_table_def)
  have f: "list_all issue_fits
        [(10, False, [(10, 12, ''x > 0'', ''if'')]), (20, False, [(20, 21, ''y'', ''while'')])]"
    by (simp add: issue_fits_def branch_fits_def sqlite_int_def)
  from save_coverage_issues_to_db_stores[OF r n, of
      "[\<lparr>bd_source_line = None, bd_end_line = None, bd_condition = None,
            bd_branch_type = None, bd_parent_issue_id = None,
            cd_type = Some ''CoverageIssue'', cd_line_number = Some 10,
            cd_is_excluded = Some False,
            cd_branches = Some [\<lparr>bd_source_line = Some 10, bd_end_line = Some 12,
                                  bd_condition = Some ''x > 0'', bd_branch_type = Some ''if'',
                                  bd_parent_issue_id = None\<rparr>]\<rparr>,
           \<lparr>bd_source_line = Some 20, bd_end_line = Some 21, bd_condition = Some ''y'',
            bd_branch_type = Some ''while'', bd_parent_issue_id = None,
            cd_type = Some ''CoverageBranch'', cd_line_number = None, cd_is_excluded = None,
            cd_branches = None\<rparr>]" "''src/app.py''"] r n f
  show ?thesis
    by (simp add: dict_get_def line_issue_view_def standalone_view_def entry_fields_def)
qed

section \<open>Branches follow their issue (C3)\<close>

text \<open>
  C3. Deleting a coverage issue removes every branch that refers to it, by
  \<open>delete_coverage_issue\<close> as by the \<open>DELETE\<close> for the path inside
  \<open>save_coverage_issues_to_db\<close>. On the module's connection with the tables
  created and no branch without its issue: \<open>delete_coverage_issue\<close> removes
  the issue and its branches and nothing else (an identifier beyond 64 bits
  raises \<open>OverflowError\<close> and changes nothing); \<open>save_coverage_issues_to_db\<close>
  returns or raises \<open>OverflowError\<close>, and either way, of the rows the tables
  held, the issues of the path and the branches of those issues are gone,
  the others stay, and what the call added are issues of the path and
  branches that refer to them. On any connection, whatever the storage layer
  does and however the call ends, each aggregate save and
  \<open>delete_coverage_issue\<close> leave no branch that refers to an issue that does
  not exist, in the database and in what a rollback would restore.
\<close>

theorem cascade_integrity:
  assumes "ready w" and "no_orphans (dbw w)"
  shows "(if sqlite_int (int i)
          then (\<exists>w'. delete_coverage_issue i w =
                   (Inr (i \<in> ci_id ` set (rows (coverage_issues (dbw w)))), w')
               \<and> rows (coverage_issues (dbw w')) =
                    filter (\<lambda>r. ci_id r \<noteq> i) (rows (coverage_issues (dbw w)))
               \<and> rows (coverage_branches (dbw w')) =
                    filter (\<lambda>b. cb_coverage_issue_id b \<noteq> i) (rows (coverage_branches (dbw w)))
               \<and> sql_select_coverage_branches i (dbw w') = []
               \<and> no_orphans (dbw w'))
          else delete_coverage_issue i w = (Inl OverflowError, w))
     \<and> (\<exists>r w' newi newb. save_coverage_issues_to_db P issues w = (r, w')
          \<and> (r = Inr () \<or> r = Inl OverflowError)
          \<and> rows (coverage_issues (dbw w')) =
               filter (\<lambda>r. ci_file_path r \<noteq> P) (rows (coverage_issues (dbw w))) @ newi
          \<and> rows (coverage_branches (dbw w')) =
               filter (\<lambda>b. cb_coverage_issue_id b \<notin>
                         set (map ci_id (filter (\<lambda>r. ci_file_path r = P)
                                           (rows (coverage_issues (dbw w))))))
                 (rows (coverage_branches (dbw w))) @ newb
          \<and> list_all (\<lambda>b. cb_coverage_issue_id b \<in> set (map ci_id newi)) newb
          \<and> no_orphans (dbw w'))
     \<and> keeps_integrity (save_test_results_to_db F S E)
     \<and> keeps_integrity (save_coverage_issues_to_db P issues)
     \<and> keeps_integrity (save_source_file_to_db P)
     \<and> keeps_integrity (save_test_file_to_db P' P)
     \<and> keeps_integrity (delete_coverage_issue i)"
proof (intro conjI)
  show "if sqlite_int (int i)
          then (\<exists>w'. delete_coverage_issue i w =
                   (Inr (i \<in> ci_id ` set (rows (coverage_issues (dbw w)))), w')
               \<and> rows (coverage_issues (dbw w')) =
                    filter (\<lambda>r. ci_id r \<noteq> i) (rows (coverage_issues (dbw w)))
               \<and> rows (coverage_branches (dbw w')) =
                    filter (\<lambda>b. cb_coverage_issue_id b \<noteq> i) (rows (coverage_branches (dbw w)))
               \<and> sql_select_coverage_branches i (dbw w') = []
               \<and> no_orphans (dbw w'))
          else delete_coverage_issue i w = (Inl OverflowError, w)"
  proof (cases "sqlite_int (int i)")
    case False
    then show ?thesis
      by (simp add: delete_coverage_issue_ready[OF assms(1)])
  next
    case True
    define w' where "w' = set_db ((dbw w)\<lparr>
        coverage_issues := delete_rows (\<lambda>r. ci_id r = i) (coverage_issues (dbw w)),
        coverage_branches := delete_rows
          (\<lambda>b. cb_coverage_issue_id b \<in>
                set (map ci_id (filter (\<lambda>r. ci_id r = i) (rows (coverage_issues (dbw w))))))
          (coverage_branches (dbw w))\<rparr>) w"
    have run: "delete_coverage_issue i w =
        (Inr (i \<in> ci_id ` set (rows (coverage_issues (dbw w)))), w')"
      using True by (simp add: delete_coverage_issue_ready[OF assms(1)] w'_def)
    have ri: "rows (coverage_issues (dbw w')) =
        filter (\<lambda>r. \<not> ci_id r = i) (rows (coverage_issues (dbw w)))"
      by (simp add: w'_def delete_rows_def)
    have rb0: "rows (coverage_branches (dbw w')) =
        filter (\<lambda>b. cb_coverage_issue_id b \<notin>
                  set (map ci_id (filter (\<lambda>r. ci_id r = i) (rows (coverage_issues (dbw w))))))
          (rows (coverage_branches (dbw w)))"
      by (simp add: w'_def delete_rows_def)
    have no: "no_orphans (dbw w')"
      by (rule no_orphans_after_delete[OF assms(2) ri rb0])
    have member: "cb_coverage_issue_id b \<in> set (map ci_id (rows (coverage_issues (dbw w))))"
      if "b \<in> set (rows (coverage_branches (dbw w)))" for b
      using assms(2) that by (simp add: no_orphans_def list_all_iff)
    have rb: "rows (coverage_branches (dbw w')) =
        filter (\<lambda>b. cb_coverage_issue_id b \<noteq> i) (rows (coverage_branches (dbw w)))"
      unfolding rb0
    proof (rule filter_cong[OF refl])
      fix b
      assume b: "b \<in> set (rows (coverage_branches (dbw w)))"
      from member[OF b] obtain r where "r \<in> set (rows (coverage_issues (dbw w)))"
        "ci_id r = cb_coverage_issue_id b"
        by auto
      then show "(cb_coverage_issue_id b \<notin>
            set (map ci_id (filter (\<lambda>r. ci_id r = i) (rows (coverage_issues (dbw w)))))) =
          (cb_coverage_issue_id b \<noteq> i)"
        by force
    qed
    have none: "sql_select_coverage_branches i (dbw w') = []"
      by (simp add: sql_select_coverage_branches_def rb filter_empty_conv)
    from run ri rb none no
    have "\<exists>w'. delete_coverage_issue i w =
                (Inr (i \<in> ci_id ` set (rows (coverage_issues (dbw w)))), w')
            \<and> rows (coverage_issues (dbw w')) =
                 filter (\<lambda>r. ci_id r \<noteq> i) (rows (coverage_issues (dbw w)))
            \<and> rows (coverage_branches (dbw w')) =
                 filter (\<lambda>b. cb_coverage_issue_id b \<noteq> i) (rows (coverage_branches (dbw w)))
            \<and> sql_select_coverage_branches i (dbw w') = []
            \<and> no_orphans (dbw w')"
      by (intro exI[of _ w']) simp
    with True show ?thesis by simp
  qed
next
  from save_coverage_issues_to_db_effect[OF assms, of P issues]
  show "\<exists>r w' newi newb. save_coverage_issues_to_db P issues w = (r, w')
          \<and> (r = Inr () \<or> r = Inl OverflowError)
          \<and> rows (coverage_issues (dbw w')) =
               filter (\<lambda>r. ci_file_path r \<noteq> P) (rows (coverage_issues (dbw w))) @ newi
          \<and> rows (coverage_branches (dbw w')) =
               filter (\<lambda>b. cb_coverage_issue_id b \<notin>
                         set (map ci_id (filter (\<lambda>r. ci_file_path r = P)
                                           (rows (coverage_issues (dbw w))))))
                 (rows (coverage_branches (dbw w))) @ newb
          \<and> list_all (\<lambda>b. cb_coverage_issue_id b \<in> set (map ci_id newi)) newb
          \<and> no_orphans (dbw w')"
    by blast
qed (rule keeps_integrity_saves)+

theorem cascade_integrity_witness:
  "(let d = (execute_schema empty_database)
               \<lparr>coverage_issues := \<lparr>rows =
                    [\<lparr>ci_id = 1, ci_file_path = ''src/app.py'', ci_source_file_id = Some 1,
                      ci_line_number = 10, ci_is_excluded = False, ci_created_at = 0\<rparr>,
                     \<lparr>ci_id = 2, ci_file_path = ''src/lib.py'', ci_source_file_id = Some 2,
                      ci_line_number = 7, ci_is_excluded = False, ci_created_at = 1\<rparr>],
                    seq = 2\<rparr>,
                 coverage_branches := \<lparr>rows =
                    [\<lparr>cb_id = 1, cb_coverage_issue_id = 1, cb_source_line = 10, cb_end_line = 12,
                      cb_condition = ''x > 0'', cb_branch_type = ''if'', cb_created_at = 0\<rparr>,
                     \<lparr>cb_id = 2, cb_coverage_issue_id = 1, cb_source_line = 10, cb_end_line = 14,
                      cb_condition = ''x > 0'', cb_branch_type = ''else'', cb_created_at = 0\<rparr>,
                     \<lparr>cb_id = 3, cb_coverage_issue_id = 2, cb_source_line = 7, cb_end_line = 9,
                      cb_condition = ''y'', cb_branch_type = ''while'', cb_created_at = 1\<rparr>],
                    seq = 3\<rparr>\<rparr>;
        w = \<lparr>conn = qa_connection d, clock = 2\<rparr>;
        u = \<lparr>conn = (qa_connection (execute_schema empty_database))
                \<lparr>faults := [None, None, None, None, Some OperationalError]\<rparr>, clock = 0\<rparr>;
        (r, u') = save_coverage_issues_to_db ''src/lib.py''
          [\<lparr>bd_source_line = None, bd_end_line = None, bd_condition = None,
            bd_branch_type = None, bd_parent_issue_id = None,
            cd_type = Some ''CoverageIssue'', cd_line_number = Some 8,
            cd_is_excluded = Some False,
            cd_branches = Some [\<lparr>bd_source_line = Some 8, bd_end_line = Some 9,
                                  bd_condition = Some ''z'', bd_branch_type = Some ''if'',
                                  bd_parent_issue_id = None\<rparr>]\<rparr>] u
    in ready w \<and> no_orphans (dbw w)
       \<and> (\<exists>w'. delete_coverage_issue 1 w = (Inr True, w')
             \<and> map ci_id (rows (coverage_issues (dbw w'))) = [2]
             \<and> map cb_id (rows (coverage_branches (dbw w'))) = [3]
             \<and> no_orphans (dbw w'))
       \<and> integrity u \<and> r = Inl OperationalError
       \<and> map ci_id (rows (coverage_issues (dbw u'))) = [1]
       \<and> rows (coverage_branches (dbw u')) = []
       \<and> integrity u')"
proof -
  define d where "d = (execute_schema empty_database)
               \<lparr>coverage_issues := \<lparr>rows =
                    [\<lparr>ci_id = 1, ci_file_path = ''src/app.py'', ci_source_file_id = Some 1,
                      ci_line_number = 10, ci_is_excluded = False, ci_created_at = 0\<rparr>,
                     \<lparr>ci_id = 2, ci_file_path = ''src/lib.py'', ci_source_file_id = Some 2,
                      ci_line_number = 7, ci_is_excluded = False, ci_created_at = 1\<rparr>],
                    seq = 2\<rparr>,
                 coverage_branches := \<lparr>rows =
                    [\<lparr>cb_id = 1, cb_coverage_issue_id = 1, cb_source_line = 10, cb_end_line = 12,
                      cb_condition = ''x > 0'', cb_branch_type = ''if'', cb_created_at = 0\<rparr>,
                     \<lparr>cb_id = 2, cb_coverage_issue_id = 1, cb_source_line = 10, cb_end_line = 14,
                      cb_condition = ''x > 0'', cb_branch_type = ''else'', cb_created_at = 0\<rparr>,
                     \<lparr>cb_id = 3, cb_coverage_issue_id = 2, cb_source_line = 7, cb_end_line = 9,
                      cb_condition = ''y'', cb_branch_type = ''while'', cb_created_at = 1\<rparr>],
                    seq = 3\<rparr>\<rparr>"
  define w where "w = \<lparr>conn = qa_connection d, clock = 2\<rparr>"
  define u where "u = \<lparr>conn = (qa_connection (execute_schema empty_database))
                \<lparr>faults := [None, None, None, None, Some OperationalError]\<rparr>, clock = 0\<rparr>"
  define issues where "issues =
          [\<lparr>bd_source_line = None, bd_end_line = None, bd_condition = None,
            bd_branch_type = None, bd_parent_issue_id = None,
            cd_type = Some ''CoverageIssue'', cd_line_number = Some 8,
            cd_is_excluded = Some False,
            cd_branches = Some [\<lparr>bd_source_line = Some 8, bd_end_line = Some 9,
                                  bd_condition = Some ''z'', bd_branch_type = Some ''if'',
                                  bd_parent_issue_id = None\<rparr>]\<rparr>]"
  obtain r u' where run: "save_coverage_issues_to_db ''src/lib.py'' issues u = (r, u')"
    by force
  have ri: "map ci_id (rows (coverage_issues (dbw w))) = [1, 2]"
    by (simp add: w_def d_def dbw_def qa_connection_def get_connection_def)
  have rb: "map (\<lambda>b. (cb_id b, cb_coverage_issue_id b)) (rows (coverage_branches (dbw w))) =
      [(1, 1), (2, 1), (3, 2)]"
    by (simp add: w_def d_def dbw_def qa_connection_def get_connection_def)
  have rw: "ready w"
    by (simp add: w_def d_def ready_def qa_world_def dbw_def qa_connection_def
        get_connection_def execute_schema_def)
  have n: "no_orphans (dbw w)"
    by (simp add: no_orphans_def w_def d_def dbw_def qa_connection_def get_connection_def)
  note inst = cascade_integrity[OF rw n, of 1 "''src/lib.py''" issues]
  have fits: "sqlite_int (int 1)"
    by (simp add: sqlite_int_def)
  from inst[THEN conjunct1] fits obtain w' where
    del: "delete_coverage_issue 1 w = (Inr (1 \<in> ci_id ` set (rows (coverage_issues (dbw w)))), w')"
       "rows (coverage_issues (dbw w')) =
          filter (\<lambda>r. ci_id r \<noteq> 1) (rows (coverage_issues (dbw w)))"
       "rows (coverage_branches (dbw w')) =
          filter (\<lambda>b. cb_coverage_issue_id b \<noteq> 1) (rows (coverage_branches (dbw w)))"
       "no_orphans (dbw w')"
    by (simp only: if_True) blast
  have 1: "delete_coverage_issue 1 w = (Inr True, w')"
    using del(1) by (simp add: w_def d_def dbw_def qa_connection_def get_connection_def)
  have 2: "map ci_id (rows (coverage_issues (dbw w'))) = [2]"
    by (simp add: del(2)) (simp add: w_def d_def dbw_def qa_connection_def get_connection_def)
  have 3: "map cb_id (rows (coverage_branches (dbw w'))) = [3]"
    by (simp add: del(3)) (simp add: w_def d_def dbw_def qa_connection_def get_connection_def)
  from 1 2 3 del(4) have first: "\<exists>w'. delete_coverage_issue 1 w = (Inr True, w')
             \<and> map ci_id (rows (coverage_issues (dbw w'))) = [2]
             \<and> map cb_id (rows (coverage_branches (dbw w'))) = [3]
             \<and> no_orphans (dbw w')"
    by (intro exI[of _ w']) simp
  have iu: "integrity u"
    by (simp add: integrity_def no_orphans_def u_def qa_connection_def get_connection_def
        execute_schema_def empty_database_def empty_table_def)
  have ev: "r = Inl OperationalError"
    "map ci_id (rows (coverage_issues (dbw u'))) = [1]"
    "rows (coverage_branches (dbw u')) = []"
    using run
    by (auto simp: u_def issues_def save_coverage_issues_to_db_def dbw_def dict_get_def
        eval_defs sql_defs)
  from inst have "keeps_integrity (save_coverage_issues_to_db ''src/lib.py'' issues)"
    by simp
  with iu run have iu': "integrity u'"
    unfolding keeps_integrity_def by blast
  from rw n first iu ev iu' show ?thesis
    unfolding Let_def d_def[symmetric] w_def[symmetric] u_def[symmetric] issues_def[symmetric]
    by (simp add: run)
qed

end
